theory Spec2Isabelle
  imports Main "HOL-Library.Multiset"
begin

section \<open>Deferred expressions of dask-grblas (expr.py)\<close>

text \<open>
  A shallow embedding of \<^verbatim>\<open>dask_grblas/expr.py\<close>. Python exceptions are values of
  \<open>py_error\<close>; a function that can raise returns \<open>py_error + 'a\<close>. The specification
  names error kinds instead of exception classes: \<^verbatim>\<open>ValueError\<close> and
  \<^verbatim>\<open>NotImplementedError\<close> are its UnsupportedOperation, \<^verbatim>\<open>AssertionError\<close>
  and \<^verbatim>\<open>TypeError\<close> its UsageError.
\<close>

subsection \<open>Sparse values, metadata, errors\<close>

datatype py_error =
    ValueError string
  | NotImplementedError
  | AssertionError
  | AttributeError
  | IndexError
  | TypeError
  | KeyError
  | BackendError string

datatype dtype = BOOL | INT8 | INT64

text \<open>A grblas Scalar: \<open>None\<close> is the empty scalar (\<^verbatim>\<open>is_empty\<close>).\<close>

record scalar =
  s_dtype :: dtype
  s_value :: "int option"

text \<open>A grblas Vector in sparse form: the index array and the value array, entry by entry.\<close>

record vector =
  v_dtype :: dtype
  v_size :: nat
  v_indices :: "nat list"
  v_values :: "int list"

text \<open>A grblas Matrix as its stored entries \<open>((row, column), value)\<close>, in storage order.\<close>

record matrix =
  m_dtype :: dtype
  m_nrows :: nat
  m_ncols :: nat
  m_entries :: "((nat \<times> nat) \<times> int) list"

datatype gbval = GScalar scalar | GVector vector | GMatrix matrix

text \<open>
  The metadata placeholder \<^verbatim>\<open>_meta\<close>: a grblas object of the right type and shape
  that is never filled by the graph; only its dtype, rank, shape and number of stored
  values are read by expr.py.
\<close>

record meta =
  meta_dtype :: dtype
  meta_is_scalar :: bool
  meta_shape :: "nat list"
  meta_nvals :: nat

type_synonym binop = "int \<Rightarrow> int \<Rightarrow> int"

text \<open>Operators: a monoid with its identity and the dtypes it is defined for
  (\<^verbatim>\<open>op.types\<close>), a semiring with its monoid (\<^verbatim>\<open>op.monoid\<close>).\<close>

record monoid =
  mo_op :: binop
  mo_identity :: int
  mo_types :: "dtype list"

record semiring =
  sr_mult :: binop
  sr_monoid :: monoid

text \<open>An argument of a deferred operation: a partitioned object or an operator. Inside a
  block function a partitioned object is replaced by the value of its block.\<close>

datatype 'x arg =
    ObjArg 'x
  | MonoidArg monoid
  | SemiringArg semiring
  | BinopArg binop
  | UnaryArg "int \<Rightarrow> int"

datatype kwarg = KBool bool | KBinop binop | KMonoid monoid

subsection \<open>Blocks and partitioned objects\<close>

text \<open>
  An inner block (\<^verbatim>\<open>InnerBaseType\<close>) wraps one sparse value and carries its dtype
  and rank; \<^verbatim>\<open>FakeInnerTensor\<close> is the block of rank 3 that wraps a matrix. The
  block functions of the reductions and of the product read the entries of the value
  only; the shape adapters read the buffers that hold them, so the record is generic in
  the form of the value.
\<close>

record 'v inner =
  b_value :: 'v
  b_dtype :: dtype
  b_ndim :: nat

type_synonym block = "gbval inner"

fun gb_dtype :: "gbval \<Rightarrow> dtype" where
  "gb_dtype (GScalar s) = s_dtype s"
| "gb_dtype (GVector v) = v_dtype v"
| "gb_dtype (GMatrix m) = m_dtype m"

fun gb_ndim :: "gbval \<Rightarrow> nat" where
  "gb_ndim (GScalar s) = 0"
| "gb_ndim (GVector v) = 1"
| "gb_ndim (GMatrix m) = 2"

text \<open>Modelled from the spec: \<^verbatim>\<open>utils.wrap_inner\<close>, the inner block of a sparse value.\<close>

definition wrap_inner :: "gbval \<Rightarrow> block" where
  "wrap_inner x = \<lparr>b_value = x, b_dtype = gb_dtype x, b_ndim = gb_ndim x\<rparr>"

text \<open>\<^verbatim>\<open>FakeInnerTensor.__init__(self, grblas_matrix)\<close>, with the class attribute \<^verbatim>\<open>ndim = 3\<close>.\<close>

definition FakeInnerTensor :: "matrix \<Rightarrow> block" where
  "FakeInnerTensor grblas_matrix =
     \<lparr>b_value = GMatrix grblas_matrix, b_dtype = m_dtype grblas_matrix, b_ndim = 3\<rparr>"

text \<open>
  A delayed array is represented by the grid of blocks it evaluates to: one block for a
  scalar, a list of blocks for a vector, rows of blocks for a matrix.
\<close>

datatype 'a grid = Grid0 'a | Grid1 "'a list" | Grid2 "'a list list"

text \<open>A partitioned object (\<^verbatim>\<open>BaseType\<close>): its delayed array and its metadata.\<close>

record pobj =
  p_delayed :: "block grid"
  p_meta :: meta

text \<open>Modelled from the spec: \<^verbatim>\<open>utils.get_return_type(meta)(delayed)\<close>, the partitioned
  object of the type of the metadata, over a delayed array.\<close>

definition get_return_type :: "meta \<Rightarrow> block grid \<Rightarrow> pobj" where
  "get_return_type m d = \<lparr>p_delayed = d, p_meta = m\<rparr>"

datatype mask_kind = ValueMask | StructuralMask | ComplementedValueMask | ComplementedStructuralMask

text \<open>Modelled from the spec: a \<^verbatim>\<open>mask.Mask\<close>, the partitioned object it reads, its
  kind (\<^verbatim>\<open>utils.get_grblas_type\<close>) and its metadata.\<close>

record mask =
  mask_type :: mask_kind
  mask_mask :: pobj
  mask_meta :: meta

text \<open>What a caller may pass as \<^verbatim>\<open>mask=\<close>: a Mask, or an object of another class.\<close>

datatype mask_arg = IsMask mask | NotMask

subsection \<open>Values as they are stored\<close>

text \<open>
  A Vector as the backend holds it in sparse form: an index buffer and a value buffer,
  of which the first \<open>sv_nvals\<close> slots hold the entries. The buffers may be longer than
  that (spare capacity; what the further slots hold is whatever was left there), and an
  iso-valued vector keeps one value for all its entries.
\<close>

record svector =
  sv_dtype :: dtype
  sv_size :: nat
  sv_nvals :: nat
  sv_indices :: "nat list"
  sv_values :: "int list"
  sv_is_iso :: bool

text \<open>
  A Matrix as the backend holds it, by rows (CSR) or by columns (CSC): row (column)
  \<open>k\<close> has the entries at the slots \<open>indptr[k] ..< indptr[k+1]\<close> of the index and value
  buffers.
\<close>

datatype orientation = CSR | CSC

record smatrix =
  sm_dtype :: dtype
  sm_nrows :: nat
  sm_ncols :: nat
  sm_format :: orientation
  sm_indptr :: "nat list"
  sm_indices :: "nat list"
  sm_values :: "int list"
  sm_is_iso :: bool

datatype stored = SScalar scalar | SVector svector | SMatrix smatrix

definition slice :: "'a list \<Rightarrow> nat \<Rightarrow> nat \<Rightarrow> 'a list" where
  "slice xs a b = take (b - a) (drop a xs)"

text \<open>The values of \<open>n\<close> slots: the one value of an iso-valued buffer stands for all.\<close>

definition stored_values :: "bool \<Rightarrow> nat \<Rightarrow> int list \<Rightarrow> int list" where
  "stored_values is_iso n vals =
     (if is_iso then (case vals of [] \<Rightarrow> [] | x # _ \<Rightarrow> replicate n x) else vals)"

text \<open>The entries of a stored vector and of a stored matrix.\<close>

definition vector_of :: "svector \<Rightarrow> vector" where
  "vector_of s =
     \<lparr>v_dtype = sv_dtype s, v_size = sv_size s,
      v_indices = take (sv_nvals s) (sv_indices s),
      v_values = take (sv_nvals s) (stored_values (sv_is_iso s) (sv_nvals s) (sv_values s))\<rparr>"

definition matrix_of :: "smatrix \<Rightarrow> matrix" where
  "matrix_of s =
     (let vals = stored_values (sm_is_iso s) (length (sm_indices s)) (sm_values s);
          ptr = sm_indptr s in
      \<lparr>m_dtype = sm_dtype s, m_nrows = sm_nrows s, m_ncols = sm_ncols s,
       m_entries =
         (case sm_format s of
            CSR \<Rightarrow> concat (map (\<lambda>r.
              zip (map (Pair r) (slice (sm_indices s) (ptr ! r) (ptr ! (r + 1))))
                  (slice vals (ptr ! r) (ptr ! (r + 1)))) [0..<sm_nrows s])
          | CSC \<Rightarrow> concat (map (\<lambda>c.
              zip (map (\<lambda>r. (r, c)) (slice (sm_indices s) (ptr ! c) (ptr ! (c + 1))))
                  (slice vals (ptr ! c) (ptr ! (c + 1)))) [0..<sm_ncols s]))\<rparr>)"

fun value_of :: "stored \<Rightarrow> gbval" where
  "value_of (SScalar s) = GScalar s"
| "value_of (SVector v) = GVector (vector_of v)"
| "value_of (SMatrix m) = GMatrix (matrix_of m)"

fun st_dtype :: "stored \<Rightarrow> dtype" where
  "st_dtype (SScalar s) = s_dtype s"
| "st_dtype (SVector v) = sv_dtype v"
| "st_dtype (SMatrix m) = sm_dtype m"

fun st_ndim :: "stored \<Rightarrow> nat" where
  "st_ndim (SScalar s) = 0"
| "st_ndim (SVector v) = 1"
| "st_ndim (SMatrix m) = 2"

text \<open>\<^verbatim>\<open>utils.wrap_inner\<close> on a value given with its buffers.\<close>

definition wrap_stored :: "stored \<Rightarrow> stored inner" where
  "wrap_stored x = \<lparr>b_value = x, b_dtype = st_dtype x, b_ndim = st_ndim x\<rparr>"

subsection \<open>The backend\<close>

datatype index = IInt nat | ISlice nat nat | IList "nat list" | ITuple "index list"

text \<open>
  The grblas updater built by calling a metadata object,
  \<^verbatim>\<open>parent._meta(mask=..., accum=..., replace=...)\<close>.
\<close>

record meta_updater =
  mu_parent :: meta
  mu_mask :: "meta option"
  mu_accum :: "binop option"
  mu_replace :: "bool option"

datatype pyattr = AInt nat | ADtype dtype

datatype node =
    Block block
  | Extractor (ex_inner: node) (ex_index: "index option") (ex_dtype: dtype) (ex_ndim: pyattr)

text \<open>
  The calls into the metadata objects and the indexing kernels belong to the
  sparse-algebra backend, and the slicing of a delayed array to the partitioned-array
  engine; both validate their arguments by rules of their own and are parameters of the
  model.
  \<^item> \<open>meta_expr_new\<close>: \<^verbatim>\<open>expr._meta.new(dtype=d, mask=m)\<close>;
  \<^item> \<open>meta_update\<close>: \<^verbatim>\<open>obj._meta.update(expr_meta)\<close>, returning the updated metadata;
  \<^item> \<open>meta__update\<close>: \<^verbatim>\<open>obj._meta._update(expr_meta, mask=m, accum=a, replace=r)\<close>;
  \<^item> \<open>meta_getitem\<close>: \<^verbatim>\<open>obj._meta[index]\<close>;
  \<^item> \<open>gb_dup\<close>: \<^verbatim>\<open>value.dup(dtype=d, mask=m)\<close>;
  \<^item> \<open>gb_extract\<close>: \<^verbatim>\<open>value[index].new(dtype=d, mask=m)\<close>;
  \<^item> \<open>gb_method\<close>: \<^verbatim>\<open>getattr(x.value, method_name)(*args, **kwargs)\<close>, the elementwise
    expression;
  \<^item> \<open>gb_new\<close>: \<^verbatim>\<open>expr.new(dtype=d, mask=m)\<close>;
  \<^item> \<open>gb_assign\<close>: \<^verbatim>\<open>target << expr\<close>;
  \<^item> \<open>gb_write\<close>: \<^verbatim>\<open>target(accum=a, mask=m, replace=r) << expr\<close>;
  \<^item> \<open>gb_store_vector\<close>, \<open>gb_store_matrix\<close>: the buffers in which the backend holds
    a vector or a matrix that a block function has computed (their capacity, the
    orientation, whether the values are kept iso-valued);
  \<^item> \<open>da_getitem\<close>: \<^verbatim>\<open>delayed[indices]\<close> on a delayed array of Extractor blocks;
  \<^item> \<open>da_split_every\<close>: the fan-in of a tree reduction along each reduced axis, given
    the number of reduced axes.
\<close>

record backend =
  meta_expr_new :: "meta \<Rightarrow> dtype option \<Rightarrow> meta option \<Rightarrow> py_error + meta"
  meta_update :: "meta \<Rightarrow> meta \<Rightarrow> py_error + meta"
  meta__update :: "meta \<Rightarrow> meta \<Rightarrow> meta option \<Rightarrow> binop option \<Rightarrow> bool option
                   \<Rightarrow> py_error + meta"
  meta_getitem :: "meta \<Rightarrow> index \<Rightarrow> py_error + meta"
  gb_dup :: "gbval \<Rightarrow> dtype option \<Rightarrow> (mask_kind \<times> gbval) option \<Rightarrow> py_error + gbval"
  gb_extract :: "gbval \<Rightarrow> index \<Rightarrow> dtype option \<Rightarrow> (mask_kind \<times> gbval) option
                 \<Rightarrow> py_error + gbval"
  gb_method :: "string \<Rightarrow> gbval \<Rightarrow> gbval arg list \<Rightarrow> (string \<times> kwarg) list \<Rightarrow> py_error + gbval"
  gb_new :: "gbval \<Rightarrow> dtype option \<Rightarrow> (mask_kind \<times> gbval) option \<Rightarrow> py_error + gbval"
  gb_assign :: "gbval \<Rightarrow> gbval \<Rightarrow> py_error + gbval"
  gb_write :: "gbval \<Rightarrow> binop option \<Rightarrow> (mask_kind \<times> gbval) option \<Rightarrow> bool option \<Rightarrow> gbval
               \<Rightarrow> py_error + gbval"
  gb_store_vector :: "vector \<Rightarrow> svector"
  gb_store_matrix :: "matrix \<Rightarrow> smatrix"
  da_getitem :: "node grid \<Rightarrow> index \<Rightarrow> py_error + node grid"
  da_split_every :: "nat \<Rightarrow> nat"

text \<open>A block as the backend holds it, and the block of the entries of a stored value.\<close>

definition store :: "backend \<Rightarrow> gbval \<Rightarrow> stored" where
  "store B x =
     (case x of
        GScalar s \<Rightarrow> SScalar s
      | GVector v \<Rightarrow> SVector (gb_store_vector B v)
      | GMatrix m \<Rightarrow> SMatrix (gb_store_matrix B m))"

definition stored_block :: "backend \<Rightarrow> block \<Rightarrow> stored inner" where
  "stored_block B x = \<lparr>b_value = store B (b_value x), b_dtype = b_dtype x, b_ndim = b_ndim x\<rparr>"

definition block_of :: "stored inner \<Rightarrow> block" where
  "block_of x = \<lparr>b_value = value_of (b_value x), b_dtype = b_dtype x, b_ndim = b_ndim x\<rparr>"

text \<open>Modelled from the spec: \<^verbatim>\<open>utils.get_meta\<close>, the metadata of an optional object.\<close>

definition get_meta_mask :: "mask option \<Rightarrow> meta option" where
  "get_meta_mask m = map_option mask_meta m"

subsection \<open>Updater construction\<close>

record updater =
  u_parent :: pobj
  u_mask :: "mask option"
  u_accum :: "binop option"
  u_replace :: "bool option"
  u_meta :: meta_updater

text \<open>
  \<^verbatim>\<open>obj._meta(mask=m, accum=a, replace=r)\<close>: the call of a metadata object, a grblas
  object, builds the backend's updater. The backend refuses a mask on a scalar, and
  \<^verbatim>\<open>replace=True\<close> without a mask, with \<^verbatim>\<open>TypeError\<close>.
\<close>

definition meta_call ::
  "meta \<Rightarrow> meta option \<Rightarrow> binop option \<Rightarrow> bool option \<Rightarrow> py_error + meta_updater" where
  "meta_call p m a r =
     (if m \<noteq> None \<and> meta_is_scalar p then Inl TypeError
      else if m = None \<and> r = Some True then Inl TypeError
      else Inr \<lparr>mu_parent = p, mu_mask = m, mu_accum = a, mu_replace = r\<rparr>)"

text \<open>
  \<^verbatim>\<open>Updater.__init__(self, parent, *, mask=None, accum=None, replace=False)\<close>.
  The keyword default is written out: a caller that passes no \<^verbatim>\<open>replace\<close> passes
  \<open>Some False\<close>; \<open>None\<close> is Python's None passed explicitly.
\<close>

definition Updater_init ::
  "pobj \<Rightarrow> mask option \<Rightarrow> binop option \<Rightarrow> bool option \<Rightarrow> py_error + updater" where
  "Updater_init parent msk accum replace =
     (let self_replace = (if msk = None then None else replace) in
      case meta_call (p_meta parent) (get_meta_mask msk) accum replace of
        Inl e \<Rightarrow> Inl e
      | Inr m \<Rightarrow> Inr \<lparr>u_parent = parent, u_mask = msk, u_accum = accum,
                       u_replace = self_replace, u_meta = m\<rparr>)"

subsection \<open>Extractor and indexed extraction\<close>

text \<open>Python attributes are untyped, so the \<^verbatim>\<open>ndim\<close> attribute of an Extractor is a
  \<open>pyattr\<close>: a number or a dtype.\<close>

fun node_dtype :: "node \<Rightarrow> dtype" where
  "node_dtype (Block b) = b_dtype b"
| "node_dtype (Extractor inner i d n) = d"

text \<open>\<^verbatim>\<open>Extractor.__init__(self, inner, index=None)\<close>\<close>

definition Extractor_init :: "node \<Rightarrow> index option \<Rightarrow> node" where
  "Extractor_init inner i = Extractor inner i (node_dtype inner) (ADtype (node_dtype inner))"

text \<open>\<^verbatim>\<open>Extractor.__getitem__(self, index)\<close>\<close>

definition Extractor_getitem :: "node \<Rightarrow> index option \<Rightarrow> node" where
  "Extractor_getitem self i = Extractor_init self i"

text \<open>
  The loop of \<^verbatim>\<open>_extractor_new\<close>: it walks the chain while \<^verbatim>\<open>inner.index\<close> is not
  None, appending each index, and stops at the first node whose index is None. An inner
  block has no attribute \<^verbatim>\<open>index\<close>.
\<close>

fun collect_indices :: "node \<Rightarrow> index list \<Rightarrow> py_error + (index list \<times> node)" where
  "collect_indices (Block b) indices = Inl AttributeError"
| "collect_indices (Extractor inner None d n) indices = Inr (indices, Extractor inner None d n)"
| "collect_indices (Extractor inner (Some i) d n) indices = collect_indices inner (indices @ [i])"

text \<open>\<^verbatim>\<open>inner.value\<close>: only an inner block has a value.\<close>

fun node_value :: "node \<Rightarrow> py_error + gbval" where
  "node_value (Block b) = Inr (b_value b)"
| "node_value (Extractor inner i d n) = Inl AttributeError"

text \<open>\<^verbatim>\<open>inner = inner.inner\<close> after the loop.\<close>

fun node_inner :: "node \<Rightarrow> py_error + node" where
  "node_inner (Block b) = Inl AttributeError"
| "node_inner (Extractor inner i d n) = Inr inner"

text \<open>\<^verbatim>\<open>if type(index) is tuple and len(index) == 1: index = index[0]\<close>\<close>

fun unwrap_single :: "index \<Rightarrow> index" where
  "unwrap_single (ITuple [i]) = i"
| "unwrap_single i = i"

text \<open>\<^verbatim>\<open>_extractor_new(x, dtype, mask, mask_type)\<close>; the mask block and its kind come
  together or not at all.\<close>

definition extractor_new ::
  "backend \<Rightarrow> node \<Rightarrow> dtype option \<Rightarrow> (mask_kind \<times> block) option \<Rightarrow> py_error + block" where
  "extractor_new B x dt msk =
     (case collect_indices x [] of
        Inl e \<Rightarrow> Inl e
      | Inr (indices, stop) \<Rightarrow>
          (case node_inner stop of
             Inl e \<Rightarrow> Inl e
           | Inr inner \<Rightarrow>
               (let m = map_option (\<lambda>(mask_type, mb). (mask_type, b_value mb)) msk in
                if length indices = 0 then
                  (case node_value inner of
                     Inl e \<Rightarrow> Inl e
                   | Inr v \<Rightarrow> map_sum id wrap_inner (gb_dup B v dt m))
                else if length indices = 1 then
                  (case node_value inner of
                     Inl e \<Rightarrow> Inl e
                   | Inr v \<Rightarrow>
                       map_sum id wrap_inner (gb_extract B v (unwrap_single (indices ! 0)) dt m))
                else Inl NotImplementedError)))"

text \<open>The chain that \<^verbatim>\<open>map_blocks(Extractor)\<close> and the slicing of the delayed array
  build over one inner block: \<^verbatim>\<open>Extractor(block)[i1][i2]...\<close>.\<close>

definition chain :: "block \<Rightarrow> index list \<Rightarrow> node" where
  "chain b ixs = foldl (\<lambda>x i. Extractor_getitem x (Some i)) (Extractor_init (Block b) None) ixs"

text \<open>An indexing expression \<^verbatim>\<open>AmbiguousAssignOrExtract(parent, index)\<close> on a
  partitioned object; \<^verbatim>\<open>_meta\<close> is \<^verbatim>\<open>parent._meta[index]\<close>.\<close>

record assign_or_extract =
  ae_parent :: pobj
  ae_index :: index
  ae_meta :: meta

definition AmbiguousAssignOrExtract_init ::
  "backend \<Rightarrow> pobj \<Rightarrow> index \<Rightarrow> py_error + assign_or_extract" where
  "AmbiguousAssignOrExtract_init B parent i =
     (case meta_getitem B (p_meta parent) i of
        Inl e \<Rightarrow> Inl e
      | Inr m \<Rightarrow> Inr \<lparr>ae_parent = parent, ae_index = i, ae_meta = m\<rparr>)"

fun is_tuple :: "index \<Rightarrow> bool" where
  "is_tuple (ITuple xs) = True"
| "is_tuple i = False"

text \<open>\<^verbatim>\<open>len(indices)\<close>: numbers and slices have no length.\<close>

fun py_len :: "index \<Rightarrow> py_error + nat" where
  "py_len (ITuple xs) = Inr (length xs)"
| "py_len (IList xs) = Inr (length xs)"
| "py_len i = Inl TypeError"

fun map_grid2 :: "('a \<Rightarrow> 'b) \<Rightarrow> 'a grid \<Rightarrow> 'b grid" where
  "map_grid2 f (Grid0 x) = Grid0 (f x)"
| "map_grid2 f (Grid1 xs) = Grid1 (map f xs)"
| "map_grid2 f (Grid2 xss) = Grid2 (map (map f) xss)"

text \<open>The first error of a list of results, or all the results.\<close>

fun sequence :: "('e + 'a) list \<Rightarrow> 'e + 'a list" where
  "sequence [] = Inr []"
| "sequence (x # xs) =
     (case x of Inl e \<Rightarrow> Inl e
      | Inr v \<Rightarrow> (case sequence xs of Inl e \<Rightarrow> Inl e | Inr vs \<Rightarrow> Inr (v # vs)))"

fun sequence_grid :: "('e + 'a) grid \<Rightarrow> 'e + 'a grid" where
  "sequence_grid (Grid0 x) = map_sum id Grid0 x"
| "sequence_grid (Grid1 xs) = map_sum id Grid1 (sequence xs)"
| "sequence_grid (Grid2 xss) = map_sum id Grid2 (sequence (map sequence xss))"

text \<open>
  \<^verbatim>\<open>da.core.elemwise\<close> on two delayed arrays whose block grids are aligned: the
  function is applied to the blocks at the same position. Grids that are not aligned are
  rechunked by the engine before; that is outside the model, which reports it as an error.
\<close>

fun zip_grid :: "'a grid \<Rightarrow> 'b grid \<Rightarrow> py_error + ('a \<times> 'b) grid" where
  "zip_grid (Grid0 x) (Grid0 y) = Inr (Grid0 (x, y))"
| "zip_grid (Grid1 xs) (Grid1 ys) =
     (if length xs = length ys then Inr (Grid1 (zip xs ys)) else Inl (BackendError ''chunks''))"
| "zip_grid (Grid2 xss) (Grid2 yss) =
     (if map length xss = map length yss then Inr (Grid2 (map (\<lambda>(xs, ys). zip xs ys) (zip xss yss)))
      else Inl (BackendError ''chunks''))"
| "zip_grid x y = Inl (BackendError ''chunks'')"

text \<open>\<^verbatim>\<open>AmbiguousAssignOrExtract.new(self, *, dtype=None, mask=None)\<close>\<close>

definition AmbiguousAssignOrExtract_new ::
  "backend \<Rightarrow> assign_or_extract \<Rightarrow> dtype option \<Rightarrow> mask_arg option \<Rightarrow> py_error + pobj" where
  "AmbiguousAssignOrExtract_new B self dt msk =
     (case (case msk of
              Some NotMask \<Rightarrow> Inl AssertionError
            | Some (IsMask m) \<Rightarrow>
                if meta_nvals (p_meta (ae_parent self)) \<noteq> 0 then Inl AssertionError
                else map_sum id (\<lambda>mt. (mt, Some (mask_type m, p_delayed (mask_mask m))))
                       (meta_expr_new B (ae_meta self) dt (Some (mask_meta m)))
            | None \<Rightarrow> map_sum id (\<lambda>mt. (mt, None)) (meta_expr_new B (ae_meta self) dt None)) of
        Inl e \<Rightarrow> Inl e
      | Inr (mt, delayed_mask) \<Rightarrow>
          (let indices =
             (if length (meta_shape (p_meta (ae_parent self))) = 1 \<and> \<not> is_tuple (ae_index self)
              then ITuple [ae_index self] else ae_index self)
           in case py_len indices of
             Inl e \<Rightarrow> Inl e
           | Inr n \<Rightarrow>
               if n = 1 \<or> n = 2 then
                 (case da_getitem B (map_grid2 (\<lambda>b. Extractor_init (Block b) None)
                                       (p_delayed (ae_parent self))) indices of
                    Inl e \<Rightarrow> Inl e
                  | Inr delayed \<Rightarrow>
                      (case delayed_mask of
                         None \<Rightarrow>
                           map_sum id (get_return_type mt)
                             (sequence_grid (map_grid2 (\<lambda>x. extractor_new B x dt None) delayed))
                       | Some (k, dm) \<Rightarrow>
                           (case zip_grid delayed dm of
                              Inl e \<Rightarrow> Inl e
                            | Inr z \<Rightarrow>
                                map_sum id (get_return_type mt)
                                  (sequence_grid
                                     (map_grid2 (\<lambda>(x, mb). extractor_new B x dt (Some (k, mb))) z)))))
               else Inl NotImplementedError))"

subsection \<open>ShapeAdapter: asOneColMatrix, asOneRowMatrix, asVector\<close>

text \<open>
  The raw sparse export of a vector (\<^verbatim>\<open>vector.ss.export(format='sparse', raw=True)\<close>):
  the buffers are handed over as they are stored, not cut to the number of entries; the
  number of entries and the iso flag come with them. A matrix has no such format
  (\<^verbatim>\<open>ValueError\<close>), a scalar has no export. Ownership of the arrays
  (\<^verbatim>\<open>give_ownership\<close>, \<^verbatim>\<open>take_ownership\<close>) is not part of the model.
\<close>

record sparse_contents =
  c_size :: nat
  c_nvals :: nat
  c_indices :: "nat list"
  c_values :: "int list"
  c_dtype :: dtype
  c_is_iso :: bool

definition export_sparse :: "stored \<Rightarrow> py_error + sparse_contents" where
  "export_sparse x =
     (case x of
        SVector v \<Rightarrow>
          Inr \<lparr>c_size = sv_size v, c_nvals = sv_nvals v, c_indices = sv_indices v,
               c_values = sv_values v, c_dtype = sv_dtype v, c_is_iso = sv_is_iso v\<rparr>
      | SMatrix m \<Rightarrow> Inl (ValueError ''Invalid format: sparse'')
      | SScalar s \<Rightarrow> Inl AttributeError)"

text \<open>
  \<^verbatim>\<open>Vector.ss.import_sparse(size=, indices=, values=)\<close> as \<^verbatim>\<open>asVector\<close> calls it, with
  neither \<^verbatim>\<open>nvals\<close> nor \<^verbatim>\<open>is_iso\<close>: the number of entries is taken to be the length of
  the value buffer, and the values are taken as not iso-valued. An index buffer shorter
  than that is refused.
\<close>

definition import_sparse :: "dtype \<Rightarrow> nat \<Rightarrow> nat list \<Rightarrow> int list \<Rightarrow> py_error + svector" where
  "import_sparse dt n indices vals =
     (if length indices < length vals then Inl (BackendError ''InvalidValue'')
      else Inr \<lparr>sv_dtype = dt, sv_size = n, sv_nvals = length vals, sv_indices = indices,
                sv_values = vals, sv_is_iso = False\<rparr>)"

text \<open>
  \<^verbatim>\<open>Matrix.ss.import_csr\<close> and \<^verbatim>\<open>Matrix.ss.import_csc\<close> as the adapters call them, with
  no \<^verbatim>\<open>is_iso\<close>: the matrix keeps the buffers it is given, and the number of its entries
  is the last entry of \<^verbatim>\<open>indptr\<close>.
\<close>

definition import_csr ::
  "dtype \<Rightarrow> nat \<Rightarrow> nat \<Rightarrow> nat list \<Rightarrow> int list \<Rightarrow> nat list \<Rightarrow> py_error + smatrix" where
  "import_csr dt nrows ncols indptr vals col_indices =
     (if length indptr \<noteq> nrows + 1 then Inl (BackendError ''InvalidValue'')
      else if length col_indices < indptr ! nrows then Inl (BackendError ''InvalidValue'')
      else Inr \<lparr>sm_dtype = dt, sm_nrows = nrows, sm_ncols = ncols, sm_format = CSR,
                sm_indptr = indptr, sm_indices = col_indices, sm_values = vals,
                sm_is_iso = False\<rparr>)"

definition import_csc ::
  "dtype \<Rightarrow> nat \<Rightarrow> nat \<Rightarrow> nat list \<Rightarrow> int list \<Rightarrow> nat list \<Rightarrow> py_error + smatrix" where
  "import_csc dt nrows ncols indptr vals row_indices =
     (if length indptr \<noteq> ncols + 1 then Inl (BackendError ''InvalidValue'')
      else if length row_indices < indptr ! ncols then Inl (BackendError ''InvalidValue'')
      else Inr \<lparr>sm_dtype = dt, sm_nrows = nrows, sm_ncols = ncols, sm_format = CSC,
                sm_indptr = indptr, sm_indices = row_indices, sm_values = vals,
                sm_is_iso = False\<rparr>)"

record csr_contents =
  csr_nrows :: nat
  csr_ncols :: nat
  csr_indptr :: "nat list"
  csr_col_indices :: "nat list"
  csr_values :: "int list"
  csr_dtype :: dtype
  csr_is_iso :: bool

record csc_contents =
  csc_nrows :: nat
  csc_ncols :: nat
  csc_indptr :: "nat list"
  csc_row_indices :: "nat list"
  csc_values :: "int list"
  csc_dtype :: dtype
  csc_is_iso :: bool

text \<open>The entries of each row (of each column), in storage order.\<close>

definition by_rows :: "matrix \<Rightarrow> ((nat \<times> nat) \<times> int) list list" where
  "by_rows m = map (\<lambda>r. filter (\<lambda>e. fst (fst e) = r) (m_entries m)) [0..<m_nrows m]"

definition by_cols :: "matrix \<Rightarrow> ((nat \<times> nat) \<times> int) list list" where
  "by_cols m = map (\<lambda>c. filter (\<lambda>e. snd (fst e) = c) (m_entries m)) [0..<m_ncols m]"

definition offsets :: "'a list list \<Rightarrow> nat list" where
  "offsets xss = map (\<lambda>k. sum_list (map length (take k xss))) [0..<length xss + 1]"

text \<open>
  \<^verbatim>\<open>matrix.ss.unpack(format='csr', raw=True)\<close> and the same for \<^verbatim>\<open>'csc'\<close>: a matrix
  held in the orientation asked for gives up its buffers as they are; a matrix held in
  the other orientation is converted first, into buffers that hold its entries and no
  more.
\<close>

definition unpack_csr :: "smatrix \<Rightarrow> csr_contents" where
  "unpack_csr m =
     (case sm_format m of
        CSR \<Rightarrow>
          \<lparr>csr_nrows = sm_nrows m, csr_ncols = sm_ncols m, csr_indptr = sm_indptr m,
           csr_col_indices = sm_indices m, csr_values = sm_values m, csr_dtype = sm_dtype m,
           csr_is_iso = sm_is_iso m\<rparr>
      | CSC \<Rightarrow>
          (let es = by_rows (matrix_of m) in
           \<lparr>csr_nrows = sm_nrows m, csr_ncols = sm_ncols m, csr_indptr = offsets es,
            csr_col_indices = map (\<lambda>e. snd (fst e)) (concat es),
            csr_values = (if sm_is_iso m then take 1 (sm_values m) else map snd (concat es)),
            csr_dtype = sm_dtype m, csr_is_iso = sm_is_iso m\<rparr>))"

definition unpack_csc :: "smatrix \<Rightarrow> csc_contents" where
  "unpack_csc m =
     (case sm_format m of
        CSC \<Rightarrow>
          \<lparr>csc_nrows = sm_nrows m, csc_ncols = sm_ncols m, csc_indptr = sm_indptr m,
           csc_row_indices = sm_indices m, csc_values = sm_values m, csc_dtype = sm_dtype m,
           csc_is_iso = sm_is_iso m\<rparr>
      | CSR \<Rightarrow>
          (let es = by_cols (matrix_of m) in
           \<lparr>csc_nrows = sm_nrows m, csc_ncols = sm_ncols m, csc_indptr = offsets es,
            csc_row_indices = map (\<lambda>e. fst (fst e)) (concat es),
            csc_values = (if sm_is_iso m then take 1 (sm_values m) else map snd (concat es)),
            csc_dtype = sm_dtype m, csc_is_iso = sm_is_iso m\<rparr>))"

text \<open>\<^verbatim>\<open>asOneColMatrix(inner_vector)\<close>: the export's \<^verbatim>\<open>is_iso\<close> is not passed on.\<close>

definition asOneColMatrix :: "stored inner \<Rightarrow> py_error + stored inner" where
  "asOneColMatrix inner_vector =
     (let vector = b_value inner_vector in
      case export_sparse vector of
        Inl e \<Rightarrow> Inl e
      | Inr contents \<Rightarrow>
          map_sum id (\<lambda>m. wrap_stored (SMatrix m))
            (import_csc (c_dtype contents) (c_size contents) 1 [0, c_nvals contents]
               (c_values contents) (c_indices contents)))"

text \<open>\<^verbatim>\<open>asOneRowMatrix(inner_vector)\<close>\<close>

definition asOneRowMatrix :: "stored inner \<Rightarrow> py_error + stored inner" where
  "asOneRowMatrix inner_vector =
     (let vector = b_value inner_vector in
      case export_sparse vector of
        Inl e \<Rightarrow> Inl e
      | Inr contents \<Rightarrow>
          map_sum id (\<lambda>m. wrap_stored (SMatrix m))
            (import_csr (c_dtype contents) 1 (c_size contents) [0, c_nvals contents]
               (c_values contents) (c_indices contents)))"

text \<open>\<^verbatim>\<open>asVector(matrix)\<close>: of the unpacked contents only the size, the index buffer and
  the value buffer are passed on.\<close>

definition asVector :: "smatrix \<Rightarrow> py_error + svector" where
  "asVector m =
     (if sm_nrows m = 1 then
        (let contents = unpack_csr m in
         import_sparse (csr_dtype contents) (csr_ncols contents)
           (csr_col_indices contents) (csr_values contents))
      else if sm_ncols m = 1 then
        (let contents = unpack_csc m in
         import_sparse (csc_dtype contents) (csc_nrows contents)
           (csc_row_indices contents) (csc_values contents))
      else Inl NotImplementedError)"

text \<open>\<^verbatim>\<open>asVector(x.value)\<close> on the result of a lifting.\<close>

definition lowered :: "py_error + stored inner \<Rightarrow> py_error + svector" where
  "lowered r =
     (case r of
        Inl e \<Rightarrow> Inl e
      | Inr b \<Rightarrow> (case b_value b of SMatrix m \<Rightarrow> asVector m | _ \<Rightarrow> Inl AttributeError))"

text \<open>The round trips of a stored vector, and the entries of their results.\<close>

definition roundtrip_row :: "svector \<Rightarrow> py_error + vector" where
  "roundtrip_row v = map_sum id vector_of (lowered (asOneRowMatrix (wrap_stored (SVector v))))"

definition roundtrip_col :: "svector \<Rightarrow> py_error + vector" where
  "roundtrip_col v = map_sum id vector_of (lowered (asOneColMatrix (wrap_stored (SVector v))))"

text \<open>Buffers that hold the entries and no more, with every value written out.\<close>

definition compact_vector :: "vector \<Rightarrow> svector" where
  "compact_vector v =
     \<lparr>sv_dtype = v_dtype v, sv_size = v_size v, sv_nvals = length (v_indices v),
      sv_indices = v_indices v, sv_values = v_values v, sv_is_iso = False\<rparr>"

definition compact_matrix :: "matrix \<Rightarrow> smatrix" where
  "compact_matrix m =
     (let es = by_rows m in
      \<lparr>sm_dtype = m_dtype m, sm_nrows = m_nrows m, sm_ncols = m_ncols m, sm_format = CSR,
       sm_indptr = offsets es, sm_indices = map (\<lambda>e. snd (fst e)) (concat es),
       sm_values = map snd (concat es), sm_is_iso = False\<rparr>)"

text \<open>The value of a block that holds a vector (\<^verbatim>\<open>output.value\<close>, \<^verbatim>\<open>reduced.value\<close>).\<close>

fun block_vector :: "block \<Rightarrow> py_error + vector" where
  "block_vector b = (case b_value b of GVector v \<Rightarrow> Inr v | _ \<Rightarrow> Inl AttributeError)"

subsection \<open>Sparse kernels\<close>

text \<open>
  The block-local kernels are the sparse-algebra backend's. They are written here by
  their GraphBLAS meaning, on the contents of a value: the entry a vector holds at an
  index, or a matrix at a position, if any.
\<close>

text \<open>Typecasting of a value to a dtype, as C does it.\<close>

fun cast :: "dtype \<Rightarrow> int \<Rightarrow> int" where
  "cast BOOL x = (if x = 0 then 0 else 1)"
| "cast INT8 x = (x + 128) mod 256 - 128"
| "cast INT64 x = (x + 2 ^ 63) mod 2 ^ 64 - 2 ^ 63"

text \<open>The dtype of the result of an operation on values of two dtypes.\<close>

fun unify :: "dtype \<Rightarrow> dtype \<Rightarrow> dtype" where
  "unify INT64 y = INT64"
| "unify x INT64 = INT64"
| "unify INT8 y = INT8"
| "unify x INT8 = INT8"
| "unify BOOL BOOL = BOOL"

text \<open>
  The monoid of a dtype, \<^verbatim>\<open>op[dtype]\<close>: its results, and its identity, are values of the
  dtype. A kernel looks it up by the dtype of its operands, and the lookup fails
  (\<^verbatim>\<open>KeyError\<close>) for a dtype that the monoid is not defined for.
\<close>

definition at_dtype :: "monoid \<Rightarrow> dtype \<Rightarrow> monoid" where
  "at_dtype op dt =
     \<lparr>mo_op = (\<lambda>a b. cast dt (mo_op op a b)), mo_identity = cast dt (mo_identity op),
      mo_types = mo_types op\<rparr>"

definition has_dtype :: "monoid \<Rightarrow> dtype \<Rightarrow> bool" where
  "has_dtype op dt \<longleftrightarrow> dt \<in> set (mo_types op)"

definition v_get :: "vector \<Rightarrow> nat \<Rightarrow> int option" where
  "v_get v i = map_of (zip (v_indices v) (v_values v)) i"

definition m_get :: "matrix \<Rightarrow> nat \<Rightarrow> nat \<Rightarrow> int option" where
  "m_get m i j = map_of (m_entries m) (i, j)"

text \<open>The value with the given contents, entries in ascending order of position.\<close>

definition entries_of :: "'k list \<Rightarrow> ('k \<Rightarrow> int option) \<Rightarrow> ('k \<times> int) list" where
  "entries_of ks f = List.map_filter (\<lambda>k. map_option (Pair k) (f k)) ks"

definition vec_of :: "dtype \<Rightarrow> nat \<Rightarrow> (nat \<Rightarrow> int option) \<Rightarrow> vector" where
  "vec_of dt n f =
     \<lparr>v_dtype = dt, v_size = n, v_indices = map fst (entries_of [0..<n] f),
      v_values = map snd (entries_of [0..<n] f)\<rparr>"

definition mat_of :: "dtype \<Rightarrow> nat \<Rightarrow> nat \<Rightarrow> (nat \<Rightarrow> nat \<Rightarrow> int option) \<Rightarrow> matrix" where
  "mat_of dt nr nc f =
     \<lparr>m_dtype = dt, m_nrows = nr, m_ncols = nc,
      m_entries = entries_of (List.product [0..<nr] [0..<nc]) (\<lambda>(i, j). f i j)\<rparr>"

text \<open>The stored values of a vector, of a matrix row, of a matrix column, of a matrix.\<close>

definition vector_values :: "vector \<Rightarrow> int list" where
  "vector_values v = List.map_filter (v_get v) [0..<v_size v]"

definition row_values :: "matrix \<Rightarrow> nat \<Rightarrow> int list" where
  "row_values m i = List.map_filter (m_get m i) [0..<m_ncols m]"

definition col_values :: "matrix \<Rightarrow> nat \<Rightarrow> int list" where
  "col_values m j = List.map_filter (\<lambda>i. m_get m i j) [0..<m_nrows m]"

definition matrix_values :: "matrix \<Rightarrow> int list" where
  "matrix_values m = concat (map (row_values m) [0..<m_nrows m])"

text \<open>Folding values with a monoid, from its identity.\<close>

definition msum :: "monoid \<Rightarrow> int list \<Rightarrow> int" where
  "msum op xs = foldr (mo_op op) xs (mo_identity op)"

text \<open>The same where no value means no entry.\<close>

definition msum_entry :: "monoid \<Rightarrow> int list \<Rightarrow> int option" where
  "msum_entry op xs = (if xs = [] then None else Some (msum op xs))"

text \<open>\<^verbatim>\<open>vector.reduce(op).new(dtype=dt)\<close> and \<^verbatim>\<open>matrix.reduce_scalar(op).new(dtype=dt)\<close>:
  a scalar that holds the fold of the stored values with the monoid of their dtype, the
  identity when there are none, cast to \<open>dt\<close>.\<close>

definition vector_reduce :: "monoid \<Rightarrow> dtype \<Rightarrow> vector \<Rightarrow> scalar" where
  "vector_reduce op dt v =
     \<lparr>s_dtype = dt, s_value = Some (cast dt (msum (at_dtype op (v_dtype v)) (vector_values v)))\<rparr>"

definition matrix_reduce_scalar :: "monoid \<Rightarrow> dtype \<Rightarrow> matrix \<Rightarrow> scalar" where
  "matrix_reduce_scalar op dt m =
     \<lparr>s_dtype = dt, s_value = Some (cast dt (msum (at_dtype op (m_dtype m)) (matrix_values m)))\<rparr>"

text \<open>\<^verbatim>\<open>matrix.reduce_rowwise(op).new(dtype=dt)\<close>, \<^verbatim>\<open>matrix.reduce_columnwise(op).new(dtype=dt)\<close>:
  a row (a column) without stored values gives no entry.\<close>

definition matrix_reduce_rowwise :: "monoid \<Rightarrow> dtype \<Rightarrow> matrix \<Rightarrow> vector" where
  "matrix_reduce_rowwise op dt m =
     vec_of dt (m_nrows m)
       (\<lambda>i. map_option (cast dt) (msum_entry (at_dtype op (m_dtype m)) (row_values m i)))"

definition matrix_reduce_columnwise :: "monoid \<Rightarrow> dtype \<Rightarrow> matrix \<Rightarrow> vector" where
  "matrix_reduce_columnwise op dt m =
     vec_of dt (m_ncols m)
       (\<lambda>j. map_option (cast dt) (msum_entry (at_dtype op (m_dtype m)) (col_values m j)))"

text \<open>The union of two optional entries under a binary operator.\<close>

fun union_op :: "binop \<Rightarrow> int option \<Rightarrow> int option \<Rightarrow> int option" where
  "union_op f (Some a) (Some b) = Some (f a b)"
| "union_op f (Some a) None = Some a"
| "union_op f None b = b"

text \<open>\<^verbatim>\<open>x.ewise_add(y, op).new()\<close> on vectors and on matrices, with a monoid: the monoid
  of the dtype of the operands is looked up, the shapes must agree, and the entries of
  the result are values of that dtype.\<close>

definition vector_ewise_add :: "monoid \<Rightarrow> vector \<Rightarrow> vector \<Rightarrow> py_error + vector" where
  "vector_ewise_add op x y =
     (let dt = unify (v_dtype x) (v_dtype y) in
      if \<not> has_dtype op dt then Inl KeyError
      else if v_size x \<noteq> v_size y then Inl (BackendError ''DimensionMismatch'')
      else Inr (vec_of dt (v_size x)
             (\<lambda>i. map_option (cast dt) (union_op (mo_op (at_dtype op dt)) (v_get x i) (v_get y i)))))"

definition matrix_ewise_add :: "monoid \<Rightarrow> matrix \<Rightarrow> matrix \<Rightarrow> py_error + matrix" where
  "matrix_ewise_add op x y =
     (let dt = unify (m_dtype x) (m_dtype y) in
      if \<not> has_dtype op dt then Inl KeyError
      else if m_nrows x = m_nrows y \<and> m_ncols x = m_ncols y
      then Inr (mat_of dt (m_nrows x) (m_ncols x)
             (\<lambda>i j. map_option (cast dt)
                (union_op (mo_op (at_dtype op dt)) (m_get x i j) (m_get y i j))))
      else Inl (BackendError ''DimensionMismatch''))"

text \<open>\<^verbatim>\<open>op(a @ b).new(dtype=dt)\<close>: the product of two matrices over a semiring. Entry
  \<open>(i, k)\<close> folds the products \<open>a(i, j) * b(j, k)\<close> over the \<open>j\<close> where both are stored.\<close>

definition matrix_mxm :: "semiring \<Rightarrow> dtype \<Rightarrow> matrix \<Rightarrow> matrix \<Rightarrow> py_error + matrix" where
  "matrix_mxm op dt a b =
     (if m_ncols a \<noteq> m_nrows b then Inl (BackendError ''DimensionMismatch'')
      else Inr (mat_of dt (m_nrows a) (m_ncols b)
        (\<lambda>i k. map_option (cast dt)
           (msum_entry (sr_monoid op)
              (List.map_filter
                 (\<lambda>j. case (m_get a i j, m_get b j k) of
                         (Some x, Some y) \<Rightarrow> Some (sr_mult op x y) | _ \<Rightarrow> None)
                 [0..<m_ncols a])))))"

text \<open>\<^verbatim>\<open>Vector.from_values(indices, values, size=n, dtype=dt)\<close>; a missing value cannot be
  stored.\<close>

definition from_values :: "nat list \<Rightarrow> int option list \<Rightarrow> nat \<Rightarrow> dtype \<Rightarrow> py_error + vector" where
  "from_values indices vals n dt =
     (if None \<notin> set vals \<and> length indices = length vals
      then Inr \<lparr>v_dtype = dt, v_size = n, v_indices = indices,
                v_values = map (cast dt) (List.map_filter id vals)\<rparr>
      else Inl TypeError)"

subsection \<open>ReductionEngine\<close>

text \<open>
  What the engine hands to a combine function: one block, a list of blocks (one reduced
  axis) or a list of lists of blocks (two reduced axes).
\<close>

datatype 'a nested = Leaf 'a | List1 "'a list" | List2 "'a list list"

text \<open>\<^verbatim>\<open>_reduce(op, gb_dtype, x, ...)\<close>: \<^verbatim>\<open>x.value.reduce(op).new(dtype=gb_dtype)\<close>, a
  method of vectors.\<close>

definition fn_reduce :: "monoid \<Rightarrow> dtype \<Rightarrow> block \<Rightarrow> py_error + block" where
  "fn_reduce op gb_dt x =
     (case b_value x of
        GVector v \<Rightarrow>
          if has_dtype op (v_dtype v) then Inr (wrap_inner (GScalar (vector_reduce op gb_dt v)))
          else Inl KeyError
      | _ \<Rightarrow> Inl AttributeError)"

text \<open>\<^verbatim>\<open>_reduce_scalar(op, gb_dtype, x, ...)\<close>: \<^verbatim>\<open>x.value.reduce_scalar(op).new(dtype=gb_dtype)\<close>,
  a method of matrices.\<close>

definition fn_reduce_scalar :: "monoid \<Rightarrow> dtype \<Rightarrow> block \<Rightarrow> py_error + block" where
  "fn_reduce_scalar op gb_dt x =
     (case b_value x of
        GMatrix m \<Rightarrow>
          if has_dtype op (m_dtype m)
          then Inr (wrap_inner (GScalar (matrix_reduce_scalar op gb_dt m)))
          else Inl KeyError
      | _ \<Rightarrow> Inl AttributeError)"

text \<open>\<^verbatim>\<open>_reduce_axis(op, gb_dtype, x, axis=...)\<close>: row-wise for \<^verbatim>\<open>axis == (1,)\<close>,
  column-wise for \<^verbatim>\<open>axis == (0,)\<close>; for another axis the function returns nothing, and
  the use of the result fails.\<close>

definition fn_reduce_axis :: "monoid \<Rightarrow> dtype \<Rightarrow> nat list \<Rightarrow> block \<Rightarrow> py_error + block" where
  "fn_reduce_axis op gb_dt axis x =
     (if axis = [1] then
        (case b_value x of
           GMatrix m \<Rightarrow>
             if has_dtype op (m_dtype m)
             then Inr (wrap_inner (GVector (matrix_reduce_rowwise op gb_dt m)))
             else Inl KeyError
         | _ \<Rightarrow> Inl AttributeError)
      else if axis = [0] then
        (case b_value x of
           GMatrix m \<Rightarrow>
             if has_dtype op (m_dtype m)
             then Inr (wrap_inner (GVector (matrix_reduce_columnwise op gb_dt m)))
             else Inl KeyError
         | _ \<Rightarrow> Inl AttributeError)
      else Inl AttributeError)"

text \<open>\<^verbatim>\<open>x.ewise_add(y, op).new()\<close> on two values: vectors or matrices of one kind.\<close>

fun gb_ewise_add :: "monoid \<Rightarrow> gbval \<Rightarrow> gbval \<Rightarrow> py_error + gbval" where
  "gb_ewise_add f (GVector x) (GVector y) = map_sum id GVector (vector_ewise_add f x y)"
| "gb_ewise_add f (GMatrix x) (GMatrix y) = map_sum id GMatrix (matrix_ewise_add f x y)"
| "gb_ewise_add f (GScalar x) y = Inl AttributeError"
| "gb_ewise_add f x y = Inl TypeError"

text \<open>\<^verbatim>\<open>functools.reduce(f, vals)\<close> without initial value: it raises on an empty list,
  and an exception of \<open>f\<close> ends it.\<close>

fun foldl_err :: "('a \<Rightarrow> 'a \<Rightarrow> py_error + 'a) \<Rightarrow> 'a \<Rightarrow> 'a list \<Rightarrow> py_error + 'a" where
  "foldl_err f a [] = Inr a"
| "foldl_err f a (x # xs) = (case f a x of Inl e \<Rightarrow> Inl e | Inr a' \<Rightarrow> foldl_err f a' xs)"

fun functools_reduce :: "('a \<Rightarrow> 'a \<Rightarrow> py_error + 'a) \<Rightarrow> 'a list \<Rightarrow> py_error + 'a" where
  "functools_reduce f [] = Inl TypeError"
| "functools_reduce f (x # xs) = foldl_err f x xs"

text \<open>\<^verbatim>\<open>_reduce_axis_combine(op, x, ...)\<close>\<close>

fun fn_reduce_axis_combine :: "monoid \<Rightarrow> block nested \<Rightarrow> py_error + block" where
  "fn_reduce_axis_combine op (Leaf x) = Inr x"
| "fn_reduce_axis_combine op (List1 x) =
     map_sum id wrap_inner (functools_reduce (gb_ewise_add op) (map b_value x))"
| "fn_reduce_axis_combine op (List2 x) = Inl AttributeError"

text \<open>\<^verbatim>\<open>val.value.value\<close>: the Python value of the scalar in a block, None when the scalar
  is empty.\<close>

fun block_scalar_value :: "block \<Rightarrow> py_error + int option" where
  "block_scalar_value b = (case b_value b of GScalar s \<Rightarrow> Inr (s_value s) | _ \<Rightarrow> Inl AttributeError)"

text \<open>The list branches of \<^verbatim>\<open>_reduce_combine\<close>:
  \<^verbatim>\<open>Vector.from_values(list(range(len(vals))), vals, size=len(vals), dtype=dtype)\<close>
  followed by \<^verbatim>\<open>values.reduce(op).new()\<close>, which looks up the monoid of \<^verbatim>\<open>dtype\<close>.\<close>

definition pack_reduce :: "monoid \<Rightarrow> dtype \<Rightarrow> block list \<Rightarrow> py_error + block" where
  "pack_reduce op dt bs =
     (case sequence (map block_scalar_value bs) of
        Inl e \<Rightarrow> Inl e
      | Inr vals \<Rightarrow>
          (case from_values [0..<length vals] vals (length vals) dt of
             Inl e \<Rightarrow> Inl e
           | Inr vs \<Rightarrow>
               if has_dtype op dt then Inr (wrap_inner (GScalar (vector_reduce op dt vs)))
               else Inl KeyError))"

text \<open>
  \<^verbatim>\<open>_reduce_combine(op, x, ..., dtype=dtype)\<close>: the partial scalars are packed into a
  dense vector, which is reduced once more. \<^verbatim>\<open>x[0]\<close> raises on an empty list.
\<close>

fun fn_reduce_combine :: "monoid \<Rightarrow> dtype \<Rightarrow> block nested \<Rightarrow> py_error + block" where
  "fn_reduce_combine op dt (Leaf x) = Inr x"
| "fn_reduce_combine op dt (List1 x) = (if x = [] then Inl IndexError else pack_reduce op dt x)"
| "fn_reduce_combine op dt (List2 x) = (if x = [] then Inl IndexError else pack_reduce op dt (concat x))"

subsection \<open>Tree reduction of the partitioned-array engine\<close>

text \<open>Consecutive groups of \<open>k\<close> elements, the last one possibly shorter.\<close>

function chunks :: "nat \<Rightarrow> 'a list \<Rightarrow> 'a list list" where
  "chunks k xs = (if k = 0 \<or> xs = [] then [] else take k xs # chunks k (drop k xs))"
  by pat_completeness auto
termination
  by (relation "measure (\<lambda>(k, xs). length xs)") auto

declare chunks.simps [simp del]

text \<open>The tiles of \<open>k\<close> by \<open>k\<close> blocks of a grid: for each group of rows, for each group of
  columns, the rows of the tile.\<close>

definition tiles :: "nat \<Rightarrow> 'a list list \<Rightarrow> 'a list list list list" where
  "tiles k g = map (\<lambda>rg. transpose (map (chunks k) rg)) (chunks k g)"

text \<open>The number of rounds: the least \<open>d \<ge> 1\<close> with \<open>n \<le> k ^ d\<close>.\<close>

definition da_depth :: "nat \<Rightarrow> nat \<Rightarrow> nat" where
  "da_depth k n = Suc (length (takeWhile (\<lambda>d. k ^ d < n) [1..<n]))"

text \<open>
  A tree reduction along one axis and along two: each round but the last combines the
  groups of \<open>k\<close> neighbouring blocks; after them at most \<open>k\<close> blocks are left along each
  axis, and the last round combines them all.
\<close>

fun tree_reduce1 ::
  "nat \<Rightarrow> ('a nested \<Rightarrow> py_error + 'a) \<Rightarrow> nat \<Rightarrow> 'a list \<Rightarrow> py_error + 'a" where
  "tree_reduce1 k f 0 xs = f (List1 xs)"
| "tree_reduce1 k f (Suc d) xs =
     (case sequence (map (\<lambda>g. f (List1 g)) (chunks k xs)) of
        Inl e \<Rightarrow> Inl e
      | Inr ys \<Rightarrow> tree_reduce1 k f d ys)"

fun tree_reduce2 ::
  "nat \<Rightarrow> ('a nested \<Rightarrow> py_error + 'a) \<Rightarrow> nat \<Rightarrow> 'a list list \<Rightarrow> py_error + 'a" where
  "tree_reduce2 k f 0 g = f (List2 g)"
| "tree_reduce2 k f (Suc d) g =
     (case sequence (map (\<lambda>row. sequence (map (\<lambda>t. f (List2 t)) row)) (tiles k g)) of
        Inl e \<Rightarrow> Inl e
      | Inr g' \<Rightarrow> tree_reduce2 k f d g')"

text \<open>
  \<^verbatim>\<open>da.reduction(x, chunk, aggregate, concatenate=False, axis=axis)\<close>: the chunk function
  on every block, then the tree of aggregations. \<open>None\<close> is \<^verbatim>\<open>axis=None\<close>, all axes.
  Both functions are told the reduced axes.
\<close>

definition da_reduction ::
  "backend \<Rightarrow> block grid \<Rightarrow> (nat list \<Rightarrow> block \<Rightarrow> py_error + block)
    \<Rightarrow> (block nested \<Rightarrow> py_error + block) \<Rightarrow> nat option \<Rightarrow> py_error + block grid" where
  "da_reduction B x chunk aggregate axis =
     (case x of
        Grid0 b \<Rightarrow>
          (if axis \<noteq> None then Inl (BackendError ''AxisError'')
           else case chunk [] b of Inl e \<Rightarrow> Inl e
                | Inr p \<Rightarrow> map_sum id Grid0 (aggregate (Leaf p)))
      | Grid1 xs \<Rightarrow>
          (if axis \<noteq> None \<and> axis \<noteq> Some 0 then Inl (BackendError ''AxisError'')
           else case sequence (map (chunk [0]) xs) of Inl e \<Rightarrow> Inl e
                | Inr ps \<Rightarrow>
                    (let k = da_split_every B 1 in
                     map_sum id Grid0 (tree_reduce1 k aggregate (da_depth k (length ps) - 1) ps)))
      | Grid2 xss \<Rightarrow>
          (case axis of
             None \<Rightarrow>
               (case sequence (map (\<lambda>row. sequence (map (chunk [0, 1]) row)) xss) of
                  Inl e \<Rightarrow> Inl e
                | Inr pss \<Rightarrow>
                    (let k = da_split_every B 2;
                         d = max (da_depth k (length pss))
                               (da_depth k (case pss of [] \<Rightarrow> 0 | r # _ \<Rightarrow> length r))
                     in map_sum id Grid0 (tree_reduce2 k aggregate (d - 1) pss)))
           | Some a \<Rightarrow>
               (if 2 \<le> a then Inl (BackendError ''AxisError'')
                else case sequence (map (\<lambda>row. sequence (map (chunk [a]) row)) xss) of
                  Inl e \<Rightarrow> Inl e
                | Inr pss \<Rightarrow>
                    (let k = da_split_every B 1;
                         lines = (if a = 1 then pss else transpose pss)
                     in map_sum id Grid1
                          (sequence (map (\<lambda>ps. tree_reduce1 k aggregate
                                                  (da_depth k (length ps) - 1) ps) lines))))))"

subsection \<open>DeferredExpression\<close>

text \<open>\<^verbatim>\<open>GbDelayed(parent, method_name, *args, meta=meta, **kwargs)\<close>\<close>

record gbdelayed =
  e_parent :: pobj
  e_method_name :: string
  e_args :: "pobj arg list"
  e_kwargs :: "(string \<times> kwarg) list"
  e_meta :: meta

text \<open>\<^verbatim>\<open>assert not self.kwargs\<close> and \<^verbatim>\<open>op = self.args[0]\<close> in the reductions; an
  argument that is no monoid is refused by the backend.\<close>

definition reduce_op :: "gbdelayed \<Rightarrow> py_error + monoid" where
  "reduce_op self =
     (if e_kwargs self \<noteq> [] then Inl AssertionError
      else case e_args self of
             [] \<Rightarrow> Inl IndexError
           | MonoidArg op # _ \<Rightarrow> Inr op
           | _ \<Rightarrow> Inl TypeError)"

text \<open>Modelled from the spec: \<^verbatim>\<open>utils.np_dtype\<close> names the same dtype for the engine.\<close>

text \<open>\<^verbatim>\<open>GbDelayed._reduce(self, dtype)\<close>\<close>

definition GbDelayed_reduce :: "backend \<Rightarrow> gbdelayed \<Rightarrow> dtype \<Rightarrow> py_error + block grid" where
  "GbDelayed_reduce B self dt =
     (case reduce_op self of
        Inl e \<Rightarrow> Inl e
      | Inr op \<Rightarrow>
          da_reduction B (p_delayed (e_parent self)) (\<lambda>axis. fn_reduce op dt)
            (fn_reduce_combine op dt) None)"

text \<open>\<^verbatim>\<open>GbDelayed._reduce_scalar(self, dtype)\<close>\<close>

definition GbDelayed_reduce_scalar :: "backend \<Rightarrow> gbdelayed \<Rightarrow> dtype \<Rightarrow> py_error + block grid" where
  "GbDelayed_reduce_scalar B self dt =
     (case reduce_op self of
        Inl e \<Rightarrow> Inl e
      | Inr op \<Rightarrow>
          da_reduction B (p_delayed (e_parent self)) (\<lambda>axis. fn_reduce_scalar op dt)
            (fn_reduce_combine op dt) None)"

text \<open>\<^verbatim>\<open>GbDelayed._reduce_along_axis(self, axis, dtype)\<close>\<close>

definition GbDelayed_reduce_along_axis ::
  "backend \<Rightarrow> gbdelayed \<Rightarrow> nat \<Rightarrow> dtype \<Rightarrow> py_error + block grid" where
  "GbDelayed_reduce_along_axis B self axis dt =
     (case reduce_op self of
        Inl e \<Rightarrow> Inl e
      | Inr op \<Rightarrow>
          da_reduction B (p_delayed (e_parent self)) (fn_reduce_axis op dt)
            (fn_reduce_axis_combine op) (Some axis))"

subsection \<open>BlockwiseMatMulEngine\<close>

text \<open>\<^verbatim>\<open>_matmul2(op, dtype, a, b)\<close>: \<^verbatim>\<open>FakeInnerTensor(op(a.value @ b.value).new(dtype=dtype))\<close>\<close>

definition fn_matmul2 :: "semiring \<Rightarrow> dtype \<Rightarrow> block \<Rightarrow> block \<Rightarrow> py_error + block" where
  "fn_matmul2 op dt a b =
     (case (b_value a, b_value b) of
        (GMatrix x, GMatrix y) \<Rightarrow> map_sum id FakeInnerTensor (matrix_mxm op dt x y)
      | _ \<Rightarrow> Inl TypeError)"

text \<open>\<^verbatim>\<open>_sum_by_monoid(monoid, a, axis, keepdims)\<close>. A FakeInnerTensor holds a matrix, so
  \<^verbatim>\<open>FakeInnerTensor(out)\<close> asserts that the sum is one.\<close>

definition fn_sum_by_monoid :: "monoid \<Rightarrow> bool \<Rightarrow> block nested \<Rightarrow> py_error + block" where
  "fn_sum_by_monoid mon keepdims a =
     (case (case a of
              Leaf x \<Rightarrow> Inr x
            | List1 xs \<Rightarrow>
                (case functools_reduce (gb_ewise_add mon) (map b_value xs) of
                   Inl e \<Rightarrow> Inl e
                 | Inr (GMatrix m) \<Rightarrow> Inr (FakeInnerTensor m)
                 | Inr _ \<Rightarrow> Inl AssertionError)
            | List2 xss \<Rightarrow> Inl AttributeError) of
        Inl e \<Rightarrow> Inl e
      | Inr out \<Rightarrow> if \<not> keepdims then Inr (wrap_inner (b_value out)) else Inr out)"

text \<open>
  \<^verbatim>\<open>sum_by_monoid(monoid, a, axis=-2)\<close> on the three-dimensional result of the
  blockwise product, \<open>slab ! i ! j ! k\<close>: a reduction along the middle axis with
  \<^verbatim>\<open>_sum_by_monoid\<close> as chunk, combine and aggregate function; the engine keeps the
  dimensions in every round but the last.
\<close>

fun tree_sum :: "nat \<Rightarrow> monoid \<Rightarrow> nat \<Rightarrow> block list \<Rightarrow> py_error + block" where
  "tree_sum k mon 0 xs = fn_sum_by_monoid mon False (List1 xs)"
| "tree_sum k mon (Suc d) xs =
     (case sequence (map (\<lambda>g. fn_sum_by_monoid mon True (List1 g)) (chunks k xs)) of
        Inl e \<Rightarrow> Inl e
      | Inr ys \<Rightarrow> tree_sum k mon d ys)"

definition sum_by_monoid :: "backend \<Rightarrow> monoid \<Rightarrow> block list list list \<Rightarrow> py_error + block list list" where
  "sum_by_monoid B mon slab =
     sequence (map (\<lambda>plane.
       sequence (map (\<lambda>line.
         case sequence (map (\<lambda>x. fn_sum_by_monoid mon True (Leaf x)) line) of
           Inl e \<Rightarrow> Inl e
         | Inr ps \<Rightarrow>
             (let k = da_split_every B 1 in tree_sum k mon (da_depth k (length ps) - 1) ps))
       (transpose plane))) slab)"

fun grid_ndim :: "'a grid \<Rightarrow> nat" where
  "grid_ndim (Grid0 x) = 0"
| "grid_ndim (Grid1 xs) = 1"
| "grid_ndim (Grid2 xss) = 2"

text \<open>\<^verbatim>\<open>a.map_blocks(asOneRowMatrix, new_axis=0)\<close> and
  \<^verbatim>\<open>b.map_blocks(asOneColMatrix, new_axis=1)\<close> on a one-dimensional delayed array.\<close>

definition map_blocks_row :: "backend \<Rightarrow> block list \<Rightarrow> py_error + block list list" where
  "map_blocks_row B xs =
     map_sum id (\<lambda>r. [r])
       (sequence (map (\<lambda>x. map_sum id block_of (asOneRowMatrix (stored_block B x))) xs))"

definition map_blocks_col :: "backend \<Rightarrow> block list \<Rightarrow> py_error + block list list" where
  "map_blocks_col B xs =
     map_sum id (map (\<lambda>x. [x]))
       (sequence (map (\<lambda>x. map_sum id block_of (asOneColMatrix (stored_block B x))) xs))"

text \<open>
  \<^verbatim>\<open>da.core.blockwise(f, (0, 1, 2), a, (0, 1), b, (1, 2), concatenate=False)\<close>: block
  \<open>(i, j, k)\<close> of the result is \<open>f\<close> of block \<open>(i, j)\<close> of \<open>a\<close> and block \<open>(j, k)\<close> of
  \<open>b\<close>. The grids must have as many blocks along the shared axis.
\<close>

definition blockwise3 ::
  "(block \<Rightarrow> block \<Rightarrow> py_error + block) \<Rightarrow> block list list \<Rightarrow> block list list
    \<Rightarrow> py_error + block list list list" where
  "blockwise3 f a b =
     (if list_ex (\<lambda>row. length row \<noteq> length b) a then Inl (BackendError ''chunks'')
      else sequence (map (\<lambda>row.
             sequence (map (\<lambda>(x, brow). sequence (map (f x) brow)) (zip row b))) a))"

text \<open>Modelled from the spec: the slicings \<^verbatim>\<open>out[..., 0, :]\<close> and \<^verbatim>\<open>out[..., 0]\<close>, which
  drop the axis that lifting an operand added: every block of the single row (of the
  single column) of blocks goes back to a vector, by \<^verbatim>\<open>asVector\<close>.\<close>

definition block_asVector :: "backend \<Rightarrow> block \<Rightarrow> py_error + block" where
  "block_asVector B x =
     (case store B (b_value x) of
        SMatrix m \<Rightarrow> map_sum id (\<lambda>v. wrap_inner (GVector (vector_of v))) (asVector m)
      | _ \<Rightarrow> Inl AttributeError)"

definition drop_row_axis :: "backend \<Rightarrow> block list list \<Rightarrow> py_error + block list" where
  "drop_row_axis B out =
     (case out of
        [row] \<Rightarrow> sequence (map (block_asVector B) row)
      | _ \<Rightarrow> Inl (BackendError ''getitem''))"

definition drop_col_axis :: "backend \<Rightarrow> block list list \<Rightarrow> py_error + block list" where
  "drop_col_axis B out =
     (if list_all (\<lambda>row. length row = 1) out then sequence (map (block_asVector B) (concat out))
      else Inl (BackendError ''getitem''))"

text \<open>The lifting of the metadata, \<^verbatim>\<open>asOneRowMatrix(wrap_inner(meta))\<close>: the metadata
  must be a vector's.\<close>

definition lift_meta :: "meta \<Rightarrow> py_error + meta" where
  "lift_meta m = (if length (meta_shape m) = 1 then Inr m else Inl AttributeError)"

text \<open>
  \<^verbatim>\<open>GbDelayed._matmul2(self, meta)\<close>. \<^verbatim>\<open>sum_meta\<close> is bound only when an operand is
  one-dimensional; with two matrices its use raises (\<^verbatim>\<open>UnboundLocalError\<close>, a
  \<^verbatim>\<open>NameError\<close>). When both operands are one-dimensional the second slicing meets a
  one-dimensional array of vectors, which is outside the model.
\<close>

definition GbDelayed_matmul2 :: "backend \<Rightarrow> gbdelayed \<Rightarrow> meta \<Rightarrow> py_error + block grid" where
  "GbDelayed_matmul2 B self mt =
     (case e_args self of
        ObjArg b # SemiringArg op # _ \<Rightarrow>
          (let a = p_delayed (e_parent self); b = p_delayed b;
               a_is_1d = (grid_ndim a = 1); b_is_1d = (grid_ndim b = 1) in
           case (case a of
                   Grid1 xs \<Rightarrow> (case lift_meta mt of Inl e \<Rightarrow> Inl e | Inr _ \<Rightarrow> map_blocks_row B xs)
                 | Grid2 xss \<Rightarrow> Inr xss
                 | Grid0 x \<Rightarrow> Inl (BackendError ''blockwise'')) of
             Inl e \<Rightarrow> Inl e
           | Inr a2 \<Rightarrow>
               (case (case b of
                        Grid1 ys \<Rightarrow> (case lift_meta mt of Inl e \<Rightarrow> Inl e | Inr _ \<Rightarrow> map_blocks_col B ys)
                      | Grid2 yss \<Rightarrow> Inr yss
                      | Grid0 y \<Rightarrow> Inl (BackendError ''blockwise'')) of
                  Inl e \<Rightarrow> Inl e
                | Inr b2 \<Rightarrow>
                    if \<not> a_is_1d \<and> \<not> b_is_1d then Inl (BackendError ''UnboundLocalError'')
                    else
                      (case blockwise3 (fn_matmul2 op (meta_dtype mt)) a2 b2 of
                         Inl e \<Rightarrow> Inl e
                       | Inr slab \<Rightarrow>
                           (case sum_by_monoid B (sr_monoid op) slab of
                              Inl e \<Rightarrow> Inl e
                            | Inr out \<Rightarrow>
                                if a_is_1d \<and> b_is_1d then Inl (BackendError ''getitem'')
                                else if a_is_1d then map_sum id Grid1 (drop_row_axis B out)
                                else map_sum id Grid1 (drop_col_axis B out)))))
      | [] \<Rightarrow> Inl IndexError
      | [x] \<Rightarrow> (case x of ObjArg b \<Rightarrow> Inl IndexError | _ \<Rightarrow> Inl AttributeError)
      | ObjArg b # _ \<Rightarrow> Inl AttributeError
      | _ \<Rightarrow> Inl AttributeError)"

subsection \<open>Materialisation: GbDelayed.new\<close>

text \<open>
  \<^verbatim>\<open>da.core.elemwise\<close> over the blocks of \<open>x\<close> and of the partitioned objects among the
  arguments: every block of \<open>x\<close> with the arguments of its position, the partitioned
  objects replaced by their blocks' values.
\<close>

fun attach :: "(block \<times> gbval arg list) grid \<Rightarrow> pobj arg \<Rightarrow> py_error + (block \<times> gbval arg list) grid" where
  "attach g (ObjArg ob) =
     map_sum id (map_grid2 (\<lambda>((x, as), b). (x, as @ [ObjArg (b_value b)])))
       (zip_grid g (p_delayed ob))"
| "attach g (MonoidArg m) = Inr (map_grid2 (\<lambda>(x, as). (x, as @ [MonoidArg m])) g)"
| "attach g (SemiringArg r) = Inr (map_grid2 (\<lambda>(x, as). (x, as @ [SemiringArg r])) g)"
| "attach g (BinopArg f) = Inr (map_grid2 (\<lambda>(x, as). (x, as @ [BinopArg f])) g)"
| "attach g (UnaryArg f) = Inr (map_grid2 (\<lambda>(x, as). (x, as @ [UnaryArg f])) g)"

fun attach_all ::
  "(block \<times> gbval arg list) grid \<Rightarrow> pobj arg list \<Rightarrow> py_error + (block \<times> gbval arg list) grid" where
  "attach_all g [] = Inr g"
| "attach_all g (a # as) = (case attach g a of Inl e \<Rightarrow> Inl e | Inr g' \<Rightarrow> attach_all g' as)"

definition with_args :: "block grid \<Rightarrow> pobj arg list \<Rightarrow> py_error + (block \<times> gbval arg list) grid" where
  "with_args x as = attach_all (map_grid2 (\<lambda>b. (b, [])) x) as"

text \<open>An optional delayed array among the operands: with None every block function gets
  None.\<close>

definition with_optional ::
  "'a grid \<Rightarrow> (mask_kind \<times> block grid) option \<Rightarrow> py_error + ('a \<times> (mask_kind \<times> block) option) grid" where
  "with_optional g msk =
     (case msk of
        None \<Rightarrow> Inr (map_grid2 (\<lambda>x. (x, None)) g)
      | Some (k, mg) \<Rightarrow> map_sum id (map_grid2 (\<lambda>(x, mb). (x, Some (k, mb)))) (zip_grid g mg))"

text \<open>\<^verbatim>\<open>mask = grblas_mask_type(mask.value)\<close> when a mask block is given.\<close>

definition block_mask :: "(mask_kind \<times> block) option \<Rightarrow> (mask_kind \<times> gbval) option" where
  "block_mask msk = map_option (\<lambda>(mask_type, mb). (mask_type, b_value mb)) msk"

text \<open>\<^verbatim>\<open>_expr_new(method_name, dtype, grblas_mask_type, kwargs, x, mask, *args)\<close>\<close>

definition fn_expr_new ::
  "backend \<Rightarrow> string \<Rightarrow> dtype option \<Rightarrow> (string \<times> kwarg) list \<Rightarrow> block
    \<Rightarrow> (mask_kind \<times> block) option \<Rightarrow> gbval arg list \<Rightarrow> py_error + block" where
  "fn_expr_new B method_name dt kwargs x msk args =
     (case gb_method B method_name (b_value x) args kwargs of
        Inl e \<Rightarrow> Inl e
      | Inr expr \<Rightarrow> map_sum id wrap_inner (gb_new B expr dt (block_mask msk)))"

text \<open>
  The first lines of \<^verbatim>\<open>GbDelayed.new\<close>: the metadata of the result, and the delayed
  array and kind of the mask.
\<close>

definition new_meta ::
  "backend \<Rightarrow> meta \<Rightarrow> dtype option \<Rightarrow> mask_arg option
    \<Rightarrow> py_error + (meta \<times> (mask_kind \<times> block grid) option)" where
  "new_meta B self_meta dt msk =
     (case msk of
        Some NotMask \<Rightarrow> Inl AssertionError
      | Some (IsMask m) \<Rightarrow>
          map_sum id (\<lambda>mt. (mt, Some (mask_type m, p_delayed (mask_mask m))))
            (meta_expr_new B self_meta dt (Some (mask_meta m)))
      | None \<Rightarrow> map_sum id (\<lambda>mt. (mt, None)) (meta_expr_new B self_meta dt None))"

text \<open>\<^verbatim>\<open>GbDelayed.new(self, *, dtype=None, mask=None)\<close>\<close>

definition GbDelayed_new ::
  "backend \<Rightarrow> gbdelayed \<Rightarrow> dtype option \<Rightarrow> mask_arg option \<Rightarrow> py_error + pobj" where
  "GbDelayed_new B self dt msk =
     (case new_meta B (e_meta self) dt msk of
        Inl e \<Rightarrow> Inl e
      | Inr (mt, delayed_mask) \<Rightarrow>
          map_sum id (get_return_type mt)
            (if e_method_name self = ''reduce'' then GbDelayed_reduce B self (meta_dtype mt)
             else if e_method_name self = ''reduce_scalar'' then
               GbDelayed_reduce_scalar B self (meta_dtype mt)
             else if e_method_name self = ''reduce_rowwise'' then
               GbDelayed_reduce_along_axis B self 1 (meta_dtype mt)
             else if e_method_name self = ''reduce_columnwise'' then
               GbDelayed_reduce_along_axis B self 0 (meta_dtype mt)
             else if e_method_name self \<in> {''apply'', ''ewise_add'', ''ewise_mult''} then
               (case with_args (p_delayed (e_parent self)) (e_args self) of
                  Inl e \<Rightarrow> Inl e
                | Inr g \<Rightarrow>
                    (case with_optional g delayed_mask of
                       Inl e \<Rightarrow> Inl e
                     | Inr g' \<Rightarrow>
                         sequence_grid (map_grid2 (\<lambda>((x, args), mb).
                           fn_expr_new B (e_method_name self) dt (e_kwargs self) x mb args) g')))
             else if e_method_name self \<in> {''vxm'', ''mxv''} then GbDelayed_matmul2 B self mt
             else Inl (ValueError (e_method_name self))))"

subsection \<open>Writing into a target: GbDelayed._update and Updater.update\<close>

text \<open>\<^verbatim>\<open>output.value\<close> of a block that holds a scalar.\<close>

fun block_scalar :: "block \<Rightarrow> py_error + scalar" where
  "block_scalar b = (case b_value b of GScalar s \<Rightarrow> Inr s | _ \<Rightarrow> Inl AttributeError)"

text \<open>\<^verbatim>\<open>gb.Vector.new(dtype, 1)\<close> when the scalar is empty,
  \<^verbatim>\<open>gb.Vector.from_values([0], [s.value], dtype=dtype)\<close> otherwise.\<close>

definition scalar_as_vector :: "scalar \<Rightarrow> vector" where
  "scalar_as_vector s =
     (case s_value s of
        None \<Rightarrow> \<lparr>v_dtype = s_dtype s, v_size = 1, v_indices = [], v_values = []\<rparr>
      | Some x \<Rightarrow> \<lparr>v_dtype = s_dtype s, v_size = 1, v_indices = [0], v_values = [cast (s_dtype s) x]\<rparr>)"

text \<open>\<^verbatim>\<open>left.ewise_add(right, op=accum, require_monoid=False).new(dtype=dtype)\<close>\<close>

definition vector_accum :: "binop \<Rightarrow> dtype \<Rightarrow> vector \<Rightarrow> vector \<Rightarrow> py_error + vector" where
  "vector_accum accum dt left right =
     (if v_size left \<noteq> v_size right then Inl (BackendError ''DimensionMismatch'')
      else Inr (vec_of dt (v_size left)
                  (\<lambda>i. map_option (cast dt) (union_op accum (v_get left i) (v_get right i)))))"

text \<open>\<^verbatim>\<open>_reduce_accum(output, reduced, accum)\<close>; the last step, \<^verbatim>\<open>result[0].new()\<close>, is
  the scalar of the entry at index 0, empty when there is none.\<close>

definition fn_reduce_accum :: "block \<Rightarrow> block \<Rightarrow> binop \<Rightarrow> py_error + block" where
  "fn_reduce_accum output reduced accum =
     (case block_scalar output of
        Inl e \<Rightarrow> Inl e
      | Inr out \<Rightarrow>
          (case block_scalar reduced of
             Inl e \<Rightarrow> Inl e
           | Inr red \<Rightarrow>
               (let dt = s_dtype out;
                    left = scalar_as_vector out;
                    right = scalar_as_vector red
                in case vector_accum accum dt left right of
                     Inl e \<Rightarrow> Inl e
                   | Inr result \<Rightarrow>
                       Inr (wrap_inner
                              (GScalar \<lparr>s_dtype = v_dtype result, s_value = v_get result 0\<rparr>)))))"

text \<open>\<^verbatim>\<open>value.shape == 0\<close>: the shape is a tuple, which never equals the number 0.\<close>

definition shape_is_0 :: "vector \<Rightarrow> bool" where
  "shape_is_0 v = False"

text \<open>
  \<^verbatim>\<open>_reduce_axis_accum(output, reduced, accum)\<close> on blocks; the first branch, for an
  empty numpy array in place of \<open>reduced\<close>, is taken only while the engine infers
  metadata.
\<close>

definition fn_reduce_axis_accum :: "block \<Rightarrow> block \<Rightarrow> binop \<Rightarrow> py_error + block" where
  "fn_reduce_axis_accum output reduced accum =
     (case block_vector output of
        Inl e \<Rightarrow> Inl e
      | Inr out \<Rightarrow>
          (case block_vector reduced of
             Inl e \<Rightarrow> Inl e
           | Inr red \<Rightarrow>
               (let dt = v_dtype out;
                    left = (if shape_is_0 out
                            then \<lparr>v_dtype = dt, v_size = 1, v_indices = [], v_values = []\<rparr>
                            else out);
                    right = (if shape_is_0 red
                             then \<lparr>v_dtype = v_dtype red, v_size = 1, v_indices = [], v_values = []\<rparr>
                             else red)
                in map_sum id (\<lambda>r. wrap_inner (GVector r)) (vector_accum accum dt left right))))"

text \<open>\<^verbatim>\<open>_update_expr(method_name, updating, x, kwargs, *args)\<close>; the block of the target
  is returned with its new value.\<close>

definition fn_update_expr ::
  "backend \<Rightarrow> string \<Rightarrow> block \<Rightarrow> block \<Rightarrow> (string \<times> kwarg) list \<Rightarrow> gbval arg list
    \<Rightarrow> py_error + block" where
  "fn_update_expr B method_name updating x kwargs args =
     (case gb_method B method_name (b_value x) args kwargs of
        Inl e \<Rightarrow> Inl e
      | Inr expr \<Rightarrow>
          map_sum id (\<lambda>v. updating\<lparr>b_value := v\<rparr>) (gb_assign B (b_value updating) expr))"

text \<open>\<^verbatim>\<open>_update_expr_full(method_name, updating, accum, mask, mask_type, replace, x, kwargs, *args)\<close>\<close>

definition fn_update_expr_full ::
  "backend \<Rightarrow> string \<Rightarrow> block \<Rightarrow> binop option \<Rightarrow> (mask_kind \<times> block) option \<Rightarrow> bool option
    \<Rightarrow> block \<Rightarrow> (string \<times> kwarg) list \<Rightarrow> gbval arg list \<Rightarrow> py_error + block" where
  "fn_update_expr_full B method_name updating accum msk replace x kwargs args =
     (case gb_method B method_name (b_value x) args kwargs of
        Inl e \<Rightarrow> Inl e
      | Inr expr \<Rightarrow>
          map_sum id (\<lambda>v. updating\<lparr>b_value := v\<rparr>)
            (gb_write B (b_value updating) accum (block_mask msk) replace expr))"

text \<open>\<^verbatim>\<open>da.core.elemwise(f, x, y)\<close> on two delayed arrays.\<close>

definition elemwise2 ::
  "('a \<Rightarrow> 'b \<Rightarrow> py_error + 'c) \<Rightarrow> 'a grid \<Rightarrow> 'b grid \<Rightarrow> py_error + 'c grid" where
  "elemwise2 f x y =
     (case zip_grid x y of
        Inl e \<Rightarrow> Inl e
      | Inr z \<Rightarrow> sequence_grid (map_grid2 (\<lambda>(a, b). f a b) z))"

text \<open>The mask of a write: its delayed array and its kind.\<close>

definition delayed_mask_of :: "mask option \<Rightarrow> (mask_kind \<times> block grid) option" where
  "delayed_mask_of msk = map_option (\<lambda>m. (mask_type m, p_delayed (mask_mask m))) msk"

text \<open>Modelled from the spec: the write of a materialised object into a target, which
  \<^verbatim>\<open>base.BaseType.update\<close> and \<^verbatim>\<open>base.BaseType._update\<close> do block by block: the plain
  one overwrites, the qualified one is the backend's masked, accumulated write.\<close>

definition BaseType_update_obj :: "backend \<Rightarrow> pobj \<Rightarrow> pobj \<Rightarrow> py_error + pobj" where
  "BaseType_update_obj B self ob =
     map_sum id (\<lambda>d. self\<lparr>p_delayed := d\<rparr>)
       (elemwise2 (\<lambda>t x. map_sum id (\<lambda>v. t\<lparr>b_value := v\<rparr>) (gb_assign B (b_value t) (b_value x)))
          (p_delayed self) (p_delayed ob))"

definition BaseType__update_obj ::
  "backend \<Rightarrow> pobj \<Rightarrow> pobj \<Rightarrow> mask option \<Rightarrow> binop option \<Rightarrow> bool option \<Rightarrow> py_error + pobj" where
  "BaseType__update_obj B self ob msk accum replace =
     (case zip_grid (p_delayed self) (p_delayed ob) of
        Inl e \<Rightarrow> Inl e
      | Inr z \<Rightarrow>
          (case with_optional z (delayed_mask_of msk) of
             Inl e \<Rightarrow> Inl e
           | Inr z' \<Rightarrow>
               map_sum id (\<lambda>d. self\<lparr>p_delayed := d\<rparr>)
                 (sequence_grid (map_grid2 (\<lambda>((t, x), mb).
                    map_sum id (\<lambda>v. t\<lparr>b_value := v\<rparr>)
                      (gb_write B (b_value t) accum (block_mask mb) replace (b_value x))) z'))))"

text \<open>
  \<^verbatim>\<open>Updater.update(self, delayed)\<close>. The two methods of the parent that it calls,
  \<^verbatim>\<open>parent.update(delayed)\<close> and \<^verbatim>\<open>parent._update(delayed, ...)\<close>, are arguments:
  \<open>plain\<close> and \<open>qualified\<close>, already applied to \<open>delayed\<close>, whose metadata is \<open>delayed_meta\<close>.
  The metadata call updates the parent's metadata in place.
\<close>

definition Updater_update_with ::
  "(pobj \<Rightarrow> py_error + pobj)
    \<Rightarrow> (pobj \<Rightarrow> mask option \<Rightarrow> binop option \<Rightarrow> bool option \<Rightarrow> py_error + pobj)
    \<Rightarrow> backend \<Rightarrow> updater \<Rightarrow> meta \<Rightarrow> py_error + pobj" where
  "Updater_update_with plain qualified B self delayed_meta =
     (if u_mask self = None \<and> u_accum self = None then plain (u_parent self)
      else case meta__update B (p_meta (u_parent self)) delayed_meta (get_meta_mask (u_mask self))
                  (u_accum self) (u_replace self) of
             Inl e \<Rightarrow> Inl e
           | Inr m \<Rightarrow>
               (let parent = (u_parent self)\<lparr>p_meta := m\<rparr> in
                if meta_is_scalar (p_meta parent) then qualified parent None (u_accum self) None
                else qualified parent (u_mask self) (u_accum self) (u_replace self)))"

text \<open>\<^verbatim>\<open>meta.clear()\<close>: the metadata object holds no values afterwards.\<close>

definition meta_clear :: "meta \<Rightarrow> meta" where
  "meta_clear m = m\<lparr>meta_nvals := 0\<rparr>"

text \<open>The accumulation step of the four reduction branches of \<^verbatim>\<open>_update\<close>.\<close>

definition accumulate ::
  "(block \<Rightarrow> block \<Rightarrow> binop \<Rightarrow> py_error + block) \<Rightarrow> pobj \<Rightarrow> binop option
    \<Rightarrow> py_error + block grid \<Rightarrow> py_error + block grid" where
  "accumulate f updating accum delayed =
     (case delayed of
        Inl e \<Rightarrow> Inl e
      | Inr d \<Rightarrow>
          (case accum of
             None \<Rightarrow> Inr d
           | Some a \<Rightarrow> elemwise2 (\<lambda>out red. f out red a) (p_delayed updating) d))"

text \<open>
  \<^verbatim>\<open>GbDelayed._update(self, updating, *, mask=None, accum=None, replace=None)\<close>. The
  target is returned with its new delayed array and metadata. In the multiply branch
  \<^verbatim>\<open>updating(mask=..., accum=..., replace=...)\<close> constructs an Updater (modelled from the
  spec: \<^verbatim>\<open>base.BaseType.__call__\<close>) and \<^verbatim>\<open><<\<close> is its \<^verbatim>\<open>update\<close>.
  \<^verbatim>\<open>updating._optional_dup()\<close> is the delayed array of the target (modelled from the
  spec: the blocks are copied where they are shared).
\<close>

definition GbDelayed_update ::
  "backend \<Rightarrow> gbdelayed \<Rightarrow> pobj \<Rightarrow> mask option \<Rightarrow> binop option \<Rightarrow> bool option \<Rightarrow> py_error + pobj" where
  "GbDelayed_update B self updating msk accum replace =
     (case meta_update B (p_meta updating) (e_meta self) of
        Inl e \<Rightarrow> Inl e
      | Inr mt \<Rightarrow>
          if \<not> (meta_is_scalar mt \<or> meta_nvals mt = 0) then Inl AssertionError
          else if e_method_name self = ''reduce'' then
            map_sum id (\<lambda>d. \<lparr>p_delayed = d, p_meta = meta_clear mt\<rparr>)
              (accumulate fn_reduce_accum updating accum
                 (GbDelayed_reduce B self (meta_dtype (meta_clear mt))))
          else if e_method_name self = ''reduce_scalar'' then
            map_sum id (\<lambda>d. \<lparr>p_delayed = d, p_meta = meta_clear mt\<rparr>)
              (accumulate fn_reduce_accum updating accum
                 (GbDelayed_reduce_scalar B self (meta_dtype (meta_clear mt))))
          else if e_method_name self = ''reduce_rowwise'' then
            map_sum id (\<lambda>d. \<lparr>p_delayed = d, p_meta = meta_clear mt\<rparr>)
              (accumulate fn_reduce_axis_accum updating accum
                 (GbDelayed_reduce_along_axis B self 1 (meta_dtype (meta_clear mt))))
          else if e_method_name self = ''reduce_columnwise'' then
            map_sum id (\<lambda>d. \<lparr>p_delayed = d, p_meta = meta_clear mt\<rparr>)
              (accumulate fn_reduce_axis_accum updating accum
                 (GbDelayed_reduce_along_axis B self 0 (meta_dtype (meta_clear mt))))
          else if e_method_name self \<in> {''apply'', ''ewise_add'', ''ewise_mult''} then
            (case with_args (p_delayed (e_parent self)) (e_args self) of
               Inl e \<Rightarrow> Inl e
             | Inr g \<Rightarrow>
                 (case zip_grid (p_delayed updating) g of
                    Inl e \<Rightarrow> Inl e
                  | Inr z \<Rightarrow>
                      map_sum id (\<lambda>d. \<lparr>p_delayed = d, p_meta = mt\<rparr>)
                        (if msk = None \<and> accum = None then
                           sequence_grid (map_grid2 (\<lambda>(u, (x, args)).
                             fn_update_expr B (e_method_name self) u x (e_kwargs self) args) z)
                         else
                           (case with_optional z (delayed_mask_of msk) of
                              Inl e \<Rightarrow> Inl e
                            | Inr z' \<Rightarrow>
                                sequence_grid (map_grid2 (\<lambda>((u, (x, args)), mb).
                                  fn_update_expr_full B (e_method_name self) u accum mb replace x
                                    (e_kwargs self) args) z')))))
          else if e_method_name self \<in> {''vxm'', ''mxv''} then
            (case GbDelayed_matmul2 B self mt of
               Inl e \<Rightarrow> Inl e
             | Inr delayed \<Rightarrow>
                 (let product = get_return_type mt delayed in
                  case Updater_init (updating\<lparr>p_meta := mt\<rparr>) msk accum replace of
                    Inl e \<Rightarrow> Inl e
                  | Inr u \<Rightarrow>
                      Updater_update_with (\<lambda>p. BaseType_update_obj B p product)
                        (\<lambda>p. BaseType__update_obj B p product) B u (p_meta product)))
          else Inl (ValueError (e_method_name self)))"






subsection \<open>Partitioning and typed monoids\<close>

text \<open>
  A partitioned object holds the contents of an object cut along its axes: block sizes
  along an axis give the block boundaries. \<open>spans off sizes\<close> are the offset and the size
  of each block.
\<close>

fun spans :: "nat \<Rightarrow> nat list \<Rightarrow> (nat \<times> nat) list" where
  "spans off [] = []"
| "spans off (n # ns) = (off, n) # spans (off + n) ns"

definition vector_slice :: "vector \<Rightarrow> nat \<Rightarrow> nat \<Rightarrow> vector" where
  "vector_slice v lo n = vec_of (v_dtype v) n (\<lambda>i. v_get v (lo + i))"

definition matrix_slice :: "matrix \<Rightarrow> nat \<Rightarrow> nat \<Rightarrow> nat \<Rightarrow> nat \<Rightarrow> matrix" where
  "matrix_slice m r0 nr c0 nc = mat_of (m_dtype m) nr nc (\<lambda>i j. m_get m (r0 + i) (c0 + j))"

definition split_vector :: "vector \<Rightarrow> nat list \<Rightarrow> vector list" where
  "split_vector v sizes = map (\<lambda>(lo, n). vector_slice v lo n) (spans 0 sizes)"

definition split_matrix :: "matrix \<Rightarrow> nat list \<Rightarrow> nat list \<Rightarrow> matrix list list" where
  "split_matrix m rs cs =
     map (\<lambda>(r0, nr). map (\<lambda>(c0, nc). matrix_slice m r0 nr c0 nc) (spans 0 cs)) (spans 0 rs)"

text \<open>The delayed arrays of a vector cut into blocks of the given sizes, and of a matrix
  cut into a grid of blocks with the given row and column sizes.\<close>

definition vector_blocks :: "vector \<Rightarrow> nat list \<Rightarrow> block grid" where
  "vector_blocks v sizes = Grid1 (map (\<lambda>b. wrap_inner (GVector b)) (split_vector v sizes))"

definition matrix_blocks :: "matrix \<Rightarrow> nat list \<Rightarrow> nat list \<Rightarrow> block grid" where
  "matrix_blocks m rs cs =
     Grid2 (map (map (\<lambda>b. wrap_inner (GMatrix b))) (split_matrix m rs cs))"

text \<open>A value of a dtype is a value that casting to the dtype leaves as it is.\<close>

definition in_dtype :: "dtype \<Rightarrow> int \<Rightarrow> bool" where
  "in_dtype dt x \<longleftrightarrow> cast dt x = x"

text \<open>A monoid of a dtype: on the values of the dtype the operator is closed,
  associative and commutative, and the identity is neutral.\<close>

definition monoid_on :: "dtype \<Rightarrow> monoid \<Rightarrow> bool" where
  "monoid_on dt op \<longleftrightarrow>
     in_dtype dt (mo_identity op)
     \<and> (\<forall>a b. in_dtype dt a \<and> in_dtype dt b \<longrightarrow>
           in_dtype dt (mo_op op a b) \<and> mo_op op a b = mo_op op b a)
     \<and> (\<forall>a. in_dtype dt a \<longrightarrow> mo_op op (mo_identity op) a = a)
     \<and> (\<forall>a b c. in_dtype dt a \<and> in_dtype dt b \<and> in_dtype dt c \<longrightarrow>
           mo_op op (mo_op op a b) c = mo_op op a (mo_op op b c))"

text \<open>The block of a partial scalar reduction: the scalar of a dtype that holds the fold
  of the given values. The block of a partial reduction along an axis: the vector that
  holds at each index the fold of the values given for it, if there are any.\<close>

definition scalar_block :: "dtype \<Rightarrow> monoid \<Rightarrow> int list \<Rightarrow> block" where
  "scalar_block dt op vs = wrap_inner (GScalar \<lparr>s_dtype = dt, s_value = Some (msum op vs)\<rparr>)"

definition axis_block :: "dtype \<Rightarrow> monoid \<Rightarrow> nat \<Rightarrow> (nat \<Rightarrow> int list) \<Rightarrow> block" where
  "axis_block dt op n vs = wrap_inner (GVector (vec_of dt n (\<lambda>i. msum_entry op (vs i))))"

subsection \<open>Example values\<close>

text \<open>
  A backend for the examples. Its metadata calls check what grblas checks on the
  examples: the shape of a mask against the shape of the result, the shape of an
  expression against the shape of its target, and that a scalar target has no mask.
  Its elementwise kernels copy.
\<close>

definition with_dtype :: "meta \<Rightarrow> dtype option \<Rightarrow> meta" where
  "with_dtype e d = (case d of None \<Rightarrow> e | Some t \<Rightarrow> e\<lparr>meta_dtype := t\<rparr>)"

definition example_backend :: backend where
  "example_backend =
     \<lparr>meta_expr_new = (\<lambda>e d m.
        case m of
          None \<Rightarrow> Inr (with_dtype e d)
        | Some mm \<Rightarrow>
            if meta_shape mm = meta_shape e then Inr (with_dtype e d)
            else Inl (BackendError ''DimensionMismatch'')),
      meta_update = (\<lambda>p e.
        if meta_shape p = meta_shape e then Inr p else Inl (BackendError ''DimensionMismatch'')),
      meta__update = (\<lambda>p e m a r.
        if m \<noteq> None \<and> meta_is_scalar p then Inl TypeError
        else if meta_shape p = meta_shape e then Inr p
        else Inl (BackendError ''DimensionMismatch'')),
      meta_getitem = (\<lambda>p i. Inr p),
      gb_dup = (\<lambda>v d m. Inr v),
      gb_extract = (\<lambda>v i d m. Inr v),
      gb_method = (\<lambda>n v as kw. Inr v),
      gb_new = (\<lambda>v d m. Inr v),
      gb_assign = (\<lambda>t e. Inr e),
      gb_write = (\<lambda>t a m r e. Inr e),
      gb_store_vector = compact_vector,
      gb_store_matrix = compact_matrix,
      da_getitem = (\<lambda>g i. Inr (map_grid2 (\<lambda>x. Extractor_getitem x (Some i)) g)),
      da_split_every = (\<lambda>n. if n = 1 then 4 else 2)\<rparr>"

definition empty_vector_meta :: "nat \<Rightarrow> meta" where
  "empty_vector_meta n =
     \<lparr>meta_dtype = INT64, meta_is_scalar = False, meta_shape = [n], meta_nvals = 0\<rparr>"

definition example_values :: vector where
  "example_values = \<lparr>v_dtype = INT64, v_size = 3, v_indices = [0, 2], v_values = [5, 7]\<rparr>"

text \<open>The vector \<open>example_values\<close> held in buffers of three slots, the third one spare; and
  a vector with the value 7 at the indices 0 and 2, held iso-valued.\<close>

definition example_spare :: svector where
  "example_spare =
     \<lparr>sv_dtype = INT64, sv_size = 3, sv_nvals = 2, sv_indices = [0, 2, 1],
      sv_values = [5, 7, 9], sv_is_iso = False\<rparr>"

definition example_iso :: svector where
  "example_iso =
     \<lparr>sv_dtype = INT64, sv_size = 3, sv_nvals = 2, sv_indices = [0, 2],
      sv_values = [7], sv_is_iso = True\<rparr>"

definition example_block :: block where
  "example_block = wrap_inner (GVector example_values)"

definition example_vector :: pobj where
  "example_vector = \<lparr>p_delayed = Grid1 [example_block], p_meta = empty_vector_meta 3\<rparr>"

definition example_mask :: mask where
  "example_mask =
     \<lparr>mask_type = StructuralMask, mask_mask = example_vector, mask_meta = empty_vector_meta 3\<rparr>"

definition filled_extract :: assign_or_extract where
  "filled_extract =
     \<lparr>ae_parent = example_vector\<lparr>p_meta := (empty_vector_meta 3)\<lparr>meta_nvals := 2\<rparr>\<rparr>,
      ae_index = IInt 0,
      ae_meta = \<lparr>meta_dtype = INT64, meta_is_scalar = True, meta_shape = [], meta_nvals = 0\<rparr>\<rparr>"

text \<open>The monoid \<^verbatim>\<open>plus\<close>, defined for the integer dtypes and not for BOOL; at a dtype its
  sums wrap around.\<close>

definition plus_monoid :: monoid where
  "plus_monoid = \<lparr>mo_op = (+), mo_identity = 0, mo_types = [INT8, INT64]\<rparr>"

definition plus_times :: semiring where
  "plus_times = \<lparr>sr_mult = (*), sr_monoid = plus_monoid\<rparr>"

definition example_matrix :: matrix where
  "example_matrix =
     \<lparr>m_dtype = INT64, m_nrows = 2, m_ncols = 2, m_entries = [((0, 0), 2), ((1, 1), 3)]\<rparr>"

definition example_operand :: vector where
  "example_operand = \<lparr>v_dtype = INT64, v_size = 2, v_indices = [0, 1], v_values = [3, 4]\<rparr>"

text \<open>The deferred product \<^verbatim>\<open>A.mxv(v, plus_times)\<close> of a matrix and a vector of one block
  each.\<close>

definition example_mxv :: gbdelayed where
  "example_mxv =
     \<lparr>e_parent = \<lparr>p_delayed = Grid2 [[wrap_inner (GMatrix example_matrix)]],
                  p_meta = \<lparr>meta_dtype = INT64, meta_is_scalar = False, meta_shape = [2, 2],
                            meta_nvals = 0\<rparr>\<rparr>,
      e_method_name = ''mxv'',
      e_args = [ObjArg \<lparr>p_delayed = Grid1 [wrap_inner (GVector example_operand)],
                        p_meta = empty_vector_meta 2\<rparr>,
                SemiringArg plus_times],
      e_kwargs = [],
      e_meta = empty_vector_meta 2\<rparr>"

definition scalar_meta :: meta where
  "scalar_meta = \<lparr>meta_dtype = INT64, meta_is_scalar = True, meta_shape = [], meta_nvals = 0\<rparr>"


definition empty_target :: pobj where
  "empty_target =
     \<lparr>p_delayed = Grid0 (wrap_inner (GScalar \<lparr>s_dtype = INT64, s_value = None\<rparr>)),
      p_meta = scalar_meta\<rparr>"


definition example_unknown :: gbdelayed where
  "example_unknown = example_mxv\<lparr>e_method_name := ''mxm''\<rparr>"


text \<open>A vector of size 2 in one block, a target for the product.\<close>

definition example_product_target :: pobj where
  "example_product_target =
     \<lparr>p_delayed = Grid1 [wrap_inner (GVector example_operand)], p_meta = empty_vector_meta 2\<rparr>"

text \<open>Deferred reductions with the monoid \<^verbatim>\<open>plus\<close>: of the vector \<open>example_values\<close> cut into
  blocks of sizes 2 and 1, and of the matrix \<open>example_matrix\<close> cut into a grid.\<close>

definition example_split_reduce :: gbdelayed where
  "example_split_reduce =
     \<lparr>e_parent = \<lparr>p_delayed = vector_blocks example_values [2, 1], p_meta = empty_vector_meta 3\<rparr>,
      e_method_name = ''reduce'', e_args = [MonoidArg plus_monoid], e_kwargs = [],
      e_meta = scalar_meta\<rparr>"

definition example_matrix_reduce :: "string \<Rightarrow> nat list \<Rightarrow> nat list \<Rightarrow> meta \<Rightarrow> gbdelayed" where
  "example_matrix_reduce name rs cs mt =
     \<lparr>e_parent = \<lparr>p_delayed = matrix_blocks example_matrix rs cs,
                  p_meta = \<lparr>meta_dtype = INT64, meta_is_scalar = False, meta_shape = [2, 2],
                            meta_nvals = 0\<rparr>\<rparr>,
      e_method_name = name, e_args = [MonoidArg plus_monoid], e_kwargs = [], e_meta = mt\<rparr>"

section \<open>Properties\<close>

text \<open>
  C10: constructing an Extractor over an inner block stores the block's dtype in the
  \<^verbatim>\<open>ndim\<close> attribute, so \<^verbatim>\<open>ndim\<close> is neither the rank 1 nor the rank 2
  (nor any number at all).
\<close>

theorem Extractor_ndim_is_dtype:
  "ex_ndim (Extractor_init (Block b) i) = ADtype (b_dtype b)
   \<and> ex_ndim (Extractor_init (Block b) i) \<noteq> AInt 1
   \<and> ex_ndim (Extractor_init (Block b) i) \<noteq> AInt 2
   \<and> (\<forall>n. ex_ndim (Extractor_init (Block b) i) \<noteq> AInt n)"
  by (simp add: Extractor_init_def)

lemma chain_snoc: "chain b (ixs @ [i]) = Extractor_getitem (chain b ixs) (Some i)"
  by (simp add: chain_def)

lemma collect_indices_chain:
  "collect_indices (chain b ixs) acc = Inr (acc @ rev ixs, Extractor_init (Block b) None)"
proof (induction ixs arbitrary: acc rule: rev_induct)
  case Nil
  show ?case by (simp add: chain_def Extractor_init_def)
next
  case (snoc i ixs)
  show ?case
    by (simp add: chain_snoc Extractor_getitem_def Extractor_init_def
        snoc.IH [unfolded Extractor_init_def])
qed

text \<open>
  C6: resolving a chain of index levels over an inner block as a read uses at most one
  level. With two or more levels it raises \<^verbatim>\<open>NotImplementedError\<close>; with exactly one
  level it performs the indexed extraction with that index, and with none it duplicates
  the block's value: no level is dropped silently.
\<close>

theorem extractor_new_levels:
  "(2 \<le> length ixs \<longrightarrow> extractor_new B (chain b ixs) dt msk = Inl NotImplementedError)
   \<and> extractor_new B (chain b [i]) dt msk =
       map_sum id wrap_inner
         (gb_extract B (b_value b) (unwrap_single i) dt
            (map_option (\<lambda>(mask_type, mb). (mask_type, b_value mb)) msk))
   \<and> extractor_new B (chain b []) dt msk =
       map_sum id wrap_inner
         (gb_dup B (b_value b) dt (map_option (\<lambda>(mask_type, mb). (mask_type, b_value mb)) msk))"
  by (auto simp: extractor_new_def collect_indices_chain Extractor_init_def Let_def)

theorem extractor_new_levels_witness:
  "2 \<le> length [IInt 0, ISlice 0 2]
   \<and> extractor_new example_backend (chain example_block [IInt 0, ISlice 0 2]) None None
       = Inl NotImplementedError"
  using extractor_new_levels [of "[IInt 0, ISlice 0 2]" example_backend example_block None None]
  by simp

text \<open>
  C5: an Updater constructed with a mask and \<^verbatim>\<open>replace\<close> left at its default has
  \<^verbatim>\<open>replace = False\<close>; constructing one without a mask and with
  \<^verbatim>\<open>replace=True\<close> raises \<^verbatim>\<open>TypeError\<close>, a usage error, which the call of the
  parent's metadata object raises; and every Updater constructed without a mask has
  \<^verbatim>\<open>replace = None\<close>.
\<close>

theorem Updater_init_replace:
  "(\<not> meta_is_scalar (p_meta parent) \<longrightarrow>
      (\<exists>u. Updater_init parent (Some m) accum (Some False) = Inr u \<and> u_replace u = Some False))
   \<and> Updater_init parent None accum (Some True) = Inl TypeError
   \<and> (Updater_init parent None accum r = Inr u' \<longrightarrow> u_replace u' = None)"
  by (auto simp: Updater_init_def meta_call_def get_meta_mask_def Let_def split: if_splits)

theorem Updater_init_replace_witness:
  "(\<exists>u. Updater_init example_vector (Some example_mask) None (Some False) = Inr u
        \<and> u_replace u = Some False)
   \<and> Updater_init example_vector None None (Some True) = Inl TypeError
   \<and> (\<exists>u'. Updater_init example_vector None None (Some False) = Inr u' \<and> u_replace u' = None)"
proof -
  have s: "\<not> meta_is_scalar (p_meta example_vector)"
    by (simp add: example_vector_def empty_vector_meta_def)
  obtain u' where u': "Updater_init example_vector None None (Some False) = Inr u'"
    by (simp add: Updater_init_def meta_call_def get_meta_mask_def)
  from s u' Updater_init_replace [of example_vector example_mask None "Some False" u']
  show ?thesis by simp
qed

text \<open>
  C7: an indexed extraction materialised with a mask, on a parent whose metadata
  placeholder holds one or more values, raises \<^verbatim>\<open>AssertionError\<close>; nothing is
  extracted.
\<close>

theorem new_masked_nonempty:
  "meta_nvals (p_meta (ae_parent self)) \<noteq> 0 \<Longrightarrow>
   AmbiguousAssignOrExtract_new B self dt (Some m) = Inl AssertionError"
  by (cases m) (simp_all add: AmbiguousAssignOrExtract_new_def)

theorem new_masked_nonempty_witness:
  "meta_nvals (p_meta (ae_parent filled_extract)) \<noteq> 0
   \<and> AmbiguousAssignOrExtract_new example_backend filled_extract None (Some (IsMask example_mask))
       = Inl AssertionError"
proof -
  have h: "meta_nvals (p_meta (ae_parent filled_extract)) \<noteq> 0"
    by (simp add: filled_extract_def)
  from h new_masked_nonempty [OF h, of example_backend None "IsMask example_mask"]
  show ?thesis by simp
qed

lemma zip_pair_fst:
  "length xs = length ys \<Longrightarrow> map (\<lambda>e. f (fst e)) (zip (map g xs) ys) = map (f \<circ> g) xs"
  by (induction xs ys rule: list_induct2) auto

lemma zip_pair_snd: "length xs = length ys \<Longrightarrow> map snd (zip (map g xs) ys) = ys"
  by (induction xs ys rule: list_induct2) auto

lemma filter_zip_all:
  "\<forall>x\<in>set xs. P (g x) \<Longrightarrow> filter (\<lambda>e. P (fst e)) (zip (map g xs) ys) = zip (map g xs) ys"
  by (induction xs arbitrary: ys) (auto simp: zip_Cons1 split: list.splits)

text \<open>
  A vector held in buffers that hold exactly its entries, every value written out, comes
  back from both round trips as it was.
\<close>

lemma lift_lower_compact:
  assumes len: "length (v_indices v) = length (v_values v)"
    and rng: "\<forall>i\<in>set (v_indices v). i < v_size v"
  shows "roundtrip_row (compact_vector v) = Inr v \<and> roundtrip_col (compact_vector v) = Inr v"
proof
  show "roundtrip_row (compact_vector v) = Inr v"
    using len
    by (simp add: roundtrip_row_def compact_vector_def lowered_def asOneRowMatrix_def
        wrap_stored_def export_sparse_def import_csr_def asVector_def unpack_csr_def
        import_sparse_def vector_of_def stored_values_def)
  show "roundtrip_col (compact_vector v) = Inr v"
  proof (cases "v_size v = 1")
    case True
    with rng have z: "\<forall>i\<in>set (v_indices v). fst ((\<lambda>r. (r, 0::nat)) i) = 0"
      by auto
    from rng True have "map (\<lambda>x. 0) (v_indices v) = v_indices v"
      by (auto intro!: map_idI)
    then show ?thesis
      using len True
      by (simp add: roundtrip_col_def compact_vector_def lowered_def asOneColMatrix_def
          wrap_stored_def export_sparse_def import_csc_def asVector_def unpack_csr_def
          import_sparse_def vector_of_def stored_values_def matrix_of_def slice_def by_rows_def
          filter_zip_all [where P = "\<lambda>p. fst p = 0", OF z] zip_pair_fst [where f = snd]
          zip_pair_snd o_def)
  next
    case False
    show ?thesis
      using len False
      by (simp add: roundtrip_col_def compact_vector_def lowered_def asOneColMatrix_def
          wrap_stored_def export_sparse_def import_csc_def asVector_def unpack_csc_def
          import_sparse_def vector_of_def stored_values_def)
  qed
qed

text \<open>
  C3: lifting a one-dimensional block to a single-row or single-column matrix and
  converting it back does not always give the block back. \<^verbatim>\<open>asVector\<close> passes the raw
  buffers of the matrix to \<^verbatim>\<open>import_sparse\<close> without the number of entries and without
  the iso flag, so the result has as many entries as the value buffer has slots. The
  vector with the entries 5 at 0 and 7 at 2, held in buffers with one spare slot, comes
  back with a third entry, on both paths; the iso-valued vector with the value 7 at 0 and
  2 comes back without its entry at 2.
\<close>

theorem lift_lower_loses_vector:
  "vector_of example_spare = example_values
   \<and> roundtrip_row example_spare
       = Inr \<lparr>v_dtype = INT64, v_size = 3, v_indices = [0, 2, 1], v_values = [5, 7, 9]\<rparr>
   \<and> roundtrip_col example_spare
       = Inr \<lparr>v_dtype = INT64, v_size = 3, v_indices = [0, 2, 1], v_values = [5, 7, 9]\<rparr>
   \<and> roundtrip_row example_spare \<noteq> Inr (vector_of example_spare)
   \<and> roundtrip_col example_spare \<noteq> Inr (vector_of example_spare)
   \<and> vector_of example_iso
       = \<lparr>v_dtype = INT64, v_size = 3, v_indices = [0, 2], v_values = [7, 7]\<rparr>
   \<and> roundtrip_col example_iso
       = Inr \<lparr>v_dtype = INT64, v_size = 3, v_indices = [0], v_values = [7]\<rparr>"
  by (simp add: roundtrip_row_def roundtrip_col_def lowered_def asOneRowMatrix_def
      asOneColMatrix_def wrap_stored_def export_sparse_def import_csr_def import_csc_def
      asVector_def unpack_csr_def unpack_csc_def import_sparse_def vector_of_def
      stored_values_def example_spare_def example_iso_def example_values_def numeral_2_eq_2)


text \<open>
  C4: a deferred expression whose operation name is none of the nine known ones cannot
  be materialised or written: \<^verbatim>\<open>new\<close> and \<^verbatim>\<open>_update\<close> never return, and once the
  metadata steps before the dispatch have passed they raise \<^verbatim>\<open>ValueError\<close> with the
  name.
\<close>

theorem unknown_method_fails:
  "e_method_name e \<notin> {''reduce'', ''reduce_scalar'', ''reduce_rowwise'', ''reduce_columnwise'',
      ''apply'', ''ewise_add'', ''ewise_mult'', ''vxm'', ''mxv''} \<Longrightarrow>
   (new_meta B (e_meta e) dt msk = Inr x \<longrightarrow>
      GbDelayed_new B e dt msk = Inl (ValueError (e_method_name e)))
   \<and> (\<forall>res. GbDelayed_new B e dt msk \<noteq> Inr res)
   \<and> (meta_update B (p_meta updating) (e_meta e) = Inr mt
        \<and> (meta_is_scalar mt \<or> meta_nvals mt = 0) \<longrightarrow>
      GbDelayed_update B e updating m accum replace = Inl (ValueError (e_method_name e)))
   \<and> (\<forall>res. GbDelayed_update B e updating m accum replace \<noteq> Inr res)"
  by (cases x) (auto simp: GbDelayed_new_def GbDelayed_update_def split: sum.splits)

theorem unknown_method_fails_witness:
  "GbDelayed_new example_backend example_unknown None None = Inl (ValueError ''mxm'')
   \<and> GbDelayed_update example_backend example_unknown example_product_target None None None
       = Inl (ValueError ''mxm'')"
proof -
  have n: "e_method_name example_unknown \<notin> {''reduce'', ''reduce_scalar'', ''reduce_rowwise'',
      ''reduce_columnwise'', ''apply'', ''ewise_add'', ''ewise_mult'', ''vxm'', ''mxv''}"
    by (simp add: example_unknown_def)
  have a: "new_meta example_backend (e_meta example_unknown) None None
             = Inr (empty_vector_meta 2, None)"
    by (simp add: new_meta_def example_backend_def with_dtype_def example_unknown_def
        example_mxv_def)
  have b: "meta_update example_backend (p_meta example_product_target) (e_meta example_unknown)
             = Inr (empty_vector_meta 2)"
    by (simp add: example_backend_def example_product_target_def example_unknown_def
        example_mxv_def)
  have c: "meta_is_scalar (empty_vector_meta 2) \<or> meta_nvals (empty_vector_meta 2) = 0"
    by (simp add: empty_vector_meta_def)
  from unknown_method_fails [OF n, of example_backend None None "(empty_vector_meta 2, None)"
      example_product_target "empty_vector_meta 2" None None None] a b c
  show ?thesis by (simp add: example_unknown_def)
qed



lemma cast_idem: "cast dt (cast dt x) = cast dt x"
  by (cases dt) auto

lemma entries_of_Cons:
  "entries_of (k # ks) f = (case f k of None \<Rightarrow> entries_of ks f | Some v \<Rightarrow> (k, v) # entries_of ks f)"
  by (simp add: entries_of_def List.map_filter_simps split: option.splits)

lemma map_of_entries_of:
  "distinct ks \<Longrightarrow> map_of (entries_of ks f) k = (if k \<in> set ks then f k else None)"
proof (induction ks)
  case Nil
  then show ?case by (simp add: entries_of_def List.map_filter_simps)
next
  case (Cons a ks)
  then show ?case by (auto simp: entries_of_Cons split: option.splits)
qed

lemma v_get_vec_of: "v_get (vec_of dt n f) i = (if i < n then f i else None)"
  by (simp add: v_get_def vec_of_def zip_map_fst_snd map_of_entries_of)










subsection \<open>Folding with a monoid of a dtype\<close>

lemma msum_Nil: "msum op [] = mo_identity op"
  by (simp add: msum_def)

lemma msum_Cons: "msum op (x # xs) = mo_op op x (msum op xs)"
  by (simp add: msum_def)

lemma mon_closed: "monoid_on dt op \<Longrightarrow> in_dtype dt a \<Longrightarrow> in_dtype dt b \<Longrightarrow> in_dtype dt (mo_op op a b)"
  unfolding monoid_on_def by blast

lemma mon_comm: "monoid_on dt op \<Longrightarrow> in_dtype dt a \<Longrightarrow> in_dtype dt b \<Longrightarrow> mo_op op a b = mo_op op b a"
  unfolding monoid_on_def by blast

lemma mon_assoc:
  "monoid_on dt op \<Longrightarrow> in_dtype dt a \<Longrightarrow> in_dtype dt b \<Longrightarrow> in_dtype dt c \<Longrightarrow>
   mo_op op (mo_op op a b) c = mo_op op a (mo_op op b c)"
  unfolding monoid_on_def by blast

lemma mon_ident: "monoid_on dt op \<Longrightarrow> in_dtype dt a \<Longrightarrow> mo_op op (mo_identity op) a = a"
  unfolding monoid_on_def by blast

lemma mon_ident_in: "monoid_on dt op \<Longrightarrow> in_dtype dt (mo_identity op)"
  unfolding monoid_on_def by blast

lemma msum_closed:
  "monoid_on dt op \<Longrightarrow> list_all (in_dtype dt) xs \<Longrightarrow> in_dtype dt (msum op xs)"
  by (induction xs) (auto simp: msum_Nil msum_Cons mon_ident_in mon_closed)

lemma msum_append:
  assumes "monoid_on dt op" "list_all (in_dtype dt) xs" "list_all (in_dtype dt) ys"
  shows "msum op (xs @ ys) = mo_op op (msum op xs) (msum op ys)"
  using assms(2)
proof (induction xs)
  case Nil
  from msum_closed [OF assms(1,3)] assms(1) show ?case
    by (simp add: msum_Nil mon_ident)
next
  case (Cons x xs)
  then have "in_dtype dt x" "in_dtype dt (msum op xs)" "in_dtype dt (msum op ys)"
    using msum_closed [OF assms(1)] assms(3) by auto
  with Cons assms(1) show ?case
    by (simp add: msum_Cons mon_assoc)
qed

lemma msum_concat:
  assumes "monoid_on dt op" "list_all (list_all (in_dtype dt)) xss"
  shows "msum op (map (msum op) xss) = msum op (concat xss)"
  using assms(2)
proof (induction xss)
  case Nil
  show ?case by simp
next
  case (Cons xs xss)
  then have "list_all (in_dtype dt) (concat xss)"
    by (auto simp: list_all_iff)
  with Cons assms(1) show ?case
    by (simp add: msum_Cons msum_append [OF assms(1)])
qed

lemma msum_insert:
  assumes "monoid_on dt op" "list_all (in_dtype dt) xs" "list_all (in_dtype dt) ys" "in_dtype dt x"
  shows "msum op (xs @ x # ys) = mo_op op x (msum op (xs @ ys))"
proof -
  have c: "in_dtype dt (msum op xs)" "in_dtype dt (msum op ys)"
    using msum_closed [OF assms(1)] assms by auto
  have "msum op (xs @ x # ys) = mo_op op (msum op xs) (mo_op op x (msum op ys))"
    using assms by (simp add: msum_append [OF assms(1)] msum_Cons)
  also have "\<dots> = mo_op op (mo_op op (msum op xs) x) (msum op ys)"
    using assms(1,4) c by (simp add: mon_assoc)
  also have "\<dots> = mo_op op (mo_op op x (msum op xs)) (msum op ys)"
    using assms(1,4) c by (simp add: mon_comm [of dt op x])
  also have "\<dots> = mo_op op x (mo_op op (msum op xs) (msum op ys))"
    using assms(1,4) c by (simp add: mon_assoc)
  finally show ?thesis
    using assms by (simp add: msum_append [OF assms(1)])
qed

lemma msum_mset:
  assumes "monoid_on dt op"
  shows "mset xs = mset ys \<Longrightarrow> list_all (in_dtype dt) xs \<Longrightarrow> msum op xs = msum op ys"
proof (induction xs arbitrary: ys)
  case Nil
  then show ?case by simp
next
  case (Cons x xs)
  from Cons.prems(1) have "x \<in> set ys"
    by (metis list.set_intros(1) mset_eq_setD)
  then obtain as bs where ys: "ys = as @ x # bs"
    by (auto simp: in_set_conv_decomp)
  with Cons.prems(1) have m: "mset xs = mset (as @ bs)"
    by simp
  from Cons.prems have cx: "in_dtype dt x" and cxs: "list_all (in_dtype dt) xs"
    by auto
  from m cxs have "list_all (in_dtype dt) (as @ bs)"
    by (metis list_all_iff mset_eq_setD)
  then have cas: "list_all (in_dtype dt) as" and cbs: "list_all (in_dtype dt) bs"
    by auto
  from Cons.IH [OF m cxs] have "msum op xs = msum op (as @ bs)" .
  then show ?case
    by (simp add: ys msum_Cons msum_insert [OF assms cas cbs cx])
qed



subsection \<open>Tree reductions\<close>

lemma chunks_Nil: "chunks k [] = []"
  by (simp add: chunks.simps)

lemma chunks_step: "0 < k \<Longrightarrow> xs \<noteq> [] \<Longrightarrow> chunks k xs = take k xs # chunks k (drop k xs)"
  by (subst chunks.simps) simp

lemma concat_chunks: "0 < k \<Longrightarrow> concat (chunks k xs) = xs"
proof (induction k xs rule: chunks.induct)
  case (1 k xs)
  show ?case
  proof (cases "xs = []")
    case True
    then show ?thesis by (simp add: chunks_Nil)
  next
    case False
    with 1 show ?thesis by (simp add: chunks_step)
  qed
qed

lemma chunks_map: "chunks k (map f xs) = map (map f) (chunks k xs)"
proof (induction k xs rule: chunks.induct)
  case (1 k xs)
  show ?case
  proof (cases "k = 0 \<or> xs = []")
    case True
    then show ?thesis by (auto simp: chunks.simps)
  next
    case False
    with 1 show ?thesis
      by (simp add: chunks_step take_map drop_map)
  qed
qed

lemma chunks_eq_Nil: "0 < k \<Longrightarrow> chunks k xs = [] \<longleftrightarrow> xs = []"
  by (cases "xs = []") (simp_all add: chunks_Nil chunks_step)

lemma in_chunks: "g \<in> set (chunks k xs) \<Longrightarrow> g \<noteq> [] \<and> set g \<subseteq> set xs"
proof (induction k xs rule: chunks.induct)
  case (1 k xs)
  show ?case
  proof (cases "k = 0 \<or> xs = []")
    case True
    with 1(2) show ?thesis by (auto simp: chunks.simps)
  next
    case False
    with 1(2) have "g = take k xs \<or> g \<in> set (chunks k (drop k xs))"
      by (simp add: chunks_step)
    then show ?thesis
    proof
      assume "g = take k xs"
      with False show ?thesis by (auto dest: in_set_takeD)
    next
      assume "g \<in> set (chunks k (drop k xs))"
      with 1(1) False show ?thesis by (auto dest: in_set_dropD)
    qed
  qed
qed

lemma sequence_Inr: "(\<And>x. x \<in> set xs \<Longrightarrow> f x = Inr (g x)) \<Longrightarrow> sequence (map f xs) = Inr (map g xs)"
  by (induction xs) auto

lemma tree_reduce1_abstract:
  assumes k: "0 < k"
    and step: "\<And>as. as \<noteq> [] \<Longrightarrow> list_all P as \<Longrightarrow> f (List1 (map rep as)) = Inr (rep (comb as))"
    and closed: "\<And>as. as \<noteq> [] \<Longrightarrow> list_all P as \<Longrightarrow> P (comb as)"
    and flat: "\<And>ass. list_all (\<lambda>as. as \<noteq> [] \<and> list_all P as) ass \<Longrightarrow>
                 rep (comb (map comb ass)) = rep (comb (concat ass))"
  shows "as \<noteq> [] \<Longrightarrow> list_all P as \<Longrightarrow> tree_reduce1 k f d (map rep as) = Inr (rep (comb as))"
proof (induction d arbitrary: as)
  case 0
  then show ?case by (simp add: step)
next
  case (Suc d)
  have g: "\<And>g. g \<in> set (chunks k as) \<Longrightarrow> g \<noteq> [] \<and> list_all P g"
    using Suc.prems(2) by (auto dest!: in_chunks simp: list_all_iff)
  then have "sequence (map (\<lambda>g. f (List1 (map rep g))) (chunks k as))
      = Inr (map (\<lambda>g. rep (comb g)) (chunks k as))"
    by (intro sequence_Inr) (simp add: step)
  then have s: "sequence (map (\<lambda>g. f (List1 g)) (chunks k (map rep as)))
      = Inr (map rep (map comb (chunks k as)))"
    by (simp add: chunks_map o_def)
  have ne: "map comb (chunks k as) \<noteq> []"
    using Suc.prems(1) k by (simp add: chunks_eq_Nil)
  have p: "list_all P (map comb (chunks k as))"
    using g by (auto simp: list_all_iff closed)
  have "tree_reduce1 k f (Suc d) (map rep as) = tree_reduce1 k f d (map rep (map comb (chunks k as)))"
    by (simp add: s)
  also have "\<dots> = Inr (rep (comb (map comb (chunks k as))))"
    by (rule Suc.IH [OF ne p])
  also have "rep (comb (map comb (chunks k as))) = rep (comb (concat (chunks k as)))"
    using g by (intro flat) (auto simp: list_all_iff)
  finally show ?case
    by (simp add: concat_chunks [OF k])
qed



subsection \<open>Combining partial scalars\<close>

lemma map_filter_Some: "(\<And>x. x \<in> set xs \<Longrightarrow> f x = Some (g x)) \<Longrightarrow> List.map_filter f xs = map g xs"
  by (induction xs) (auto simp: List.map_filter_simps)

lemma map_filter_dense: "List.map_filter (map_of (zip [0..<length xs] xs)) [0..<length xs] = xs"
proof -
  have "List.map_filter (map_of (zip [0..<length xs] xs)) [0..<length xs]
      = map (\<lambda>i. xs ! i) [0..<length xs]"
  proof (rule map_filter_Some)
    fix i assume "i \<in> set [0..<length xs]"
    then have i: "i < length xs" by simp
    from map_of_zip_nth [of "[0..<length xs]" xs i] i
    show "map_of (zip [0..<length xs] xs) i = Some (xs ! i)" by simp
  qed
  then show ?thesis by (simp add: map_nth)
qed

lemma map_cast_id: "list_all (in_dtype dt) xs \<Longrightarrow> map (cast dt) xs = xs"
  by (induction xs) (auto simp: in_dtype_def)

lemma sequence_scalar_values:
  "sequence (map block_scalar_value (map (scalar_block dt op) vss)) = Inr (map (\<lambda>vs. Some (msum op vs)) vss)"
  by (rule trans [OF _ sequence_Inr [where f = "\<lambda>vs. block_scalar_value (scalar_block dt op vs)"]])
    (simp_all add: o_def scalar_block_def wrap_inner_def)

lemma pack_reduce_blocks:
  assumes m: "monoid_on dt (at_dtype op dt)" and h: "has_dtype op dt"
    and c: "list_all (list_all (in_dtype dt)) vss"
  shows "pack_reduce op dt (map (scalar_block dt (at_dtype op dt)) vss) = Inr (scalar_block dt (at_dtype op dt) (concat vss))"
proof -
  let ?ms = "map (msum (at_dtype op dt)) vss"
  have cm: "list_all (in_dtype dt) ?ms"
    using c by (auto simp: list_all_iff intro: msum_closed [OF m])
  have fv: "from_values [0..<length vss] (map (\<lambda>vs. Some (msum (at_dtype op dt) vs)) vss) (length vss) dt
      = Inr \<lparr>v_dtype = dt, v_size = length vss, v_indices = [0..<length vss], v_values = ?ms\<rparr>"
    using map_cast_id [OF cm]
    by (auto simp: from_values_def List.map_filter_def o_def)
  have vv: "vector_values \<lparr>v_dtype = dt, v_size = length vss, v_indices = [0..<length vss], v_values = ?ms\<rparr> = ?ms"
    using map_filter_dense [of ?ms] by (simp add: vector_values_def v_get_def [abs_def])
  have "in_dtype dt (msum (at_dtype op dt) ?ms)"
    by (rule msum_closed [OF m cm])
  then have "cast dt (msum (at_dtype op dt) ?ms) = msum (at_dtype op dt) (concat vss)"
    by (simp add: in_dtype_def msum_concat [OF m c])
  then show ?thesis
    using h
    by (simp add: pack_reduce_def sequence_scalar_values [unfolded map_map] fv vector_reduce_def vv
        scalar_block_def)
qed

lemma fn_reduce_combine_List1:
  assumes "monoid_on dt (at_dtype op dt)" "vss \<noteq> []" "list_all (list_all (in_dtype dt)) vss"
    "has_dtype op dt"
  shows "fn_reduce_combine op dt (List1 (map (scalar_block dt (at_dtype op dt)) vss))
     = Inr (scalar_block dt (at_dtype op dt) (concat vss))"
  using assms by (simp add: pack_reduce_blocks)

lemma fn_reduce_combine_List2:
  assumes "monoid_on dt (at_dtype op dt)" "G \<noteq> []" "list_all (list_all (list_all (in_dtype dt))) G"
    "has_dtype op dt"
  shows "fn_reduce_combine op dt (List2 (map (map (scalar_block dt (at_dtype op dt))) G))
     = Inr (scalar_block dt (at_dtype op dt) (concat (concat G)))"
proof -
  have "list_all (list_all (in_dtype dt)) (concat G)"
    using assms(3) by (auto simp: list_all_iff)
  from pack_reduce_blocks [OF assms(1) assms(4) this] assms(2) show ?thesis
    by (simp add: map_concat)
qed

lemma tree_reduce1_scalar:
  assumes m: "monoid_on dt (at_dtype op dt)" and k: "0 < k" and h: "has_dtype op dt"
  shows "vss \<noteq> [] \<Longrightarrow> list_all (list_all (in_dtype dt)) vss \<Longrightarrow>
    tree_reduce1 k (fn_reduce_combine op dt) d (map (scalar_block dt (at_dtype op dt)) vss)
      = Inr (scalar_block dt (at_dtype op dt) (concat vss))"
proof (rule tree_reduce1_abstract [where P = "list_all (in_dtype dt)" and comb = concat, OF k])
  fix as :: "int list list"
  assume "as \<noteq> []" "list_all (list_all (in_dtype dt)) as"
  then show "fn_reduce_combine op dt (List1 (map (scalar_block dt (at_dtype op dt)) as)) = Inr (scalar_block dt (at_dtype op dt) (concat as))"
    by (rule fn_reduce_combine_List1 [OF m _ _ h])
  show "list_all (in_dtype dt) (concat as)"
    using \<open>list_all (list_all (in_dtype dt)) as\<close> by (auto simp: list_all_iff)
next
  fix ass :: "int list list list"
  have "concat (map concat ass) = concat (concat ass)"
    by (induction ass) auto
  then show "scalar_block dt (at_dtype op dt) (concat (map concat ass)) = scalar_block dt (at_dtype op dt) (concat (concat ass))"
    by simp
qed



subsection \<open>Reducing a partitioned vector\<close>

lemma map_filter_cong': "(\<And>x. x \<in> set xs \<Longrightarrow> f x = g x) \<Longrightarrow> List.map_filter f xs = List.map_filter g xs"
  by (induction xs) (auto simp: List.map_filter_simps split: option.splits)

lemma map_filter_map': "List.map_filter f (map g xs) = List.map_filter (\<lambda>x. f (g x)) xs"
  by (induction xs) (auto simp: List.map_filter_simps split: option.splits)

lemma map_filter_append': "List.map_filter f (xs @ ys) = List.map_filter f xs @ List.map_filter f ys"
  by (induction xs) (auto simp: List.map_filter_simps split: option.splits)

lemma upt_shift: "map (\<lambda>i. lo + i) [0..<n] = [lo..<lo + n]"
  by (induction n) auto

lemma vector_values_vec_of: "vector_values (vec_of dt n f) = List.map_filter f [0..<n]"
proof -
  have "v_size (vec_of dt n f) = n" by (simp add: vec_of_def)
  then show ?thesis
    by (simp add: vector_values_def) (rule map_filter_cong', simp add: v_get_vec_of)
qed

lemma vector_values_slice:
  "vector_values (vector_slice v lo n) = List.map_filter (v_get v) [lo..<lo + n]"
  by (simp add: vector_slice_def vector_values_vec_of upt_shift [symmetric] map_filter_map')

lemma concat_spans:
  "concat (map (\<lambda>(lo, n). List.map_filter g [lo..<lo + n]) (spans off sizes))
     = List.map_filter g [off..<off + sum_list sizes]"
proof (induction sizes arbitrary: off)
  case Nil
  show ?case by (simp add: List.map_filter_simps)
next
  case (Cons n ns)
  have "[off..<off + (n + sum_list ns)] = [off..<off + n] @ [off + n..<off + n + sum_list ns]"
    by (metis add.assoc le_add1 upt_add_eq_append)
  then show ?case
    by (simp add: Cons.IH map_filter_append')
qed

lemma concat_split_vector:
  "sum_list sizes = v_size v \<Longrightarrow>
   concat (map vector_values (split_vector v sizes)) = vector_values v"
proof -
  assume s: "sum_list sizes = v_size v"
  have "map vector_values (split_vector v sizes)
      = map (\<lambda>(lo, n). List.map_filter (v_get v) [lo..<lo + n]) (spans 0 sizes)"
    by (simp add: split_vector_def vector_values_slice split_def)
  then show ?thesis
    using concat_spans [of "v_get v" 0 sizes] s by (simp add: vector_values_def)
qed

lemma v_get_in_values: "v_get v i = Some x \<Longrightarrow> x \<in> set (v_values v)"
  unfolding v_get_def by (auto dest!: map_of_SomeD set_zip_rightD)

lemma map_filter_in_dtype:
  "list_all (in_dtype dt) (v_values v) \<Longrightarrow> list_all (in_dtype dt) (List.map_filter (v_get v) ixs)"
  by (induction ixs) (auto simp: list_all_iff List.map_filter_simps split: option.splits
      dest!: v_get_in_values)

lemma fn_reduce_block:
  assumes m: "monoid_on dt (at_dtype op dt)" and h: "has_dtype op dt" and d: "v_dtype b = dt"
    and c: "list_all (in_dtype dt) (vector_values b)"
  shows "fn_reduce op dt (wrap_inner (GVector b)) = Inr (scalar_block dt (at_dtype op dt) (vector_values b))"
proof -
  have "in_dtype dt (msum (at_dtype op dt) (vector_values b))"
    by (rule msum_closed [OF m c])
  then show ?thesis
    using h d
    by (simp add: fn_reduce_def wrap_inner_def vector_reduce_def scalar_block_def in_dtype_def)
qed

lemma split_vector_Nil: "split_vector v sizes = [] \<longleftrightarrow> sizes = []"
  by (cases sizes) (simp_all add: split_vector_def)

lemma reduce_partitioned_vector:
  assumes m: "monoid_on dt (at_dtype op dt)" and k: "0 < da_split_every B 1"
    and ne: "sizes \<noteq> []" and s: "sum_list sizes = v_size v"
    and c: "list_all (in_dtype dt) (v_values v)"
    and h: "has_dtype op dt" and dv: "v_dtype v = dt"
  shows "da_reduction B (vector_blocks v sizes) (\<lambda>axis. fn_reduce op dt) (fn_reduce_combine op dt) None
     = Inr (Grid0 (wrap_inner (GScalar (vector_reduce op dt v))))"
proof -
  let ?bs = "split_vector v sizes"
  let ?vss = "map vector_values ?bs"
  have cb: "\<And>b. b \<in> set ?bs \<Longrightarrow> list_all (in_dtype dt) (vector_values b)"
    using c by (auto simp: split_vector_def vector_values_slice intro: map_filter_in_dtype)
  have db: "\<And>b. b \<in> set ?bs \<Longrightarrow> v_dtype b = dt"
    using dv by (auto simp: split_vector_def vector_slice_def vec_of_def)
  have ch: "sequence (map (fn_reduce op dt) (map (\<lambda>b. wrap_inner (GVector b)) ?bs))
      = Inr (map (scalar_block dt (at_dtype op dt)) ?vss)"
    unfolding map_map
    by (rule trans [OF sequence_Inr [where g = "\<lambda>b. scalar_block dt (at_dtype op dt) (vector_values b)"]])
      (simp_all add: fn_reduce_block [OF m h] cb db)
  have vne: "?vss \<noteq> []" using ne by (simp add: split_vector_Nil)
  have vc: "list_all (list_all (in_dtype dt)) ?vss"
    using cb by (simp add: list_all_iff)
  have cv: "list_all (in_dtype dt) (vector_values v)"
    unfolding vector_values_def by (rule map_filter_in_dtype [OF c])
  have "in_dtype dt (msum (at_dtype op dt) (vector_values v))"
    by (rule msum_closed [OF m cv])
  then have fin: "scalar_block dt (at_dtype op dt) (concat ?vss) = wrap_inner (GScalar (vector_reduce op dt v))"
    using dv by (simp add: concat_split_vector [OF s] scalar_block_def vector_reduce_def in_dtype_def)
  have t: "\<And>d. tree_reduce1 (da_split_every B 1) (fn_reduce_combine op dt) d
      (map (scalar_block dt (at_dtype op dt)) ?vss) = Inr (scalar_block dt (at_dtype op dt) (concat ?vss))"
    by (rule tree_reduce1_scalar [OF m k h vne vc])
  show ?thesis
    using t ch fin by (simp add: da_reduction_def vector_blocks_def Let_def)
qed



subsection \<open>Tiles of a grid\<close>

lemma mset_heads_tails:
  "mset (concat (map (case_list [] (\<lambda>h t. [h])) xss))
     + mset (concat (concat (map (case_list [] (\<lambda>h t. [t])) xss)))
   = mset (concat xss)"
  by (induction xss) (auto split: list.splits)

lemma mset_concat_transpose: "mset (concat (transpose xss)) = mset (concat xss)"
proof (induction xss rule: transpose.induct)
  case 1
  show ?case by simp
next
  case (2 xss)
  then show ?case by simp
next
  case (3 x xs xss)
  have "mset (concat (transpose ((x # xs) # xss)))
      = {#x#} + mset (concat (map (case_list [] (\<lambda>h t. [h])) xss))
        + mset (concat (xs # concat (map (case_list [] (\<lambda>h t. [t])) xss)))"
    by (simp add: "3.IH")
  also have "\<dots> = {#x#} + mset xs + (mset (concat (map (case_list [] (\<lambda>h t. [h])) xss))
        + mset (concat (concat (map (case_list [] (\<lambda>h t. [t])) xss))))"
    by simp
  also have "\<dots> = mset (concat ((x # xs) # xss))"
    by (simp add: mset_heads_tails)
  finally show ?case .
qed

lemma transpose_nonempty: "ys \<in> set (transpose xss) \<Longrightarrow> ys \<noteq> []"
  by (induction xss rule: transpose.induct) auto

lemma set_concat_transpose: "set (concat (transpose xss)) = set (concat xss)"
  using mset_concat_transpose [of xss] by (metis set_mset_mset)

lemma tiles_map: "tiles k (map (map f) g) = map (map (map (map f))) (tiles k g)"
proof -
  have "\<And>rg. transpose (map (chunks k) (map (map f) rg)) = map (map (map f)) (transpose (map (chunks k) rg))"
  proof -
    fix rg :: "'b list list"
    have "map (chunks k) (map (map f) rg) = map (map (map f)) (map (chunks k) rg)"
      by (simp add: chunks_map o_def)
    then show "transpose (map (chunks k) (map (map f) rg)) = map (map (map f)) (transpose (map (chunks k) rg))"
      by (simp only: transpose_map_map)
  qed
  then show ?thesis
    by (simp add: tiles_def chunks_map o_def)
qed

lemma sum_list_mset_eq:
  fixes w :: "'a \<Rightarrow> 'b multiset"
  shows "mset xs = mset ys \<Longrightarrow> sum_list (map w xs) = sum_list (map w ys)"
  by (metis mset_map sum_mset_sum_list)

lemma mset_concat3: "mset (concat (concat t)) = sum_list (map (\<lambda>c. mset (concat c)) t)"
  by (induction t) auto

lemma sum_list_concat_map:
  fixes f :: "'a \<Rightarrow> 'b multiset"
  shows "sum_list (map f (concat xss)) = (\<Sum>xs\<leftarrow>xss. sum_list (map f xs))"
  by (induction xss) auto

lemma mset_concat_concat_map:
  "mset (concat (concat (map (map h) T))) = (\<Sum>row\<leftarrow>T. \<Sum>t\<leftarrow>row. mset (h t))"
  by (induction T) (auto simp: mset_concat o_def)

lemma mset_rowgroup:
  assumes k: "0 < k"
  shows "sum_list (map (\<lambda>t. mset (concat (concat t))) (transpose (map (chunks k) rg)))
     = mset (concat (concat rg))"
proof -
  let ?w = "\<lambda>c :: 'a list list. mset (concat c)"
  have "sum_list (map (\<lambda>t. mset (concat (concat t))) (transpose (map (chunks k) rg)))
      = sum_list (map (\<lambda>t. sum_list (map ?w t)) (transpose (map (chunks k) rg)))"
    by (simp add: mset_concat3)
  also have "\<dots> = sum_list (map ?w (concat (transpose (map (chunks k) rg))))"
    by (simp add: sum_list_concat_map)
  also have "\<dots> = sum_list (map ?w (concat (map (chunks k) rg)))"
    by (rule sum_list_mset_eq) (rule mset_concat_transpose)
  also have "\<dots> = mset (concat (concat rg))"
  proof (induction rg)
    case Nil
    show ?case by simp
  next
    case (Cons r rg)
    have "sum_list (map ?w (chunks k r)) = mset (concat (concat (chunks k r)))"
      by (simp add: mset_concat3)
    then show ?case
      using Cons by (simp add: concat_chunks [OF k])
  qed
  finally show ?thesis .
qed

lemma sum_list_mset_concat:
  "(\<Sum>rg\<leftarrow>X. mset (concat (concat rg))) = mset (concat (concat (concat X)))"
  by (induction X) auto

lemma mset_tiles:
  assumes k: "0 < k"
  shows "mset (concat (concat (map (map (\<lambda>t. concat (concat t))) (tiles k G))))
     = mset (concat (concat G))"
proof -
  have "mset (concat (concat (map (map (\<lambda>t. concat (concat t))) (tiles k G))))
      = sum_list (map (\<lambda>rg. sum_list (map (\<lambda>t. mset (concat (concat t))) (transpose (map (chunks k) rg))))
          (chunks k G))"
    using mset_concat_concat_map [of "\<lambda>t. concat (concat t)" "tiles k G"]
    by (simp add: tiles_def o_def)
  also have "\<dots> = sum_list (map (\<lambda>rg. mset (concat (concat rg))) (chunks k G))"
    by (simp add: mset_rowgroup [OF k])
  also have "\<dots> = mset (concat (concat (concat (chunks k G))))"
    by (rule sum_list_mset_concat)
  finally show ?thesis
    by (simp add: concat_chunks [OF k])
qed



lemma tiles_elems:
  assumes "row \<in> set (tiles k G)" "t \<in> set row"
  shows "t \<noteq> [] \<and> set (concat t) \<subseteq> set (concat G)"
proof -
  from assms(1) obtain rg where rg: "rg \<in> set (chunks k G)" and row: "row = transpose (map (chunks k) rg)"
    by (auto simp: tiles_def)
  from assms(2) row have ne: "t \<noteq> []"
    by (auto dest: transpose_nonempty)
  have "set t \<subseteq> set (concat (transpose (map (chunks k) rg)))"
    using assms(2) row by auto
  then have "set t \<subseteq> set (concat (map (chunks k) rg))"
    by (simp only: set_concat_transpose)
  moreover have "\<And>c. c \<in> set (concat (map (chunks k) rg)) \<Longrightarrow> set c \<subseteq> set (concat G)"
  proof -
    fix c assume "c \<in> set (concat (map (chunks k) rg))"
    then obtain r where r: "r \<in> set rg" and c: "c \<in> set (chunks k r)" by auto
    from rg r have "r \<in> set G" by (auto dest!: in_chunks)
    with c show "set c \<subseteq> set (concat G)" by (auto dest!: in_chunks)
  qed
  ultimately have "set (concat t) \<subseteq> set (concat G)" by auto
  with ne show ?thesis by simp
qed

lemma tiles_eq_Nil: "0 < k \<Longrightarrow> tiles k G = [] \<longleftrightarrow> G = []"
  by (simp add: tiles_def chunks_eq_Nil)

lemma tree_reduce2_scalar:
  assumes m: "monoid_on dt (at_dtype op dt)" and k: "0 < k" and h: "has_dtype op dt"
  shows "G \<noteq> [] \<Longrightarrow> (\<And>vs. vs \<in> set (concat G) \<Longrightarrow> list_all (in_dtype dt) vs) \<Longrightarrow>
    \<exists>xs. tree_reduce2 k (fn_reduce_combine op dt) d (map (map (scalar_block dt (at_dtype op dt))) G)
            = Inr (scalar_block dt (at_dtype op dt) xs)
       \<and> mset xs = mset (concat (concat G))"
proof (induction d arbitrary: G)
  case 0
  have "list_all (list_all (list_all (in_dtype dt))) G"
    using 0(2) by (auto simp: list_all_iff)
  from fn_reduce_combine_List2 [OF m 0(1) this h] show ?case
    by auto
next
  case (Suc d)
  let ?cc = "\<lambda>t :: int list list list. concat (concat t)"
  let ?G' = "map (map ?cc) (tiles k G)"
  have tile: "\<And>row t. row \<in> set (tiles k G) \<Longrightarrow> t \<in> set row \<Longrightarrow>
      fn_reduce_combine op dt (List2 (map (map (scalar_block dt (at_dtype op dt))) t)) = Inr (scalar_block dt (at_dtype op dt) (?cc t))"
  proof -
    fix row t assume rt: "row \<in> set (tiles k G)" "t \<in> set row"
    from tiles_elems [OF rt] have tne: "t \<noteq> []" and sub: "set (concat t) \<subseteq> set (concat G)"
      by simp_all
    from sub Suc.prems(2) have "\<forall>vs\<in>set (concat t). list_all (in_dtype dt) vs"
      by blast
    then have "list_all (list_all (list_all (in_dtype dt))) t"
      by (simp add: list_all_iff)
    with tne show "fn_reduce_combine op dt (List2 (map (map (scalar_block dt (at_dtype op dt))) t))
        = Inr (scalar_block dt (at_dtype op dt) (?cc t))"
      by (rule fn_reduce_combine_List2 [OF m _ _ h])
  qed
  have rows: "\<And>row. row \<in> set (tiles k G) \<Longrightarrow>
      sequence (map (\<lambda>t. fn_reduce_combine op dt (List2 (map (map (scalar_block dt (at_dtype op dt))) t))) row)
        = Inr (map (\<lambda>t. scalar_block dt (at_dtype op dt) (?cc t)) row)"
    by (rule sequence_Inr) (rule tile)
  have "sequence (map (\<lambda>row. sequence (map (\<lambda>t. fn_reduce_combine op dt (List2 (map (map (scalar_block dt (at_dtype op dt))) t))) row))
          (tiles k G))
      = Inr (map (map (\<lambda>t. scalar_block dt (at_dtype op dt) (?cc t))) (tiles k G))"
    by (rule sequence_Inr) (rule rows)
  then have s: "sequence (map (\<lambda>row. sequence (map (\<lambda>t. fn_reduce_combine op dt (List2 t)) row))
          (tiles k (map (map (scalar_block dt (at_dtype op dt))) G)))
      = Inr (map (map (scalar_block dt (at_dtype op dt))) ?G')"
    by (simp add: tiles_map o_def)
  have ne: "?G' \<noteq> []"
    using Suc.prems(1) k by (simp add: tiles_eq_Nil)
  have c: "\<And>vs. vs \<in> set (concat ?G') \<Longrightarrow> list_all (in_dtype dt) vs"
  proof -
    fix vs assume "vs \<in> set (concat ?G')"
    then obtain row t where rt: "row \<in> set (tiles k G)" "t \<in> set row" and vs: "vs = ?cc t"
      by auto
    from tiles_elems [OF rt] have sub: "set (concat t) \<subseteq> set (concat G)"
      by simp
    from sub Suc.prems(2) have "\<forall>ws\<in>set (concat t). list_all (in_dtype dt) ws"
      by blast
    then show "list_all (in_dtype dt) vs"
      unfolding vs by (simp add: list_all_iff)
  qed
  from Suc.IH [OF ne c] obtain xs where
    xs: "tree_reduce2 k (fn_reduce_combine op dt) d (map (map (scalar_block dt (at_dtype op dt))) ?G')
           = Inr (scalar_block dt (at_dtype op dt) xs)"
    and ms: "mset xs = mset (concat (concat ?G'))"
    by blast
  have "tree_reduce2 k (fn_reduce_combine op dt) (Suc d) (map (map (scalar_block dt (at_dtype op dt))) G)
      = Inr (scalar_block dt (at_dtype op dt) xs)"
    using s xs by simp
  moreover have "mset xs = mset (concat (concat G))"
    using ms mset_tiles [OF k, of G] by simp
  ultimately show ?case by blast
qed



subsection \<open>Reducing a partitioned matrix to a scalar\<close>

lemma m_get_mat_of: "m_get (mat_of dt nr nc f) i j = (if i < nr \<and> j < nc then f i j else None)"
  by (simp add: m_get_def mat_of_def map_of_entries_of distinct_product)

lemma row_values_mat_of:
  "i < nr \<Longrightarrow> row_values (mat_of dt nr nc f) i = List.map_filter (f i) [0..<nc]"
proof -
  assume i: "i < nr"
  have "m_ncols (mat_of dt nr nc f) = nc" by (simp add: mat_of_def)
  then show ?thesis
    using i by (simp add: row_values_def) (rule map_filter_cong', simp add: m_get_mat_of)
qed

lemma matrix_values_slice:
  "matrix_values (matrix_slice m r0 nr c0 nc)
     = concat (map (\<lambda>i. List.map_filter (m_get m i) [c0..<c0 + nc]) [r0..<r0 + nr])"
proof -
  have n: "m_nrows (matrix_slice m r0 nr c0 nc) = nr"
    by (simp add: matrix_slice_def mat_of_def)
  have "\<And>i. i \<in> set [0..<nr] \<Longrightarrow>
      row_values (matrix_slice m r0 nr c0 nc) i = List.map_filter (m_get m (r0 + i)) [c0..<c0 + nc]"
    by (simp add: matrix_slice_def row_values_mat_of upt_shift [symmetric] map_filter_map')
  then have "map (row_values (matrix_slice m r0 nr c0 nc)) [0..<nr]
      = map (\<lambda>i. List.map_filter (m_get m (r0 + i)) [c0..<c0 + nc]) [0..<nr]"
    by (intro map_cong) simp_all
  also have "\<dots> = map (\<lambda>i. List.map_filter (m_get m i) [c0..<c0 + nc]) (map (\<lambda>i. r0 + i) [0..<nr])"
    by (simp add: o_def)
  finally show ?thesis
    by (simp add: matrix_values_def n upt_shift)
qed

lemma sum_list_swap:
  fixes f :: "'a \<Rightarrow> 'b \<Rightarrow> 'c multiset"
  shows "(\<Sum>x\<leftarrow>xs. \<Sum>y\<leftarrow>ys. f x y) = (\<Sum>y\<leftarrow>ys. \<Sum>x\<leftarrow>xs. f x y)"
proof (induction xs)
  case Nil
  show ?case by simp
next
  case (Cons x xs)
  have "(\<Sum>y\<leftarrow>ys. f x y + (\<Sum>x\<leftarrow>xs. f x y)) = (\<Sum>y\<leftarrow>ys. f x y) + (\<Sum>y\<leftarrow>ys. \<Sum>x\<leftarrow>xs. f x y)"
    by (induction ys) auto
  with Cons show ?case by simp
qed

lemma sum_list_concat_mset:
  fixes xss :: "'a multiset list list"
  shows "sum_list (concat xss) = (\<Sum>xs\<leftarrow>xss. sum_list xs)"
  by (induction xss) auto

lemma upt_spans: "concat (map (\<lambda>(lo, n). [lo..<lo + n]) (spans off sizes)) = [off..<off + sum_list sizes]"
proof (induction sizes arbitrary: off)
  case Nil
  show ?case by simp
next
  case (Cons n ns)
  have "[off..<off + (n + sum_list ns)] = [off..<off + n] @ [off + n..<off + n + sum_list ns]"
    by (metis add.assoc le_add1 upt_add_eq_append)
  then show ?case by (simp add: Cons.IH)
qed

lemma mset_split_matrix:
  assumes r: "sum_list rs = m_nrows m" and c: "sum_list cs = m_ncols m"
  shows "mset (concat (map matrix_values (concat (split_matrix m rs cs)))) = mset (matrix_values m)"
proof -
  let ?piece = "\<lambda>i (c0, nc). mset (List.map_filter (m_get m i) [c0..<c0 + nc])"
  have row: "\<And>i. mset (row_values m i) = (\<Sum>cb\<leftarrow>spans 0 cs. ?piece i cb)"
  proof -
    fix i
    have "row_values m i = concat (map (\<lambda>(c0, nc). List.map_filter (m_get m i) [c0..<c0 + nc]) (spans 0 cs))"
      using concat_spans [of "m_get m i" 0 cs] c by (simp add: row_values_def)
    then show "mset (row_values m i) = (\<Sum>cb\<leftarrow>spans 0 cs. ?piece i cb)"
      by (simp add: mset_concat o_def split_def)
  qed
  have blk: "\<And>r0 nr c0 nc. mset (matrix_values (matrix_slice m r0 nr c0 nc))
      = (\<Sum>i\<leftarrow>[r0..<r0 + nr]. ?piece i (c0, nc))"
    by (simp add: matrix_values_slice mset_concat o_def)
  have "mset (concat (map matrix_values (concat (split_matrix m rs cs))))
      = (\<Sum>rb\<leftarrow>spans 0 rs. \<Sum>cb\<leftarrow>spans 0 cs.
           mset (matrix_values (matrix_slice m (fst rb) (snd rb) (fst cb) (snd cb))))"
    by (simp add: split_matrix_def mset_concat map_concat o_def split_def sum_list_concat_mset)
  also have "\<dots> = (\<Sum>rb\<leftarrow>spans 0 rs. \<Sum>cb\<leftarrow>spans 0 cs. \<Sum>i\<leftarrow>[fst rb..<fst rb + snd rb]. ?piece i cb)"
    by (simp add: blk split_def)
  also have "\<dots> = (\<Sum>rb\<leftarrow>spans 0 rs. \<Sum>i\<leftarrow>[fst rb..<fst rb + snd rb]. \<Sum>cb\<leftarrow>spans 0 cs. ?piece i cb)"
    by (simp add: sum_list_swap [of _ "spans 0 cs"])
  also have "\<dots> = (\<Sum>rb\<leftarrow>spans 0 rs. \<Sum>i\<leftarrow>[fst rb..<fst rb + snd rb]. mset (row_values m i))"
    by (simp add: row)
  also have "\<dots> = (\<Sum>i\<leftarrow>concat (map (\<lambda>(lo, n). [lo..<lo + n]) (spans 0 rs)). mset (row_values m i))"
    by (simp add: sum_list_concat_map o_def split_def)
  also have "\<dots> = mset (matrix_values m)"
    using r by (simp add: upt_spans matrix_values_def mset_concat o_def)
  finally show ?thesis .
qed



lemma m_get_in_values: "m_get m i j = Some x \<Longrightarrow> x \<in> set (map snd (m_entries m))"
  unfolding m_get_def by (force dest!: map_of_SomeD)

lemma map_filter_m_get_in_dtype:
  "list_all (in_dtype dt) (map snd (m_entries m)) \<Longrightarrow>
   list_all (in_dtype dt) (List.map_filter (m_get m i) js)"
  by (induction js) (auto simp: list_all_iff List.map_filter_simps split: option.splits
      dest!: m_get_in_values)

lemma matrix_values_in_dtype:
  "list_all (in_dtype dt) (map snd (m_entries m)) \<Longrightarrow> list_all (in_dtype dt) (matrix_values m)"
  using map_filter_m_get_in_dtype [of dt m]
  by (simp add: matrix_values_def row_values_def list_all_iff)

lemma slice_values_in_dtype:
  "list_all (in_dtype dt) (map snd (m_entries m)) \<Longrightarrow>
   list_all (in_dtype dt) (matrix_values (matrix_slice m r0 nr c0 nc))"
  using map_filter_m_get_in_dtype [of dt m]
  by (simp add: matrix_values_slice list_all_iff)

lemma fn_reduce_scalar_block:
  assumes m: "monoid_on dt (at_dtype op dt)" and h: "has_dtype op dt" and d: "m_dtype b = dt"
    and c: "list_all (in_dtype dt) (matrix_values b)"
  shows "fn_reduce_scalar op dt (wrap_inner (GMatrix b)) = Inr (scalar_block dt (at_dtype op dt) (matrix_values b))"
proof -
  have "in_dtype dt (msum (at_dtype op dt) (matrix_values b))"
    by (rule msum_closed [OF m c])
  then show ?thesis
    using h d
    by (simp add: fn_reduce_scalar_def wrap_inner_def matrix_reduce_scalar_def scalar_block_def
        in_dtype_def)
qed

lemma split_matrix_Nil: "split_matrix m rs cs = [] \<longleftrightarrow> rs = []"
  by (cases rs) (simp_all add: split_matrix_def)

lemma in_split_matrix:
  "row \<in> set (split_matrix m rs cs) \<Longrightarrow> b \<in> set row \<Longrightarrow>
   \<exists>r0 nr c0 nc. b = matrix_slice m r0 nr c0 nc"
  unfolding split_matrix_def by (clarsimp simp: split_def) blast

lemma reduce_partitioned_matrix:
  assumes m: "monoid_on dt (at_dtype op dt)" and k: "0 < da_split_every B 2"
    and ne: "rs \<noteq> []" and r: "sum_list rs = m_nrows mat" and cs: "sum_list cs = m_ncols mat"
    and c: "list_all (in_dtype dt) (map snd (m_entries mat))"
    and h: "has_dtype op dt" and dm: "m_dtype mat = dt"
  shows "da_reduction B (matrix_blocks mat rs cs) (\<lambda>axis. fn_reduce_scalar op dt)
      (fn_reduce_combine op dt) None
     = Inr (Grid0 (wrap_inner (GScalar (matrix_reduce_scalar op dt mat))))"
proof -
  let ?bss = "split_matrix mat rs cs"
  let ?G = "map (map matrix_values) ?bss"
  have cb: "\<And>row b. row \<in> set ?bss \<Longrightarrow> b \<in> set row \<Longrightarrow> list_all (in_dtype dt) (matrix_values b)"
    using slice_values_in_dtype [OF c] by (auto dest!: in_split_matrix)
  have db: "\<And>row b. row \<in> set ?bss \<Longrightarrow> b \<in> set row \<Longrightarrow> m_dtype b = dt"
    using dm by (auto dest!: in_split_matrix simp: matrix_slice_def mat_of_def)
  have rows: "\<And>row. row \<in> set ?bss \<Longrightarrow>
      sequence (map (\<lambda>b. fn_reduce_scalar op dt (wrap_inner (GMatrix b))) row)
        = Inr (map (\<lambda>b. scalar_block dt (at_dtype op dt) (matrix_values b)) row)"
    by (rule sequence_Inr) (simp add: fn_reduce_scalar_block [OF m h] cb db)
  have "sequence (map (\<lambda>row. sequence (map (\<lambda>b. fn_reduce_scalar op dt (wrap_inner (GMatrix b))) row)) ?bss)
      = Inr (map (map (\<lambda>b. scalar_block dt (at_dtype op dt) (matrix_values b))) ?bss)"
    by (rule sequence_Inr) (rule rows)
  then have ch: "sequence (map (\<lambda>row. sequence (map (fn_reduce_scalar op dt) row))
        (map (map (\<lambda>b. wrap_inner (GMatrix b))) ?bss))
      = Inr (map (map (scalar_block dt (at_dtype op dt))) ?G)"
    by (simp add: o_def)
  have gne: "?G \<noteq> []" using ne by (simp add: split_matrix_Nil)
  have gc: "\<And>vs. vs \<in> set (concat ?G) \<Longrightarrow> list_all (in_dtype dt) vs"
    using cb by auto
  have t: "\<And>d. \<exists>xs. tree_reduce2 (da_split_every B 2) (fn_reduce_combine op dt) d
        (map (map (scalar_block dt (at_dtype op dt))) ?G) = Inr (scalar_block dt (at_dtype op dt) xs)
      \<and> mset xs = mset (concat (concat ?G))"
    by (rule tree_reduce2_scalar [OF m k h gne gc])
  have whole: "mset (concat (concat ?G)) = mset (matrix_values mat)"
    using mset_split_matrix [OF r cs] by (simp add: map_concat)
  have cm: "list_all (in_dtype dt) (matrix_values mat)"
    by (rule matrix_values_in_dtype [OF c])
  have fin: "\<And>xs. mset xs = mset (concat (concat ?G)) \<Longrightarrow>
      scalar_block dt (at_dtype op dt) xs = wrap_inner (GScalar (matrix_reduce_scalar op dt mat))"
  proof -
    fix xs assume "mset xs = mset (concat (concat ?G))"
    then have "mset (matrix_values mat) = mset xs" using whole by simp
    from msum_mset [OF m this cm] msum_closed [OF m cm]
    show "scalar_block dt (at_dtype op dt) xs = wrap_inner (GScalar (matrix_reduce_scalar op dt mat))"
      using dm by (simp add: scalar_block_def matrix_reduce_scalar_def in_dtype_def)
  qed
  have t': "\<And>d. tree_reduce2 (da_split_every B 2) (fn_reduce_combine op dt) d
        (map (map (scalar_block dt (at_dtype op dt))) ?G)
      = Inr (wrap_inner (GScalar (matrix_reduce_scalar op dt mat)))"
    using t fin by metis
  show ?thesis
    using t' ch by (simp add: da_reduction_def matrix_blocks_def Let_def)
qed



subsection \<open>Reducing a partitioned matrix along an axis\<close>

lemma vec_of_cong: "(\<And>i. i < n \<Longrightarrow> f i = g i) \<Longrightarrow> vec_of dt n f = vec_of dt n g"
proof -
  assume "\<And>i. i < n \<Longrightarrow> f i = g i"
  then have "entries_of [0..<n] f = entries_of [0..<n] g"
    unfolding entries_of_def by (intro map_filter_cong') simp
  then show ?thesis by (simp add: vec_of_def)
qed

lemma union_msum_entry:
  assumes "monoid_on dt op" "list_all (in_dtype dt) xs" "list_all (in_dtype dt) ys"
  shows "union_op (mo_op op) (msum_entry op xs) (msum_entry op ys) = msum_entry op (xs @ ys)"
proof (cases "xs = [] \<or> ys = []")
  case True
  then show ?thesis by (auto simp: msum_entry_def)
next
  case False
  with msum_append [OF assms] show ?thesis by (simp add: msum_entry_def)
qed

lemma cast_msum_entry:
  assumes "monoid_on dt op" "list_all (in_dtype dt) xs"
  shows "map_option (cast dt) (msum_entry op xs) = msum_entry op xs"
  using msum_closed [OF assms] by (simp add: msum_entry_def in_dtype_def)

lemma unify_same: "unify dt dt = dt"
  by (cases dt) simp_all

lemma mo_op_at_dtype: "mo_op (at_dtype op dt) a b = cast dt (mo_op op a b)"
  by (simp add: at_dtype_def)

lemma at_dtype_idem: "at_dtype (at_dtype op dt) dt = at_dtype op dt"
  by (simp add: at_dtype_def cast_idem)

lemma vector_ewise_add_axis:
  assumes m: "monoid_on dt (at_dtype op dt)" and h: "has_dtype op dt"
    and a: "\<And>i. list_all (in_dtype dt) (a i)" and b: "\<And>i. list_all (in_dtype dt) (b i)"
  shows "vector_ewise_add op (vec_of dt n (\<lambda>i. msum_entry (at_dtype op dt) (a i)))
      (vec_of dt n (\<lambda>i. msum_entry (at_dtype op dt) (b i)))
    = Inr (vec_of dt n (\<lambda>i. msum_entry (at_dtype op dt) (a i @ b i)))"
proof -
  have "vec_of dt n (\<lambda>i. map_option (cast dt)
          (union_op (mo_op (at_dtype op dt)) (v_get (vec_of dt n (\<lambda>i. msum_entry (at_dtype op dt) (a i))) i)
            (v_get (vec_of dt n (\<lambda>i. msum_entry (at_dtype op dt) (b i))) i)))
      = vec_of dt n (\<lambda>i. msum_entry (at_dtype op dt) (a i @ b i))"
    by (rule vec_of_cong)
      (simp add: v_get_vec_of union_msum_entry [OF m a b] cast_msum_entry [OF m] a b)
  then show ?thesis
    using h by (simp add: vector_ewise_add_def vec_of_def unify_same)
qed

lemma foldl_err_axis:
  assumes m: "monoid_on dt (at_dtype op dt)" and h: "has_dtype op dt"
  shows "(\<And>i. list_all (in_dtype dt) (a i)) \<Longrightarrow>
    (\<And>b i. b \<in> set bs \<Longrightarrow> list_all (in_dtype dt) (b i)) \<Longrightarrow>
    foldl_err (gb_ewise_add op) (GVector (vec_of dt n (\<lambda>i. msum_entry (at_dtype op dt) (a i))))
       (map (\<lambda>b. GVector (vec_of dt n (\<lambda>i. msum_entry (at_dtype op dt) (b i)))) bs)
     = Inr (GVector (vec_of dt n (\<lambda>i. msum_entry (at_dtype op dt) (a i @ concat (map (\<lambda>b. b i) bs)))))"
proof (induction bs arbitrary: a)
  case Nil
  show ?case by simp
next
  case (Cons b bs)
  have ab: "\<And>i. list_all (in_dtype dt) (a i @ b i)"
    using Cons.prems by simp
  have "foldl_err (gb_ewise_add op) (GVector (vec_of dt n (\<lambda>i. msum_entry (at_dtype op dt) (a i @ b i))))
       (map (\<lambda>b. GVector (vec_of dt n (\<lambda>i. msum_entry (at_dtype op dt) (b i)))) bs)
     = Inr (GVector (vec_of dt n (\<lambda>i. msum_entry (at_dtype op dt) ((a i @ b i) @ concat (map (\<lambda>b. b i) bs)))))"
    by (rule Cons.IH [OF ab]) (simp add: Cons.prems(2))
  moreover have "vector_ewise_add op (vec_of dt n (\<lambda>i. msum_entry (at_dtype op dt) (a i)))
      (vec_of dt n (\<lambda>i. msum_entry (at_dtype op dt) (b i)))
    = Inr (vec_of dt n (\<lambda>i. msum_entry (at_dtype op dt) (a i @ b i)))"
    by (rule vector_ewise_add_axis [OF m h]) (simp_all add: Cons.prems)
  ultimately show ?case by simp
qed

lemma fn_reduce_axis_combine_blocks:
  assumes m: "monoid_on dt (at_dtype op dt)" and h: "has_dtype op dt" and ne: "as \<noteq> []"
    and c: "list_all (\<lambda>a. \<forall>i. list_all (in_dtype dt) (a i)) as"
  shows "fn_reduce_axis_combine op (List1 (map (axis_block dt (at_dtype op dt) n) as))
     = Inr (axis_block dt (at_dtype op dt) n (\<lambda>i. concat (map (\<lambda>a. a i) as)))"
proof -
  from ne obtain a bs where as: "as = a # bs" by (cases as) auto
  from c as have a: "\<And>i. list_all (in_dtype dt) (a i)"
    and bs: "\<And>b i. b \<in> set bs \<Longrightarrow> list_all (in_dtype dt) (b i)"
    by (auto simp: list_all_iff)
  have "foldl_err (gb_ewise_add op) (GVector (vec_of dt n (\<lambda>i. msum_entry (at_dtype op dt) (a i))))
       (map (\<lambda>b. GVector (vec_of dt n (\<lambda>i. msum_entry (at_dtype op dt) (b i)))) bs)
     = Inr (GVector (vec_of dt n (\<lambda>i. msum_entry (at_dtype op dt) (a i @ concat (map (\<lambda>b. b i) bs)))))"
    by (rule foldl_err_axis [OF m h]) (simp_all add: a bs)
  then show ?thesis
    by (simp add: as axis_block_def wrap_inner_def o_def)
qed

lemma tree_reduce1_axis:
  assumes m: "monoid_on dt (at_dtype op dt)" and k: "0 < k" and h: "has_dtype op dt"
  shows "as \<noteq> [] \<Longrightarrow> list_all (\<lambda>a. \<forall>i. list_all (in_dtype dt) (a i)) as \<Longrightarrow>
    tree_reduce1 k (fn_reduce_axis_combine op) d (map (axis_block dt (at_dtype op dt) n) as)
      = Inr (axis_block dt (at_dtype op dt) n (\<lambda>i. concat (map (\<lambda>a. a i) as)))"
proof (rule tree_reduce1_abstract [where P = "\<lambda>a. \<forall>i. list_all (in_dtype dt) (a i)"
      and comb = "\<lambda>as i. concat (map (\<lambda>a. a i) as)", OF k])
  fix as :: "(nat \<Rightarrow> int list) list"
  assume "as \<noteq> []" "list_all (\<lambda>a. \<forall>i. list_all (in_dtype dt) (a i)) as"
  then show "fn_reduce_axis_combine op (List1 (map (axis_block dt (at_dtype op dt) n) as))
      = Inr (axis_block dt (at_dtype op dt) n (\<lambda>i. concat (map (\<lambda>a. a i) as)))"
    by (rule fn_reduce_axis_combine_blocks [OF m h])
  show "\<forall>i. list_all (in_dtype dt) (concat (map (\<lambda>a. a i) as))"
    using \<open>list_all (\<lambda>a. \<forall>i. list_all (in_dtype dt) (a i)) as\<close> by (auto simp: list_all_iff)
next
  fix ass :: "(nat \<Rightarrow> int list) list list"
  have "\<And>i. concat (map (\<lambda>a. a i) (map (\<lambda>as i. concat (map (\<lambda>a. a i) as)) ass))
      = concat (map (\<lambda>a. a i) (concat ass))"
    by (induction ass) auto
  then show "axis_block dt (at_dtype op dt) n (\<lambda>i. concat (map (\<lambda>a. a i) (map (\<lambda>as i. concat (map (\<lambda>a. a i) as)) ass)))
      = axis_block dt (at_dtype op dt) n (\<lambda>i. concat (map (\<lambda>a. a i) (concat ass)))"
    by simp
qed

lemma spans_bounds:
  "(lo, n) \<in> set (spans off sizes) \<Longrightarrow> off \<le> lo \<and> lo + n \<le> off + sum_list sizes"
  by (induction sizes arbitrary: off) fastforce+

lemma row_values_slice:
  "i < nr \<Longrightarrow> row_values (matrix_slice m r0 nr c0 nc) i
     = List.map_filter (m_get m (r0 + i)) [c0..<c0 + nc]"
  by (simp add: matrix_slice_def row_values_mat_of upt_shift [symmetric] map_filter_map')

lemma fn_reduce_axis_rowwise_slice:
  assumes m: "monoid_on dt (at_dtype op dt)" and c: "list_all (in_dtype dt) (map snd (m_entries mat))"
    and h: "has_dtype op dt" and dm: "m_dtype mat = dt"
  shows "fn_reduce_axis op dt [1] (wrap_inner (GMatrix (matrix_slice mat r0 nr c0 nc)))
     = Inr (axis_block dt (at_dtype op dt) nr (\<lambda>i. List.map_filter (m_get mat (r0 + i)) [c0..<c0 + nc]))"
proof -
  have n: "m_nrows (matrix_slice mat r0 nr c0 nc) = nr" "m_dtype (matrix_slice mat r0 nr c0 nc) = dt"
    using dm by (simp_all add: matrix_slice_def mat_of_def)
  have "vec_of dt nr (\<lambda>i. map_option (cast dt) (msum_entry (at_dtype op dt) (row_values (matrix_slice mat r0 nr c0 nc) i)))
      = vec_of dt nr (\<lambda>i. msum_entry (at_dtype op dt) (List.map_filter (m_get mat (r0 + i)) [c0..<c0 + nc]))"
    by (rule vec_of_cong)
      (simp add: row_values_slice cast_msum_entry [OF m map_filter_m_get_in_dtype [OF c]])
  then show ?thesis
    using h by (simp add: fn_reduce_axis_def wrap_inner_def matrix_reduce_rowwise_def n axis_block_def)
qed

lemma rowwise_slice:
  assumes m: "monoid_on dt (at_dtype op dt)" and c: "list_all (in_dtype dt) (map snd (m_entries mat))"
    and b: "r0 + nr \<le> m_nrows mat" and dm: "m_dtype mat = dt"
  shows "wrap_inner (GVector (vector_slice (matrix_reduce_rowwise op dt mat) r0 nr))
     = axis_block dt (at_dtype op dt) nr (\<lambda>i. row_values mat (r0 + i))"
proof -
  have "vec_of dt nr (\<lambda>i. v_get (matrix_reduce_rowwise op dt mat) (r0 + i))
      = vec_of dt nr (\<lambda>i. msum_entry (at_dtype op dt) (row_values mat (r0 + i)))"
  proof (rule vec_of_cong)
    fix i assume "i < nr"
    with b have "r0 + i < m_nrows mat" by simp
    moreover have "list_all (in_dtype dt) (row_values mat (r0 + i))"
      unfolding row_values_def by (rule map_filter_m_get_in_dtype [OF c])
    ultimately show "v_get (matrix_reduce_rowwise op dt mat) (r0 + i)
        = msum_entry (at_dtype op dt) (row_values mat (r0 + i))"
      using dm by (simp add: matrix_reduce_rowwise_def v_get_vec_of cast_msum_entry [OF m])
  qed
  then show ?thesis
    by (simp add: vector_slice_def axis_block_def matrix_reduce_rowwise_def vec_of_def)
qed

lemma spans_eq_Nil: "spans off sizes = [] \<longleftrightarrow> sizes = []"
  by (cases sizes) simp_all

lemma reduce_rowwise_partitioned:
  assumes m: "monoid_on dt (at_dtype op dt)" and k: "0 < da_split_every B 1"
    and ne: "cs \<noteq> []" and r: "sum_list rs = m_nrows mat" and cc: "sum_list cs = m_ncols mat"
    and c: "list_all (in_dtype dt) (map snd (m_entries mat))"
    and h: "has_dtype op dt" and dm: "m_dtype mat = dt"
  shows "da_reduction B (matrix_blocks mat rs cs) (fn_reduce_axis op dt)
      (fn_reduce_axis_combine op) (Some 1)
     = Inr (vector_blocks (matrix_reduce_rowwise op dt mat) rs)"
proof -
  let ?A = "\<lambda>rb cb i. List.map_filter (m_get mat (fst rb + i)) [fst cb..<fst cb + snd cb]"
  let ?pss = "map (\<lambda>rb. map (\<lambda>cb. axis_block dt (at_dtype op dt) (snd rb) (?A rb cb)) (spans 0 cs)) (spans 0 rs)"
  have ch: "sequence (map (\<lambda>row. sequence (map (fn_reduce_axis op dt [1]) row))
        (map (map (\<lambda>b. wrap_inner (GMatrix b))) (split_matrix mat rs cs)))
      = Inr ?pss"
  proof -
    have "sequence (map (\<lambda>rb. sequence (map (\<lambda>cb. fn_reduce_axis op dt [1]
              (wrap_inner (GMatrix (matrix_slice mat (fst rb) (snd rb) (fst cb) (snd cb)))))
            (spans 0 cs))) (spans 0 rs))
        = Inr ?pss"
      by (intro sequence_Inr) (rule fn_reduce_axis_rowwise_slice [OF m c h dm])
    then show ?thesis
      by (simp add: split_matrix_def o_def split_def)
  qed
  have line: "\<And>rb d. rb \<in> set (spans 0 rs) \<Longrightarrow>
      tree_reduce1 (da_split_every B 1) (fn_reduce_axis_combine op) d
        (map (\<lambda>cb. axis_block dt (at_dtype op dt) (snd rb) (?A rb cb)) (spans 0 cs))
      = Inr (wrap_inner (GVector (vector_slice (matrix_reduce_rowwise op dt mat) (fst rb) (snd rb))))"
  proof -
    fix rb d assume rb: "rb \<in> set (spans 0 rs)"
    then have b: "fst rb + snd rb \<le> m_nrows mat"
      using spans_bounds [of "fst rb" "snd rb" 0 rs] r by simp
    have ne': "map (?A rb) (spans 0 cs) \<noteq> []"
      using ne by (simp add: spans_eq_Nil)
    have ca: "list_all (\<lambda>a. \<forall>i. list_all (in_dtype dt) (a i)) (map (?A rb) (spans 0 cs))"
      using map_filter_m_get_in_dtype [OF c] by (simp add: list_all_iff)
    have "tree_reduce1 (da_split_every B 1) (fn_reduce_axis_combine op) d
        (map (axis_block dt (at_dtype op dt) (snd rb)) (map (?A rb) (spans 0 cs)))
      = Inr (axis_block dt (at_dtype op dt) (snd rb) (\<lambda>i. concat (map (\<lambda>a. a i) (map (?A rb) (spans 0 cs)))))"
      by (rule tree_reduce1_axis [OF m k h ne' ca])
    moreover have "\<And>i. concat (map (\<lambda>a. a i) (map (?A rb) (spans 0 cs))) = row_values mat (fst rb + i)"
      using concat_spans [of "m_get mat (fst rb + i)" 0 cs for i] cc
      by (simp add: row_values_def o_def split_def)
    ultimately show "tree_reduce1 (da_split_every B 1) (fn_reduce_axis_combine op) d
        (map (\<lambda>cb. axis_block dt (at_dtype op dt) (snd rb) (?A rb cb)) (spans 0 cs))
      = Inr (wrap_inner (GVector (vector_slice (matrix_reduce_rowwise op dt mat) (fst rb) (snd rb))))"
      by (simp add: o_def rowwise_slice [OF m c b dm])
  qed
  have tr: "sequence (map (\<lambda>ps. tree_reduce1 (da_split_every B 1) (fn_reduce_axis_combine op)
        (da_depth (da_split_every B 1) (length ps) - 1) ps) ?pss)
      = Inr (map (\<lambda>rb. wrap_inner (GVector (vector_slice (matrix_reduce_rowwise op dt mat) (fst rb) (snd rb))))
          (spans 0 rs))"
    unfolding map_map o_def by (intro sequence_Inr) (use line in simp)
  show ?thesis
    using ch tr
    by (simp add: da_reduction_def matrix_blocks_def vector_blocks_def split_vector_def Let_def
        o_def split_def)
qed


lemma col_values_mat_of:
  "j < nc \<Longrightarrow> col_values (mat_of dt nr nc f) j = List.map_filter (\<lambda>i. f i j) [0..<nr]"
proof -
  assume j: "j < nc"
  have "m_nrows (mat_of dt nr nc f) = nr" by (simp add: mat_of_def)
  then show ?thesis
    using j by (simp add: col_values_def) (rule map_filter_cong', simp add: m_get_mat_of)
qed

lemma col_values_slice:
  "j < nc \<Longrightarrow> col_values (matrix_slice m r0 nr c0 nc) j
     = List.map_filter (\<lambda>i. m_get m i (c0 + j)) [r0..<r0 + nr]"
  by (simp add: matrix_slice_def col_values_mat_of upt_shift [symmetric] map_filter_map')

lemma map_filter_m_get_col_in_dtype:
  "list_all (in_dtype dt) (map snd (m_entries m)) \<Longrightarrow>
   list_all (in_dtype dt) (List.map_filter (\<lambda>i. m_get m i j) ixs)"
  by (induction ixs) (auto simp: list_all_iff List.map_filter_simps split: option.splits
      dest!: m_get_in_values)

lemma fn_reduce_axis_colwise_slice:
  assumes m: "monoid_on dt (at_dtype op dt)" and c: "list_all (in_dtype dt) (map snd (m_entries mat))"
    and h: "has_dtype op dt" and dm: "m_dtype mat = dt"
  shows "fn_reduce_axis op dt [0] (wrap_inner (GMatrix (matrix_slice mat r0 nr c0 nc)))
     = Inr (axis_block dt (at_dtype op dt) nc
         (\<lambda>j. List.map_filter (\<lambda>i. m_get mat i (c0 + j)) [r0..<r0 + nr]))"
proof -
  have n: "m_ncols (matrix_slice mat r0 nr c0 nc) = nc" "m_dtype (matrix_slice mat r0 nr c0 nc) = dt"
    using dm by (simp_all add: matrix_slice_def mat_of_def)
  have "vec_of dt nc (\<lambda>j. map_option (cast dt)
          (msum_entry (at_dtype op dt) (col_values (matrix_slice mat r0 nr c0 nc) j)))
      = vec_of dt nc (\<lambda>j. msum_entry (at_dtype op dt)
          (List.map_filter (\<lambda>i. m_get mat i (c0 + j)) [r0..<r0 + nr]))"
    by (rule vec_of_cong)
      (simp add: col_values_slice cast_msum_entry [OF m map_filter_m_get_col_in_dtype [OF c]])
  then show ?thesis
    using h
    by (simp add: fn_reduce_axis_def wrap_inner_def matrix_reduce_columnwise_def n axis_block_def)
qed

lemma colwise_slice:
  assumes m: "monoid_on dt (at_dtype op dt)" and c: "list_all (in_dtype dt) (map snd (m_entries mat))"
    and b: "c0 + nc \<le> m_ncols mat" and dm: "m_dtype mat = dt"
  shows "wrap_inner (GVector (vector_slice (matrix_reduce_columnwise op dt mat) c0 nc))
     = axis_block dt (at_dtype op dt) nc (\<lambda>j. col_values mat (c0 + j))"
proof -
  have "vec_of dt nc (\<lambda>j. v_get (matrix_reduce_columnwise op dt mat) (c0 + j))
      = vec_of dt nc (\<lambda>j. msum_entry (at_dtype op dt) (col_values mat (c0 + j)))"
  proof (rule vec_of_cong)
    fix j assume "j < nc"
    with b have "c0 + j < m_ncols mat" by simp
    moreover have "list_all (in_dtype dt) (col_values mat (c0 + j))"
      unfolding col_values_def by (rule map_filter_m_get_col_in_dtype [OF c])
    ultimately show "v_get (matrix_reduce_columnwise op dt mat) (c0 + j)
        = msum_entry (at_dtype op dt) (col_values mat (c0 + j))"
      using dm by (simp add: matrix_reduce_columnwise_def v_get_vec_of cast_msum_entry [OF m])
  qed
  then show ?thesis
    by (simp add: vector_slice_def axis_block_def matrix_reduce_columnwise_def vec_of_def)
qed

lemma transpose_grid:
  assumes "xs \<noteq> []"
  shows "transpose (map (\<lambda>x. map (f x) ys) xs) = map (\<lambda>y. map (\<lambda>x. f x y) xs) ys"
proof -
  have "transpose (map (\<lambda>x. map (f x) ys) xs)
      = map (\<lambda>i. map (\<lambda>j. map (\<lambda>x. map (f x) ys) xs ! j ! i) [0..<length (map (\<lambda>x. map (f x) ys) xs)])
          [0..<length ys]"
    by (rule transpose_rectangle) (use assms in simp_all)
  also have "\<dots> = map (\<lambda>y. map (\<lambda>x. f x y) xs) ys"
  proof (rule nth_equalityI)
    show "length (map (\<lambda>i. map (\<lambda>j. map (\<lambda>x. map (f x) ys) xs ! j ! i)
              [0..<length (map (\<lambda>x. map (f x) ys) xs)]) [0..<length ys])
        = length (map (\<lambda>y. map (\<lambda>x. f x y) xs) ys)"
      by simp
  next
    fix i
    assume "i < length (map (\<lambda>i. map (\<lambda>j. map (\<lambda>x. map (f x) ys) xs ! j ! i)
              [0..<length (map (\<lambda>x. map (f x) ys) xs)]) [0..<length ys])"
    then have i: "i < length ys" by simp
    have "map (\<lambda>j. map (\<lambda>x. map (f x) ys) xs ! j ! i) [0..<length xs] = map (\<lambda>x. f x (ys ! i)) xs"
      by (rule nth_equalityI) (use i in simp_all)
    then show "map (\<lambda>i. map (\<lambda>j. map (\<lambda>x. map (f x) ys) xs ! j ! i)
              [0..<length (map (\<lambda>x. map (f x) ys) xs)]) [0..<length ys] ! i
        = map (\<lambda>y. map (\<lambda>x. f x y) xs) ys ! i"
      using i by simp
  qed
  finally show ?thesis .
qed

lemma reduce_columnwise_partitioned:
  assumes m: "monoid_on dt (at_dtype op dt)" and k: "0 < da_split_every B 1"
    and ne: "rs \<noteq> []" and r: "sum_list rs = m_nrows mat" and cc: "sum_list cs = m_ncols mat"
    and c: "list_all (in_dtype dt) (map snd (m_entries mat))"
    and h: "has_dtype op dt" and dm: "m_dtype mat = dt"
  shows "da_reduction B (matrix_blocks mat rs cs) (fn_reduce_axis op dt)
      (fn_reduce_axis_combine op) (Some 0)
     = Inr (vector_blocks (matrix_reduce_columnwise op dt mat) cs)"
proof -
  let ?A = "\<lambda>rb cb j. List.map_filter (\<lambda>i. m_get mat i (fst cb + j)) [fst rb..<fst rb + snd rb]"
  let ?blk = "\<lambda>rb cb. axis_block dt (at_dtype op dt) (snd cb) (?A rb cb)"
  let ?pss = "map (\<lambda>rb. map (?blk rb) (spans 0 cs)) (spans 0 rs)"
  have ch: "sequence (map (\<lambda>row. sequence (map (fn_reduce_axis op dt [0]) row))
        (map (map (\<lambda>b. wrap_inner (GMatrix b))) (split_matrix mat rs cs)))
      = Inr ?pss"
  proof -
    have "sequence (map (\<lambda>rb. sequence (map (\<lambda>cb. fn_reduce_axis op dt [0]
              (wrap_inner (GMatrix (matrix_slice mat (fst rb) (snd rb) (fst cb) (snd cb)))))
            (spans 0 cs))) (spans 0 rs))
        = Inr ?pss"
      by (intro sequence_Inr) (rule fn_reduce_axis_colwise_slice [OF m c h dm])
    then show ?thesis
      by (simp add: split_matrix_def o_def split_def)
  qed
  have sne: "spans 0 rs \<noteq> []"
    using ne by (simp add: spans_eq_Nil)
  have tp: "transpose ?pss = map (\<lambda>cb. map (\<lambda>rb. ?blk rb cb) (spans 0 rs)) (spans 0 cs)"
    by (rule transpose_grid [OF sne])
  have line: "\<And>cb d. cb \<in> set (spans 0 cs) \<Longrightarrow>
      tree_reduce1 (da_split_every B 1) (fn_reduce_axis_combine op) d
        (map (\<lambda>rb. ?blk rb cb) (spans 0 rs))
      = Inr (wrap_inner (GVector (vector_slice (matrix_reduce_columnwise op dt mat) (fst cb) (snd cb))))"
  proof -
    fix cb d assume cb: "cb \<in> set (spans 0 cs)"
    then have b: "fst cb + snd cb \<le> m_ncols mat"
      using spans_bounds [of "fst cb" "snd cb" 0 cs] cc by simp
    have ne': "map (\<lambda>rb. ?A rb cb) (spans 0 rs) \<noteq> []"
      using sne by simp
    have ca: "list_all (\<lambda>a. \<forall>i. list_all (in_dtype dt) (a i)) (map (\<lambda>rb. ?A rb cb) (spans 0 rs))"
      using map_filter_m_get_col_in_dtype [OF c] by (simp add: list_all_iff)
    have "tree_reduce1 (da_split_every B 1) (fn_reduce_axis_combine op) d
        (map (axis_block dt (at_dtype op dt) (snd cb)) (map (\<lambda>rb. ?A rb cb) (spans 0 rs)))
      = Inr (axis_block dt (at_dtype op dt) (snd cb)
          (\<lambda>j. concat (map (\<lambda>a. a j) (map (\<lambda>rb. ?A rb cb) (spans 0 rs)))))"
      by (rule tree_reduce1_axis [OF m k h ne' ca])
    moreover have "\<And>j. concat (map (\<lambda>a. a j) (map (\<lambda>rb. ?A rb cb) (spans 0 rs)))
        = col_values mat (fst cb + j)"
      using concat_spans [of "\<lambda>i. m_get mat i (fst cb + j)" 0 rs for j] r
      by (simp add: col_values_def o_def split_def)
    ultimately show "tree_reduce1 (da_split_every B 1) (fn_reduce_axis_combine op) d
        (map (\<lambda>rb. ?blk rb cb) (spans 0 rs))
      = Inr (wrap_inner (GVector (vector_slice (matrix_reduce_columnwise op dt mat) (fst cb) (snd cb))))"
      by (simp add: o_def colwise_slice [OF m c b dm])
  qed
  have tr: "sequence (map (\<lambda>ps. tree_reduce1 (da_split_every B 1) (fn_reduce_axis_combine op)
        (da_depth (da_split_every B 1) (length ps) - 1) ps) (transpose ?pss))
      = Inr (map (\<lambda>cb. wrap_inner (GVector (vector_slice (matrix_reduce_columnwise op dt mat) (fst cb) (snd cb))))
          (spans 0 cs))"
    unfolding tp map_map o_def by (intro sequence_Inr) (use line in simp)
  show ?thesis
    using ch tr
    by (simp add: da_reduction_def matrix_blocks_def vector_blocks_def split_vector_def Let_def
        o_def split_def)
qed

subsection \<open>The reduction of a partitioned object\<close>

lemma monoid_on_plus_INT64: "monoid_on INT64 (at_dtype plus_monoid INT64)"
  unfolding monoid_on_def at_dtype_def plus_monoid_def in_dtype_def
  by (simp add: mod_simps algebra_simps)

lemma reduce_op_monoid: "e_kwargs e = [] \<Longrightarrow> e_args e = MonoidArg op # rest \<Longrightarrow> reduce_op e = Inr op"
  by (simp add: reduce_op_def)

text \<open>
  Where the partitioned reduction agrees with the reduction of the whole object: when it
  is materialised at the dtype of the object, the values of the object are values of that
  dtype, and the monoid is defined for that dtype and is, on its values, associative and
  commutative with its identity. For \<^verbatim>\<open>reduce\<close> and \<^verbatim>\<open>reduce_scalar\<close> the result is
  the scalar of the whole object, for every partition into blocks that hold at least one
  value each; for \<^verbatim>\<open>reduce_rowwise\<close> and \<^verbatim>\<open>reduce_columnwise\<close> it is the vector of the
  whole object, cut as the rows (the columns) of the matrix are. The mask is not used by
  a reduction. The scalar reductions are stated for blocks that hold values, so that the
  statement does not rest on what the backend gives for the reduction of a block without
  any (\<^verbatim>\<open>_reduce_combine\<close> reads \<^verbatim>\<open>val.value.value\<close> of every partial scalar).
\<close>

theorem partitioned_reduction:
  assumes m: "monoid_on dt (at_dtype op dt)" and h: "has_dtype op dt"
    and k1: "0 < da_split_every B 1" and k2: "0 < da_split_every B 2"
    and kw: "e_kwargs e = []" and a: "e_args e = MonoidArg op # rest"
    and nm: "new_meta B (e_meta e) d msk = Inr (mt, dmask)" and md: "meta_dtype mt = dt"
  shows
    "(e_method_name e = ''reduce'' \<and> p_delayed (e_parent e) = vector_blocks v sizes
        \<and> v_dtype v = dt \<and> list_all (in_dtype dt) (v_values v)
        \<and> sizes \<noteq> [] \<and> sum_list sizes = v_size v
        \<and> list_all (\<lambda>b. vector_values b \<noteq> []) (split_vector v sizes) \<longrightarrow>
      GbDelayed_new B e d msk
        = Inr (get_return_type mt (Grid0 (wrap_inner (GScalar (vector_reduce op dt v))))))
   \<and> (e_method_name e = ''reduce_scalar'' \<and> p_delayed (e_parent e) = matrix_blocks mat rs cs
        \<and> m_dtype mat = dt \<and> list_all (in_dtype dt) (map snd (m_entries mat))
        \<and> rs \<noteq> [] \<and> sum_list rs = m_nrows mat \<and> sum_list cs = m_ncols mat
        \<and> list_all (list_all (\<lambda>b. matrix_values b \<noteq> [])) (split_matrix mat rs cs) \<longrightarrow>
      GbDelayed_new B e d msk
        = Inr (get_return_type mt (Grid0 (wrap_inner (GScalar (matrix_reduce_scalar op dt mat))))))
   \<and> (e_method_name e = ''reduce_rowwise'' \<and> p_delayed (e_parent e) = matrix_blocks mat rs cs
        \<and> m_dtype mat = dt \<and> list_all (in_dtype dt) (map snd (m_entries mat))
        \<and> cs \<noteq> [] \<and> sum_list rs = m_nrows mat \<and> sum_list cs = m_ncols mat \<longrightarrow>
      GbDelayed_new B e d msk
        = Inr (get_return_type mt (vector_blocks (matrix_reduce_rowwise op dt mat) rs)))
   \<and> (e_method_name e = ''reduce_columnwise'' \<and> p_delayed (e_parent e) = matrix_blocks mat rs cs
        \<and> m_dtype mat = dt \<and> list_all (in_dtype dt) (map snd (m_entries mat))
        \<and> rs \<noteq> [] \<and> sum_list rs = m_nrows mat \<and> sum_list cs = m_ncols mat \<longrightarrow>
      GbDelayed_new B e d msk
        = Inr (get_return_type mt (vector_blocks (matrix_reduce_columnwise op dt mat) cs)))"
proof (intro conjI impI)
  note r = reduce_op_monoid [OF kw a]
  {
    assume "e_method_name e = ''reduce'' \<and> p_delayed (e_parent e) = vector_blocks v sizes
        \<and> v_dtype v = dt \<and> list_all (in_dtype dt) (v_values v)
        \<and> sizes \<noteq> [] \<and> sum_list sizes = v_size v
        \<and> list_all (\<lambda>b. vector_values b \<noteq> []) (split_vector v sizes)"
    then have n: "e_method_name e = ''reduce''" and p: "p_delayed (e_parent e) = vector_blocks v sizes"
      and dv: "v_dtype v = dt" and c: "list_all (in_dtype dt) (v_values v)"
      and ne: "sizes \<noteq> []" and s: "sum_list sizes = v_size v"
      by simp_all
    from reduce_partitioned_vector [OF m k1 ne s c h dv]
    show "GbDelayed_new B e d msk
        = Inr (get_return_type mt (Grid0 (wrap_inner (GScalar (vector_reduce op dt v)))))"
      by (simp add: GbDelayed_new_def nm md n GbDelayed_reduce_def r p)
  next
    assume "e_method_name e = ''reduce_scalar'' \<and> p_delayed (e_parent e) = matrix_blocks mat rs cs
        \<and> m_dtype mat = dt \<and> list_all (in_dtype dt) (map snd (m_entries mat))
        \<and> rs \<noteq> [] \<and> sum_list rs = m_nrows mat \<and> sum_list cs = m_ncols mat
        \<and> list_all (list_all (\<lambda>b. matrix_values b \<noteq> [])) (split_matrix mat rs cs)"
    then have n: "e_method_name e = ''reduce_scalar''"
      and p: "p_delayed (e_parent e) = matrix_blocks mat rs cs"
      and dm: "m_dtype mat = dt" and c: "list_all (in_dtype dt) (map snd (m_entries mat))"
      and ne: "rs \<noteq> []" and sr: "sum_list rs = m_nrows mat" and sc: "sum_list cs = m_ncols mat"
      by simp_all
    from reduce_partitioned_matrix [OF m k2 ne sr sc c h dm]
    show "GbDelayed_new B e d msk
        = Inr (get_return_type mt (Grid0 (wrap_inner (GScalar (matrix_reduce_scalar op dt mat)))))"
      by (simp add: GbDelayed_new_def nm md n GbDelayed_reduce_scalar_def r p)
  next
    assume "e_method_name e = ''reduce_rowwise'' \<and> p_delayed (e_parent e) = matrix_blocks mat rs cs
        \<and> m_dtype mat = dt \<and> list_all (in_dtype dt) (map snd (m_entries mat))
        \<and> cs \<noteq> [] \<and> sum_list rs = m_nrows mat \<and> sum_list cs = m_ncols mat"
    then have n: "e_method_name e = ''reduce_rowwise''"
      and p: "p_delayed (e_parent e) = matrix_blocks mat rs cs"
      and dm: "m_dtype mat = dt" and c: "list_all (in_dtype dt) (map snd (m_entries mat))"
      and ne: "cs \<noteq> []" and sr: "sum_list rs = m_nrows mat" and sc: "sum_list cs = m_ncols mat"
      by simp_all
    from reduce_rowwise_partitioned [OF m k1 ne sr sc c h dm]
    show "GbDelayed_new B e d msk
        = Inr (get_return_type mt (vector_blocks (matrix_reduce_rowwise op dt mat) rs))"
      by (simp add: GbDelayed_new_def nm md n GbDelayed_reduce_along_axis_def r p)
  next
    assume "e_method_name e = ''reduce_columnwise'' \<and> p_delayed (e_parent e) = matrix_blocks mat rs cs
        \<and> m_dtype mat = dt \<and> list_all (in_dtype dt) (map snd (m_entries mat))
        \<and> rs \<noteq> [] \<and> sum_list rs = m_nrows mat \<and> sum_list cs = m_ncols mat"
    then have n: "e_method_name e = ''reduce_columnwise''"
      and p: "p_delayed (e_parent e) = matrix_blocks mat rs cs"
      and dm: "m_dtype mat = dt" and c: "list_all (in_dtype dt) (map snd (m_entries mat))"
      and ne: "rs \<noteq> []" and sr: "sum_list rs = m_nrows mat" and sc: "sum_list cs = m_ncols mat"
      by simp_all
    from reduce_columnwise_partitioned [OF m k1 ne sr sc c h dm]
    show "GbDelayed_new B e d msk
        = Inr (get_return_type mt (vector_blocks (matrix_reduce_columnwise op dt mat) cs))"
      by (simp add: GbDelayed_new_def nm md n GbDelayed_reduce_along_axis_def r p)
  }
qed

theorem partitioned_reduction_witness:
  "monoid_on INT64 (at_dtype plus_monoid INT64) \<and> has_dtype plus_monoid INT64
   \<and> 0 < da_split_every example_backend 1 \<and> 0 < da_split_every example_backend 2
   \<and> list_all (\<lambda>b. vector_values b \<noteq> []) (split_vector example_values [2, 1])
   \<and> list_all (list_all (\<lambda>b. matrix_values b \<noteq> [])) (split_matrix example_matrix [2] [1, 1])
   \<and> GbDelayed_new example_backend example_split_reduce None None
       = Inr (get_return_type scalar_meta
           (Grid0 (wrap_inner (GScalar (vector_reduce plus_monoid INT64 example_values)))))
   \<and> vector_reduce plus_monoid INT64 example_values = \<lparr>s_dtype = INT64, s_value = Some 12\<rparr>
   \<and> GbDelayed_new example_backend (example_matrix_reduce ''reduce_scalar'' [2] [1, 1] scalar_meta)
         None None
       = Inr (get_return_type scalar_meta
           (Grid0 (wrap_inner (GScalar (matrix_reduce_scalar plus_monoid INT64 example_matrix)))))
   \<and> GbDelayed_new example_backend
         (example_matrix_reduce ''reduce_rowwise'' [1, 1] [1, 1] (empty_vector_meta 2)) None None
       = Inr (get_return_type (empty_vector_meta 2)
           (vector_blocks (matrix_reduce_rowwise plus_monoid INT64 example_matrix) [1, 1]))
   \<and> GbDelayed_new example_backend
         (example_matrix_reduce ''reduce_columnwise'' [1, 1] [1, 1] (empty_vector_meta 2)) None None
       = Inr (get_return_type (empty_vector_meta 2)
           (vector_blocks (matrix_reduce_columnwise plus_monoid INT64 example_matrix) [1, 1]))"
proof -
  have m: "monoid_on INT64 (at_dtype plus_monoid INT64)"
    by (rule monoid_on_plus_INT64)
  have h: "has_dtype plus_monoid INT64"
    by (simp add: has_dtype_def plus_monoid_def)
  have k1: "0 < da_split_every example_backend 1" and k2: "0 < da_split_every example_backend 2"
    by (simp_all add: example_backend_def)
  have nv: "list_all (\<lambda>b. vector_values b \<noteq> []) (split_vector example_values [2, 1])"
    by code_simp
  have nmx: "list_all (list_all (\<lambda>b. matrix_values b \<noteq> [])) (split_matrix example_matrix [2] [1, 1])"
    by code_simp
  have val: "vector_reduce plus_monoid INT64 example_values = \<lparr>s_dtype = INT64, s_value = Some 12\<rparr>"
    by code_simp
  have cv: "list_all (in_dtype INT64) (v_values example_values)"
    by (simp add: example_values_def in_dtype_def)
  have cm: "list_all (in_dtype INT64) (map snd (m_entries example_matrix))"
    by (simp add: example_matrix_def in_dtype_def)
  have ms: "new_meta example_backend scalar_meta None None = Inr (scalar_meta, None)"
    by (simp add: new_meta_def example_backend_def with_dtype_def)
  have mv: "new_meta example_backend (empty_vector_meta 2) None None = Inr (empty_vector_meta 2, None)"
    by (simp add: new_meta_def example_backend_def with_dtype_def)
  have ds: "meta_dtype scalar_meta = INT64" and dv: "meta_dtype (empty_vector_meta 2) = INT64"
    by (simp_all add: scalar_meta_def empty_vector_meta_def)
  have a: "GbDelayed_new example_backend example_split_reduce None None
       = Inr (get_return_type scalar_meta
           (Grid0 (wrap_inner (GScalar (vector_reduce plus_monoid INT64 example_values)))))"
    using partitioned_reduction [OF m h k1 k2, of example_split_reduce "[]" None None scalar_meta None
        example_values "[2, 1]"] ms ds cv nv
    by (simp add: example_split_reduce_def example_values_def)
  have b: "GbDelayed_new example_backend (example_matrix_reduce ''reduce_scalar'' [2] [1, 1] scalar_meta)
         None None
       = Inr (get_return_type scalar_meta
           (Grid0 (wrap_inner (GScalar (matrix_reduce_scalar plus_monoid INT64 example_matrix)))))"
    using partitioned_reduction [OF m h k1 k2,
        of "example_matrix_reduce ''reduce_scalar'' [2] [1, 1] scalar_meta" "[]" None None
          scalar_meta None _ _ example_matrix "[2]" "[1, 1]"] ms ds cm nmx
    by (simp add: example_matrix_reduce_def example_matrix_def)
  have c: "GbDelayed_new example_backend
         (example_matrix_reduce ''reduce_rowwise'' [1, 1] [1, 1] (empty_vector_meta 2)) None None
       = Inr (get_return_type (empty_vector_meta 2)
           (vector_blocks (matrix_reduce_rowwise plus_monoid INT64 example_matrix) [1, 1]))"
    using partitioned_reduction [OF m h k1 k2,
        of "example_matrix_reduce ''reduce_rowwise'' [1, 1] [1, 1] (empty_vector_meta 2)" "[]" None None
          "empty_vector_meta 2" None _ _ example_matrix "[1, 1]" "[1, 1]"] mv dv cm
    by (simp add: example_matrix_reduce_def example_matrix_def)
  have d: "GbDelayed_new example_backend
         (example_matrix_reduce ''reduce_columnwise'' [1, 1] [1, 1] (empty_vector_meta 2)) None None
       = Inr (get_return_type (empty_vector_meta 2)
           (vector_blocks (matrix_reduce_columnwise plus_monoid INT64 example_matrix) [1, 1]))"
    using partitioned_reduction [OF m h k1 k2,
        of "example_matrix_reduce ''reduce_columnwise'' [1, 1] [1, 1] (empty_vector_meta 2)" "[]" None None
          "empty_vector_meta 2" None _ _ example_matrix "[1, 1]" "[1, 1]"] mv dv cm
    by (simp add: example_matrix_reduce_def example_matrix_def)
  from m h k1 k2 nv nmx a val b c d show ?thesis by simp
qed


end
